theory Spec2Isabelle
  imports Complex_Main "HOL-Library.AList" "HOL-Library.Product_Lexorder" "HOL-Library.Multiset"
begin

section \<open>Python values: errors and dictionaries\<close>

text \<open>
  The engine is Python. An exception is a value of \<open>error\<close>; a function that can raise
  returns \<open>error + 'a\<close>. A \<open>dict\<close> keeps its keys in insertion order, so it is an
  association list whose keys are distinct: \<open>d[k] = v\<close> overwrites in place or appends,
  which is what \<open>AList.update\<close> does. Scores are IEEE doubles in the source and real
  numbers here; identifiers are ASCII strings.
\<close>

datatype error = KeyError | TypeError | IndexError | ValueError | ZeroDivisionError | UnboundLocalError | AttributeError

type_synonym ('k, 'v) dict = "('k \<times> 'v) list"

definition dict_get :: "('k, 'v) dict \<Rightarrow> 'k \<Rightarrow> error + 'v" where
  "dict_get d k = (case map_of d k of None \<Rightarrow> Inl KeyError | Some v \<Rightarrow> Inr v)"

definition dict_update :: "('k, 'v) dict \<Rightarrow> ('k, 'v) dict \<Rightarrow> ('k, 'v) dict" where
  "dict_update d other = fold (\<lambda>(k, v) acc. AList.update k v acc) other d"

definition keys :: "('k, 'v) dict \<Rightarrow> 'k list" where
  "keys d = map fst d"

definition bind_err :: "error + 'a \<Rightarrow> ('a \<Rightarrow> error + 'b) \<Rightarrow> error + 'b" where
  "bind_err m f = (case m of Inl e \<Rightarrow> Inl e | Inr x \<Rightarrow> f x)"

section \<open>The knowledge base accessor (knowledge\_bases.py)\<close>

text \<open>
  The store maps an entity identifier to a pickled dictionary: the three text fields and,
  per predicate, its adjacency. For a forward predicate the adjacency maps each object to
  its rank or literal type tag; for a predicate marked \<open>(-)\<close> the code only iterates and
  counts the stored subjects, which are the keys of the inner dictionary here.
  \<open>edge_txn.get\<close> returns nothing for a missing key.
\<close>

record kb_entry =
  labels :: "string list"
  aliases :: "string list"
  descriptions :: "string list"
  predicates :: "(string, (string, string) dict) dict"

type_synonym kb = "string \<Rightarrow> kb_entry option"

definition type_properties :: "string list" where
  "type_properties = [''P31'', ''P106'', ''P39'', ''P105'']"

definition instanceOfPID :: string where
  "instanceOfPID = ''P31''"

definition subClassPID :: string where
  "subClassPID = ''P279''"

definition transitivePID :: "string list" where
  "transitivePID = [''P131'', ''P276'', ''P279'', ''P361'', ''P403'', ''P460'', ''P527'', ''P706'',
     ''P927'', ''P1647'', ''P2094'', ''P3373'', ''P3403'', ''P5607'', ''P5973'', ''P171'']"

text \<open>\<open>prop_obj_dict\<close> after \<open>key = edge_txn.get(...)\<close>: the record's predicates, or \<open>{}\<close>.\<close>

definition prop_obj_dict :: "kb \<Rightarrow> string \<Rightarrow> (string, (string, string) dict) dict" where
  "prop_obj_dict K entity_id = (case K entity_id of None \<Rightarrow> [] | Some e \<Rightarrow> predicates e)"

definition get_num_edges :: "kb \<Rightarrow> string \<Rightarrow> nat" where
  "get_num_edges K entity_id = sum_list (map (\<lambda>(prop, obj_dict). length obj_dict) (prop_obj_dict K entity_id))"

text \<open>\<open>prop_obj_dict.get(prop, {})\<close>: the adjacency of one predicate on an entity.\<close>

definition adjacency_of :: "kb \<Rightarrow> string \<Rightarrow> string \<Rightarrow> (string, string) dict" where
  "adjacency_of K entity_id prop =
     (case map_of (prop_obj_dict K entity_id) prop of None \<Rightarrow> [] | Some d \<Rightarrow> d)"

definition get_supertypes_of_type :: "kb \<Rightarrow> string \<Rightarrow> (string, string) dict" where
  "get_supertypes_of_type K type_id =
     (case map_of (prop_obj_dict K type_id) subClassPID of None \<Rightarrow> [] | Some d \<Rightarrow> d)"

text \<open>The loop over \<open>type_properties\<close>: the accumulator is \<open>(instanceOf_types, others_types)\<close>.\<close>

definition types_step ::
  "(string, (string, string) dict) dict \<Rightarrow> string \<Rightarrow>
   (string, string) dict \<times> (string, string) dict \<Rightarrow> (string, string) dict \<times> (string, string) dict" where
  "types_step pod prop acc =
     (case map_of pod prop of
        None \<Rightarrow> acc
      | Some a_type \<Rightarrow>
          if a_type = [] then acc
          else if prop = instanceOfPID then (dict_update (fst acc) a_type, snd acc)
          else (fst acc, dict_update (snd acc) a_type))"

text \<open>The loop \<open>for t in inter_types\<close>: the accumulator is \<open>types\<close>.\<close>

definition supertype_step :: "kb \<Rightarrow> string \<Rightarrow> (string, string) dict \<Rightarrow> (string, string) dict" where
  "supertype_step K t types =
     (case map_of (prop_obj_dict K t) subClassPID of
        None \<Rightarrow> types
      | Some super_type \<Rightarrow> if super_type = [] then types else dict_update types super_type)"

fun digits_of :: "nat \<Rightarrow> nat \<Rightarrow> string" where
  "digits_of 0 n = []"
| "digits_of (Suc fuel) n =
     (if n < 10 then [char_of (48 + n)] else digits_of fuel (n div 10) @ [char_of (48 + n mod 10)])"

text \<open>\<open>str(i)\<close> for a non-negative integer: its decimal digits (\<open>n + 1\<close> digits always suffice).\<close>

definition str_of_nat :: "nat \<Rightarrow> string" where
  "str_of_nat n = digits_of (Suc n) n"

definition level_key :: "int \<Rightarrow> string" where
  "level_key i = ''level_'' @ str_of_nat (nat i)"

text \<open>One round of \<open>for i in range(2, num_level+1)\<close>: the accumulator is
  \<open>(hierachical_types, inter_types)\<close>.\<close>

definition level_step ::
  "kb \<Rightarrow> int \<Rightarrow> (string, (string, string) dict) dict \<times> (string, string) dict \<Rightarrow>
   (string, (string, string) dict) dict \<times> (string, string) dict" where
  "level_step K i acc =
     (let h = (if map_of (fst acc) (level_key i) = None then AList.update (level_key i) [] (fst acc) else fst acc);
          types = fold (supertype_step K) (keys (snd acc)) [];
          cur = (case map_of h (level_key i) of None \<Rightarrow> [] | Some d \<Rightarrow> d)
      in (AList.update (level_key i) (dict_update cur types) h, types))"

definition get_types_of_entity :: "kb \<Rightarrow> string \<Rightarrow> int \<Rightarrow> (string, (string, string) dict) dict" where
  "get_types_of_entity K entity_id num_level =
     (if num_level > 0 then
        (let pod = prop_obj_dict K entity_id;
             acc = fold (types_step pod) type_properties ([], []);
             level_1 = (if snd acc \<noteq> [] then snd acc else fst acc);
             h = [(''level_1'', level_1)]
         in if num_level > 1 then fst (fold (level_step K) [2..num_level] (h, level_1)) else h)
      else [])"


section \<open>Relations between two candidates (annotation\_models.py, \_context\_scoring)\<close>

text \<open>\<open>s.replace(old, new)\<close>: every occurrence of \<open>old\<close>, left to right, without overlap.\<close>


function py_replace :: "string \<Rightarrow> string \<Rightarrow> string \<Rightarrow> string" where
  "py_replace old new s =
     (if old = [] then new @ concat (map (\<lambda>c. c # new) s)
      else if s = [] then []
      else if take (length old) s = old then new @ py_replace old new (drop (length old) s)
      else hd s # py_replace old new (tl s))"
  by pat_completeness auto
termination
  by (relation "measure (\<lambda>(old, new, s). length s)") auto

declare py_replace.simps [simp del]

text \<open>The named tuple \<open>Edge\<close>.\<close>

record edge =
  edge_pid :: string
  edge_info :: string

text \<open>\<open>rel[:3] == "(-)"\<close>: the relation is traversed backwards.\<close>

definition has_marker :: "string \<Rightarrow> bool" where
  "has_marker rel = (take 3 rel = ''(-)'')"

text \<open>"reverse the direction of rel\_tail".\<close>

definition reverse_rel_tail :: "string \<Rightarrow> string" where
  "reverse_rel_tail rel_tail =
     (if has_marker rel_tail then py_replace ''(-)'' '''' rel_tail else ''(-)'' @ rel_tail)"

text \<open>
  The body of the innermost loop of the multi-hop branch: the relation found through one
  shared neighbour for one pair of predicates, and its semantic proximity.
\<close>

definition path_relation :: "real \<Rightarrow> string \<Rightarrow> string \<Rightarrow> string \<times> real" where
  "path_relation node_popularity rel_head rel_tail0 =
     (let rel_tail = reverse_rel_tail rel_tail0 in
      if rel_head = rel_tail then
        (if py_replace ''(-)'' '''' rel_head \<in> set transitivePID then (rel_head, 1)
         else (rel_head @ ''::'' @ rel_tail, node_popularity))
      else
        (rel_head @ ''::'' @ rel_tail,
         if (has_marker rel_head \<and> \<not> has_marker rel_tail) \<or> (\<not> has_marker rel_head \<and> has_marker rel_tail)
         then node_popularity / 1.75 else node_popularity))"

text \<open>
  The two accumulators of the loop, \<open>best_semantic_proximity\<close> and the dictionary
  \<open>semantic_proximities\<close>, after one relation.
\<close>

definition record_relation :: "string \<times> real \<Rightarrow> real \<times> (string, real) dict \<Rightarrow> real \<times> (string, real) dict" where
  "record_relation c acc =
     (max (fst acc) (snd c),
      AList.update (fst c) (min (case map_of (snd acc) (fst c) of None \<Rightarrow> snd c | Some v \<Rightarrow> v) (snd c)) (snd acc))"

definition node_popularity :: "kb \<Rightarrow> string \<Rightarrow> real" where
  "node_popularity K node =
     (let num_edges = get_num_edges K node
      in if num_edges \<noteq> 0 then 1 / (2 + log 10 (2 + real num_edges)) else 0)"

text \<open>\<open>G[node]\<close> for a node of the intersection (the key is there).\<close>

definition edges_at :: "(string, edge list) dict \<Rightarrow> string \<Rightarrow> edge list" where
  "edges_at G node = (case map_of G node of None \<Rightarrow> [] | Some es \<Rightarrow> es)"

definition multi_hop_node ::
  "kb \<Rightarrow> (string, edge list) dict \<Rightarrow> (string, edge list) dict \<Rightarrow> string \<Rightarrow>
   real \<times> (string, real) dict \<Rightarrow> real \<times> (string, real) dict" where
  "multi_hop_node K G_head G_tail node acc =
     (let np = node_popularity K node in
      if np > 0 then
        fold (\<lambda>prop_head. fold (\<lambda>prop_tail.
                record_relation (path_relation np (edge_pid prop_head) (edge_pid prop_tail)))
              (edges_at G_tail node)) (edges_at G_head node) acc
      else acc)"

text \<open>
  The loop \<open>for node in G_intersect\<close>. A Python set iterates in an order the language
  leaves open, so the order of the nodes is a parameter.
\<close>

definition multi_hop_relations ::
  "kb \<Rightarrow> (string, edge list) dict \<Rightarrow> (string, edge list) dict \<Rightarrow> string list \<Rightarrow>
   real \<times> (string, real) dict \<Rightarrow> real \<times> (string, real) dict" where
  "multi_hop_relations K G_head G_tail nodes acc = fold (multi_hop_node K G_head G_tail) nodes acc"


section \<open>The multi-hop rule in the words of the specification\<close>

text \<open>
  The relation emitted for a pair of predicates through a shared neighbour of popularity
  \<open>w\<close>: a single predicate of proximity 1 when the head predicate equals the reversed
  tail predicate and is transitive, else the path, penalised when exactly one of its two
  predicates is backward. \<open>spec_emitted\<close> lists the emissions, over the shared
  neighbours that have an edge in the knowledge base.
\<close>

definition spec_relation :: "real \<Rightarrow> string \<Rightarrow> string \<Rightarrow> string \<times> real" where
  "spec_relation w p_head p_tail =
     (if p_head = reverse_rel_tail p_tail \<and> py_replace ''(-)'' '''' p_head \<in> set transitivePID
      then (p_head, 1)
      else (p_head @ ''::'' @ reverse_rel_tail p_tail,
            if has_marker p_head \<noteq> has_marker (reverse_rel_tail p_tail) then w / 1.75 else w))"

definition spec_emitted ::
  "kb \<Rightarrow> (string, edge list) dict \<Rightarrow> (string, edge list) dict \<Rightarrow> string list \<Rightarrow> (string \<times> real) list" where
  "spec_emitted K G_head G_tail nodes =
     concat (map (\<lambda>n. if get_num_edges K n \<noteq> 0
                       then concat (map (\<lambda>ph. map (\<lambda>pt.
                              spec_relation (1 / (2 + log 10 (2 + real (get_num_edges K n)))) (edge_pid ph) (edge_pid pt))
                              (edges_at G_tail n)) (edges_at G_head n))
                       else []) nodes)"

text \<open>The proximities already recorded for a relation in \<open>semantic_proximities\<close>.\<close>

definition seen :: "(string, real) dict \<Rightarrow> string \<Rightarrow> real set" where
  "seen d r = (case map_of d r of None \<Rightarrow> {} | Some v \<Rightarrow> {v})"

section \<open>The engine state (annotation\_models.py, Baseline\_Model)\<close>

text \<open>
  The named tuples \<open>Cell(row_index, col_index)\<close>, \<open>Candidate_Entity(row_index, col_index, id)\<close>,
  \<open>Column_Pair(head_col_index, tail_col_index)\<close> and \<open>Column(col_index)\<close> are tuples;
  indices are never negative. The dictionaries the engine builds for contexts,
  annotations and relation candidates have fixed keys and are records.
\<close>

type_synonym cell = "nat \<times> nat"
type_synonym candidate = "nat \<times> nat \<times> string"
type_synonym column_pair = "nat \<times> nat"
type_synonym hierarchy = "(string, (string, string) dict) dict"

record relation_candidate =
  rel_id :: string
  rel_semantic_proximity :: real

record col_context =
  ctx_weight :: real
  ctx_score :: real
  ctx_context :: "string list"

record cea =
  cea_id :: string
  cea_score :: real

record cta =
  cta_id :: string
  cta_score :: real
  cta_coverage :: real

record cpa =
  cpa_id :: string
  cpa_score :: real
  cpa_semantic_proximity :: real
  cpa_coverage :: real

record potential =
  pot_cpa_coeff :: real
  pot_cpa_score :: real
  pot_cpa_id :: string

record subgraph =
  sg_entity :: "(string, edge list) dict"
  sg_literal :: "(string, edge list) dict"
  sg_pids :: "string set"

text \<open>
  The attributes of \<open>Baseline_Model\<close>. \<open>popular_entities\<close>, \<open>node_generality\<close> and
  \<open>unrelated_candidate_pairs\<close> are created empty and never used, and are left out.
  \<open>time.time()\<close> reads a clock outside the program: \<open>clock\<close> gives its successive
  readings and \<open>ticks\<close> counts the readings made so far.
\<close>

record engine =
  param_K :: nat
  KB :: kb
  is_model_init_success :: bool
  lookup_time :: real
  preprocessing_time :: real
  avg_lookup_candidate :: real
  subgraph_construction_time :: real
  entity_scoring_time :: real
  cea_task_time :: real
  cta_task_time :: real
  cpa_task_time :: real
  abnormal_lookup_mentions :: "string list"
  table :: "string list list"
  num_columns :: nat
  num_rows :: nat
  first_data_row :: nat
  entity_cols :: "nat list"
  literal_cols :: "nat list"
  date_cols :: "nat list"
  numeral_cols_with_unit :: "nat list"
  numeral_cols_without_unit :: "nat list"
  textual_cols :: "nat list"
  index_col :: "nat option"
  lookup :: "(cell, string list) dict"
  lookup_scores :: "(candidate, real) dict"
  multiHop_context :: bool
  transitivePropertyOnly_path :: bool
  soft_scoring :: bool
  semantic_context_weight :: real
  literal_context_weight :: real
  entity_context_scores :: "(candidate, (nat, col_context) dict) dict"
  entity_sim_scores :: "(candidate, real) dict"
  entity_scores :: "(candidate, real) dict"
  G_memory :: "(string, subgraph) dict"
  type_graph :: "(string, (string, string) dict) dict"
  cached_cpa_candidates :: "(string \<times> string, relation_candidate list) dict"
  unrelated_col_pairs :: "column_pair set"
  cached_cta_candidates :: "(string, hierarchy) dict"
  contextless_cells :: "(cell, real) dict"
  potential_candidates :: "(candidate, potential list) dict"
  cta_annot :: "(nat, cta list) dict"
  cea_annot :: "(cell, cea list) dict"
  cpa_annot :: "(column_pair, cpa list) dict"
  clock :: "nat \<Rightarrow> real"
  ticks :: nat

definition time_time :: "engine \<Rightarrow> real \<times> engine" where
  "time_time s = (clock s (ticks s), s\<lparr>ticks := Suc (ticks s)\<rparr>)"

text \<open>\<open>round(x)\<close> rounds a half to the even neighbour; \<open>round(x, 2)\<close> keeps two decimals.\<close>

definition py_round :: "real \<Rightarrow> int" where
  "py_round x =
     (let f = \<lfloor>x\<rfloor>; d = x - of_int f
      in if d < 1 / 2 then f else if d > 1 / 2 then f + 1 else if even f then f else f + 1)"

definition round2 :: "real \<Rightarrow> real" where
  "round2 x = of_int (py_round (x * 100)) / 100"

text \<open>What a task returns: the annotations, the empty string, or nothing (\<open>None\<close>).\<close>

datatype 'a task_result = Annotations "'a list" | EmptyString | NoneValue

text \<open>A loop whose body can raise stops at the first exception.\<close>

fun fold_err :: "('a \<Rightarrow> 's \<Rightarrow> error + 's) \<Rightarrow> 'a list \<Rightarrow> 's \<Rightarrow> error + 's" where
  "fold_err f [] s = Inr s"
| "fold_err f (x # xs) s = (case f x s of Inl e \<Rightarrow> Inl e | Inr s' \<Rightarrow> fold_err f xs s')"

text \<open>
  \<open>sorted(xs, key=key, reverse=True)\<close>: descending, and elements with equal keys stay in
  their original order (the list is reversed, sorted stably, and reversed again).
\<close>

definition py_sorted_desc :: "('a \<Rightarrow> 'k::linorder) \<Rightarrow> 'a list \<Rightarrow> 'a list" where
  "py_sorted_desc key xs = rev (sort_key key (rev xs))"

definition first_level :: real where
  "first_level = 1"

definition second_level :: real where
  "second_level = 7 / 10"

definition third_level :: real where
  "third_level = 2 / 10"

section \<open>Column type annotation (cta\_task)\<close>

definition map_rank :: "string \<Rightarrow> nat" where
  "map_rank rank = (if rank = ''PREFERRED'' then 2 else if rank = ''NORMAL'' then 1 else 0)"

text \<open>\<open>rank[0]\<close> on the string stored for a type: its first character.\<close>

definition rank0 :: "string \<Rightarrow> error + string" where
  "rank0 rank = (case rank of [] \<Rightarrow> Inl IndexError | c # cs \<Rightarrow> Inr [c])"

record type_in_row =
  tr_score :: real
  tr_rank :: nat

record type_total =
  tt_count :: nat
  tt_total_scores :: real
  tt_total_ranks :: nat

text \<open>
  The three loops over the levels of one candidate. The accumulator is
  \<open>types_in_current_row\<close> and the local variable \<open>t1\<close>, which the second loop reads
  (it is unbound until the first loop has run once).
\<close>

definition level_1_step ::
  "real \<Rightarrow> string \<times> string \<Rightarrow> (string, type_in_row) dict \<times> string option \<Rightarrow>
   error + (string, type_in_row) dict \<times> string option" where
  "level_1_step candidate_score item acc =
     (let t1 = fst item; rank = snd item; row = fst acc in
      case map_of row t1 of
        Some e \<Rightarrow>
          bind_err (rank0 rank) (\<lambda>r. Inr (AList.update t1
            \<lparr>tr_score = max (tr_score e) (first_level * candidate_score),
             tr_rank = max (tr_rank e) (map_rank r)\<rparr> row, Some t1))
      | None \<Rightarrow>
          bind_err (rank0 rank) (\<lambda>r. Inr (AList.update t1
            \<lparr>tr_score = first_level * candidate_score, tr_rank = map_rank r\<rparr> row, Some t1)))"

definition level_2_step ::
  "real \<Rightarrow> string \<times> string \<Rightarrow> (string, type_in_row) dict \<times> string option \<Rightarrow>
   error + (string, type_in_row) dict \<times> string option" where
  "level_2_step candidate_score item acc =
     (let t2 = fst item; rank = snd item; row = fst acc in
      case map_of row t2 of
        Some e \<Rightarrow>
          (case snd acc of
             None \<Rightarrow> Inl UnboundLocalError
           | Some t1 \<Rightarrow>
               (case map_of row t1 of
                  None \<Rightarrow> Inl KeyError
                | Some e1 \<Rightarrow>
                    bind_err (rank0 rank) (\<lambda>r. Inr (AList.update t2
                      \<lparr>tr_score = max (tr_score e) (second_level * candidate_score),
                       tr_rank = max (tr_rank e1) (map_rank r)\<rparr> row, snd acc))))
      | None \<Rightarrow>
          bind_err (rank0 rank) (\<lambda>r. Inr (AList.update t2
            \<lparr>tr_score = second_level * candidate_score, tr_rank = map_rank r\<rparr> row, snd acc)))"

definition level_3_step ::
  "real \<Rightarrow> string \<times> string \<Rightarrow> (string, type_in_row) dict \<times> string option \<Rightarrow>
   error + (string, type_in_row) dict \<times> string option" where
  "level_3_step candidate_score item acc =
     (let t3 = fst item; rank = snd item; row = fst acc in
      case map_of row t3 of
        Some e \<Rightarrow>
          bind_err (rank0 rank) (\<lambda>r. Inr (AList.update t3
            \<lparr>tr_score = max (tr_score e) (third_level * candidate_score),
             tr_rank = max (tr_rank e) (map_rank r)\<rparr> row, snd acc))
      | None \<Rightarrow>
          bind_err (rank0 rank) (\<lambda>r. Inr (AList.update t3
            \<lparr>tr_score = third_level * candidate_score, tr_rank = map_rank r\<rparr> row, snd acc)))"

text \<open>
  The body of \<open>for cea in self.cea_annot[cell]\<close>: the accumulator is the cache of
  hierarchical types, \<open>types_in_current_row\<close> and \<open>t1\<close>.
\<close>

definition cta_cea_step ::
  "kb \<Rightarrow> cea \<Rightarrow> (string, hierarchy) dict \<times> (string, type_in_row) dict \<times> string option \<Rightarrow>
   error + (string, hierarchy) dict \<times> (string, type_in_row) dict \<times> string option" where
  "cta_cea_step K c acc =
     (let cached = fst acc;
          h = (case map_of cached (cea_id c) of
                 None \<Rightarrow> get_types_of_entity K (cea_id c) 3
               | Some h \<Rightarrow> h);
          cached' = (case map_of cached (cea_id c) of
                 None \<Rightarrow> AList.update (cea_id c) h cached
               | Some h \<Rightarrow> cached)
      in bind_err (dict_get h ''level_1'') (\<lambda>l1.
         bind_err (fold_err (level_1_step (cea_score c)) l1 (snd acc)) (\<lambda>a1.
         bind_err (dict_get h ''level_2'') (\<lambda>l2.
         bind_err (fold_err (level_2_step (cea_score c)) l2 a1) (\<lambda>a2.
         bind_err (dict_get h ''level_3'') (\<lambda>l3.
         bind_err (fold_err (level_3_step (cea_score c)) l3 a2) (\<lambda>a3.
         Inr (cached', a3))))))))"

text \<open>The body of \<open>for t in types_in_current_row\<close>.\<close>

definition count_type_step ::
  "string \<times> type_in_row \<Rightarrow> (string, type_total) dict \<Rightarrow> (string, type_total) dict" where
  "count_type_step item candidate_types =
     (case map_of candidate_types (fst item) of
        Some tt \<Rightarrow> AList.update (fst item)
          \<lparr>tt_count = tt_count tt + 1,
           tt_total_scores = tt_total_scores tt + tr_score (snd item),
           tt_total_ranks = tt_total_ranks tt + tr_rank (snd item)\<rparr> candidate_types
      | None \<Rightarrow> AList.update (fst item)
          \<lparr>tt_count = 1, tt_total_scores = tr_score (snd item), tt_total_ranks = tr_rank (snd item)\<rparr>
          candidate_types)"

text \<open>
  The body of \<open>for row_index in range(self.first_data_row, self.num_rows)\<close>: the
  accumulator is the cache, \<open>candidate_types\<close> and \<open>t1\<close>.
\<close>

definition cta_row_step ::
  "kb \<Rightarrow> (cell, cea list) dict \<Rightarrow> nat \<Rightarrow> nat \<Rightarrow>
   (string, hierarchy) dict \<times> (string, type_total) dict \<times> string option \<Rightarrow>
   error + (string, hierarchy) dict \<times> (string, type_total) dict \<times> string option" where
  "cta_row_step K annot col_index row_index acc =
     (case map_of annot (row_index, col_index) of
        None \<Rightarrow> Inr acc
      | Some ceas \<Rightarrow>
          bind_err (fold_err (cta_cea_step K) ceas (fst acc, [], snd (snd acc))) (\<lambda>r.
            Inr (fst r, fold count_type_step (fst (snd r)) (fst (snd acc)), snd (snd r))))"

definition cta_candidate_types ::
  "engine \<Rightarrow> nat \<Rightarrow> error + (string, hierarchy) dict \<times> (string, type_total) dict \<times> string option" where
  "cta_candidate_types s col_index =
     fold_err (cta_row_step (KB s) (cea_annot s) col_index) [first_data_row s..<num_rows s]
       (cached_cta_candidates s, [], None)"

definition cta_entry :: "nat \<Rightarrow> string \<times> type_total \<Rightarrow> cta" where
  "cta_entry n ct =
     \<lparr>cta_id = fst ct, cta_score = tt_total_scores (snd ct) / real n,
      cta_coverage = real (tt_count (snd ct)) / real n\<rparr>"

definition cta_sort_key :: "string \<times> type_total \<Rightarrow> real \<times> nat" where
  "cta_sort_key it = (real (tt_count (snd it)) * tt_total_scores (snd it), tt_total_ranks (snd it))"

text \<open>
  The two loops of the \<open>only_one\<close> branch: the types that tie the top value, with the
  set of their direct supertypes, then the candidate types that are such supertypes.
\<close>

definition cta_best_step ::
  "kb \<Rightarrow> nat \<Rightarrow> type_total \<Rightarrow> string \<times> type_total \<Rightarrow> cta list \<times> string list \<Rightarrow> cta list \<times> string list" where
  "cta_best_step K n threshold ct acc =
     (if real (tt_count (snd ct)) * tt_total_scores (snd ct) =
         real (tt_count threshold) * tt_total_scores threshold
      then (fst acc @ [cta_entry n ct], snd acc @ keys (get_supertypes_of_type K (fst ct)))
      else acc)"

definition cta_super_step ::
  "nat \<Rightarrow> string list \<Rightarrow> string \<times> type_total \<Rightarrow> cta list \<Rightarrow> cta list" where
  "cta_super_step n supertypes ct annot =
     (if fst ct \<in> set supertypes \<and> fst ct \<notin> set (map cta_id annot)
      then annot @ [cta_entry n ct] else annot)"

definition cta_select :: "kb \<Rightarrow> nat \<Rightarrow> bool \<Rightarrow> (string \<times> type_total) list \<Rightarrow> cta list" where
  "cta_select K n only_one sorted_candidate_types =
     (case sorted_candidate_types of
        [] \<Rightarrow> []
      | best_ct # rest \<Rightarrow>
          let threshold = snd best_ct in
          if only_one then
            (let best = fold (cta_best_step K n threshold) sorted_candidate_types ([], [])
             in fold (cta_super_step n (snd best)) sorted_candidate_types (fst best))
          else map (cta_entry n)
                 (filter (\<lambda>ct. tt_count (snd ct) \<ge> tt_count threshold) sorted_candidate_types))"

text \<open>
  \<open>cta_task\<close>. The divisions by \<open>num_rows - first_data_row\<close> are reached only with a
  candidate type, hence with a data row; the first annotation appended would raise if
  the divisor were zero.
\<close>

definition cta_task :: "engine \<Rightarrow> nat \<Rightarrow> bool \<Rightarrow> error + cta task_result \<times> engine" where
  "cta_task s0 col_index only_one =
     (let start_time = fst (time_time s0); s = snd (time_time s0) in
      bind_err (cta_candidate_types s col_index) (\<lambda>r.
        let s1 = s\<lparr>cached_cta_candidates := fst r\<rparr>;
            candidate_types = fst (snd r) in
        if candidate_types \<noteq> [] then
          (let sorted_candidate_types = py_sorted_desc cta_sort_key candidate_types;
               n = num_rows s - first_data_row s
           in if n = 0 then Inl ZeroDivisionError
              else
                (let annot = cta_select (KB s) n only_one sorted_candidate_types;
                     s2 = s1\<lparr>cta_annot := AList.update col_index annot (cta_annot s1)\<rparr>;
                     end_time = fst (time_time s2); s3 = snd (time_time s2)
                 in Inr (Annotations annot,
                      s3\<lparr>cta_task_time := cta_task_time s3 + round2 (end_time - start_time)\<rparr>)))
        else
          (let end_time = fst (time_time s1); s3 = snd (time_time s1)
           in Inr (EmptyString,
                s3\<lparr>cta_task_time := cta_task_time s3 + round2 (end_time - start_time)\<rparr>))))"

section \<open>Cell entity annotation (cea\_task)\<close>

fun map_err :: "('a \<Rightarrow> error + 'b) \<Rightarrow> 'a list \<Rightarrow> error + 'b list" where
  "map_err f [] = Inr []"
| "map_err f (x # xs) =
     (case f x of
        Inl e \<Rightarrow> Inl e
      | Inr y \<Rightarrow> (case map_err f xs of Inl e \<Rightarrow> Inl e | Inr ys \<Rightarrow> Inr (y # ys)))"

text \<open>The candidates of the cell with their scores before disambiguation: fresh dictionaries.\<close>

definition cea_initial_candidates :: "engine \<Rightarrow> nat \<Rightarrow> nat \<Rightarrow> string list \<Rightarrow> cea list" where
  "cea_initial_candidates s row_index col_index ids =
     concat (map (\<lambda>candidate_id.
       case map_of (entity_scores s) (row_index, col_index, candidate_id) of
         None \<Rightarrow> []
       | Some sc \<Rightarrow> [\<lparr>cea_id = candidate_id, cea_score = sc\<rparr>]) ids)"

definition get_subgraph_of_entity :: "kb \<Rightarrow> string \<Rightarrow> (string, (string, string) dict) dict" where
  "get_subgraph_of_entity K entity_id = prop_obj_dict K entity_id"

definition is_rank :: "string \<Rightarrow> bool" where
  "is_rank obj_type = (obj_type \<in> set [''NORMAL'', ''PREFERRED'', ''DEPRECATED''])"

text \<open>The one-hop neighbourhood of a column type, kept in \<open>type_graph\<close>: its keys matter.\<close>

definition type_graph_pid_step ::
  "string \<times> (string, string) dict \<Rightarrow> (string, string) dict \<Rightarrow> (string, string) dict" where
  "type_graph_pid_step item g =
     (if has_marker (fst item) then fold (\<lambda>obj. AList.update obj '''') (keys (snd item)) g
      else fold (\<lambda>entry acc. if is_rank (snd entry) then AList.update (fst entry) '''' acc else acc)
             (snd item) g)"

definition build_type_graph :: "kb \<Rightarrow> string \<Rightarrow> (string, string) dict" where
  "build_type_graph K cta_type =
     fold type_graph_pid_step (AList.delete ''(-)P31'' (get_subgraph_of_entity K cta_type)) []"

definition is_neighbor_of_entity :: "(string, string) dict \<Rightarrow> string list \<Rightarrow> bool" where
  "is_neighbor_of_entity target_graph query_entity_ids =
     list_ex (\<lambda>query_e. query_e \<in> set (keys target_graph)) query_entity_ids"

text \<open>
  The body of \<open>for cea in cea_candidates\<close> under one column type: the accumulator is
  \<open>cta_disambiguation_scores\<close>.
\<close>

definition cta_bonus_step ::
  "(string, hierarchy) dict \<Rightarrow> (string, string) dict \<Rightarrow> string \<Rightarrow> real \<Rightarrow> cea \<Rightarrow>
   (string, real) dict \<Rightarrow> error + (string, real) dict" where
  "cta_bonus_step cached tg cta_type cta_sc c scores0 =
     (let scores = (if map_of scores0 (cea_id c) = None then AList.update (cea_id c) 0 scores0 else scores0);
          cur = (case map_of scores (cea_id c) of None \<Rightarrow> 0 | Some v \<Rightarrow> v)
      in bind_err (dict_get cached (cea_id c)) (\<lambda>h.
         bind_err (dict_get h ''level_1'') (\<lambda>l1.
           if cta_type \<in> set (keys l1)
           then Inr (AList.update (cea_id c) (max cur (first_level * cta_sc)) scores)
           else bind_err (dict_get h ''level_2'') (\<lambda>l2.
             if cta_type \<in> set (keys l2) \<or> is_neighbor_of_entity tg (keys l1)
             then Inr (AList.update (cea_id c) (max cur (second_level * cta_sc)) scores)
             else bind_err (dict_get h ''level_3'') (\<lambda>l3.
               if cta_type \<in> set (keys l3) \<or> is_neighbor_of_entity tg (keys l2)
               then Inr (AList.update (cea_id c) (max cur (third_level * cta_sc)) scores)
               else Inr scores)))))"

text \<open>
  The body of \<open>for a_cta in cta\<close>: the accumulator is \<open>type_graph\<close>,
  \<open>cta_disambiguation_weights\<close> and \<open>cta_disambiguation_scores\<close>.
\<close>

definition cea_cta_step ::
  "kb \<Rightarrow> (string, hierarchy) dict \<Rightarrow> cea list \<Rightarrow> cta \<Rightarrow>
   (string, (string, string) dict) dict \<times> real list \<times> (string, real) dict \<Rightarrow>
   error + (string, (string, string) dict) dict \<times> real list \<times> (string, real) dict" where
  "cea_cta_step K cached cea_candidates a_cta acc =
     (let cta_type = cta_id a_cta;
          tg_all = (if map_of (fst acc) cta_type = None
                    then AList.update cta_type (build_type_graph K cta_type) (fst acc) else fst acc);
          tg = (case map_of tg_all cta_type of None \<Rightarrow> [] | Some g \<Rightarrow> g);
          weights = fst (snd acc) @ [cta_coverage a_cta]
      in bind_err (fold_err (cta_bonus_step cached tg cta_type (cta_score a_cta)) cea_candidates (snd (snd acc)))
           (\<lambda>scores. Inr (tg_all, weights, scores)))"

text \<open>
  The body of \<open>for col, cta in self.cta_annot.items()\<close>: the accumulator adds the flag
  \<open>cta_disabg_applied\<close>.
\<close>

definition cea_col_step ::
  "kb \<Rightarrow> (string, hierarchy) dict \<Rightarrow> nat \<Rightarrow> cea list \<Rightarrow> nat \<times> cta list \<Rightarrow>
   bool \<times> (string, (string, string) dict) dict \<times> real list \<times> (string, real) dict \<Rightarrow>
   error + bool \<times> (string, (string, string) dict) dict \<times> real list \<times> (string, real) dict" where
  "cea_col_step K cached col_index cea_candidates entry acc =
     (if fst entry = col_index
      then bind_err (fold_err (cea_cta_step K cached cea_candidates) (snd entry) (snd acc))
             (\<lambda>r. Inr (True, r))
      else Inr acc)"

text \<open>\<open>np.mean\<close> of the weights; \<open>max\<close> of a list raises on the empty list.\<close>

definition py_mean :: "real list \<Rightarrow> real" where
  "py_mean ws = sum_list ws / real (length ws)"

definition py_max :: "real list \<Rightarrow> error + real" where
  "py_max xs = (case xs of [] \<Rightarrow> Inl ValueError | x # rest \<Rightarrow> Inr (fold max rest x))"

text \<open>The boost of a candidate of a contextless cell whose predicates contain a column-pair relation.\<close>

definition potential_boost :: "engine \<Rightarrow> nat \<Rightarrow> nat \<Rightarrow> cea \<Rightarrow> error + cea" where
  "potential_boost s row_index col_index c =
     (case map_of (potential_candidates s) (row_index, col_index, cea_id c) of
        None \<Rightarrow> Inr c
      | Some pots \<Rightarrow>
          bind_err (py_max (map pot_cpa_coeff pots)) (\<lambda>cpa_coeff.
            Inr (c\<lparr>cea_score := min 1 (cea_score c * (1 + cpa_coeff))\<rparr>)))"

text \<open>
  The block \<open>if cta_disabg_applied\<close>: the coefficient \<open>cta_coeff\<close> and the candidates after
  the boost. Without disambiguation the coefficient is unbound and never read.
\<close>

definition cea_coefficient ::
  "engine \<Rightarrow> nat \<Rightarrow> nat \<Rightarrow> bool \<Rightarrow> real list \<Rightarrow> cea list \<Rightarrow> error + real \<times> cea list" where
  "cea_coefficient s row_index col_index applied weights cea_candidates =
     (if applied then
        (if soft_scoring s then
           (if contextless_cells s \<noteq> [] \<and>
               (case map_of (contextless_cells s) (row_index, col_index) of None \<Rightarrow> 1 / 10 | Some v \<Rightarrow> v) = 1 / 10
            then bind_err (map_err (potential_boost s row_index col_index) cea_candidates)
                   (\<lambda>boosted. Inr (py_mean weights, boosted))
            else Inr (py_mean weights / 2, cea_candidates))
         else Inr (1 / 4, cea_candidates))
      else Inr (0, cea_candidates))"

text \<open>The body of the loop "update cea score by cta, cpa score".\<close>

definition cea_combine :: "bool \<Rightarrow> real \<Rightarrow> (string, real) dict \<Rightarrow> cea \<Rightarrow> error + cea" where
  "cea_combine applied cta_coeff scores c =
     (if applied
      then bind_err (dict_get scores (cea_id c)) (\<lambda>bonus.
             Inr (c\<lparr>cea_score := (cea_score c + cta_coeff * bonus) / (1 + cta_coeff)\<rparr>))
      else Inr (c\<lparr>cea_score := cea_score c / 1\<rparr>))"

text \<open>\<open>len(self.potential_candidates.get(candidate, []))\<close>: the count of CPA memberships.\<close>

definition cpa_memberships :: "engine \<Rightarrow> nat \<Rightarrow> nat \<Rightarrow> cea \<Rightarrow> nat" where
  "cpa_memberships s row_index col_index t =
     length (case map_of (potential_candidates s) (row_index, col_index, cea_id t) of
               None \<Rightarrow> [] | Some pots \<Rightarrow> pots)"

definition cea_sort_key :: "engine \<Rightarrow> nat \<Rightarrow> nat \<Rightarrow> cea \<Rightarrow> real \<times> nat" where
  "cea_sort_key s row_index col_index t = (cea_score t, cpa_memberships s row_index col_index t)"

definition cea_select :: "bool \<Rightarrow> cea list \<Rightarrow> cea list" where
  "cea_select only_one sorted_cea_candidates =
     (if only_one then
        (case sorted_cea_candidates of
           [] \<Rightarrow> []
         | best # rest \<Rightarrow> filter (\<lambda>candidate_cea. cea_score candidate_cea = cea_score best) sorted_cea_candidates)
      else sorted_cea_candidates)"

text \<open>The scores of the candidates after the combination with the column types.\<close>

definition cea_final_candidates ::
  "engine \<Rightarrow> nat \<Rightarrow> nat \<Rightarrow> cea list \<Rightarrow>
   error + (string, (string, string) dict) dict \<times> cea list" where
  "cea_final_candidates s col_index row_index cea_candidates =
     bind_err
       (if cta_annot s \<noteq> []
        then fold_err (cea_col_step (KB s) (cached_cta_candidates s) col_index cea_candidates)
               (cta_annot s) (False, type_graph s, [], [])
        else Inr (False, type_graph s, [], []))
       (\<lambda>r. bind_err (cea_coefficient s row_index col_index (fst r) (fst (snd (snd r))) cea_candidates)
         (\<lambda>cb. bind_err (map_err (cea_combine (fst r) (fst cb) (snd (snd (snd r)))) (snd cb))
           (\<lambda>final. Inr (fst (snd r), final))))"

definition cea_task :: "engine \<Rightarrow> nat \<Rightarrow> nat \<Rightarrow> bool \<Rightarrow> error + cea task_result \<times> engine" where
  "cea_task s0 col_index row_index only_one =
     (let start_time = fst (time_time s0); s = snd (time_time s0) in
      case map_of (lookup s) (row_index, col_index) of
        None \<Rightarrow>
          (let end_time = fst (time_time s); s3 = snd (time_time s)
           in Inr (EmptyString, s3\<lparr>cea_task_time := cea_task_time s3 + round2 (end_time - start_time)\<rparr>))
      | Some ids \<Rightarrow>
          (let cea_candidates = cea_initial_candidates s row_index col_index ids in
           if cea_candidates = [] then Inr (NoneValue, s)
           else bind_err (cea_final_candidates s col_index row_index cea_candidates) (\<lambda>r.
             let annot = cea_select only_one (py_sorted_desc (cea_sort_key s row_index col_index) (snd r));
                 s2 = s\<lparr>type_graph := fst r,
                        cea_annot := AList.update (row_index, col_index) annot (cea_annot s)\<rparr>;
                 end_time = fst (time_time s2); s3 = snd (time_time s2)
             in Inr (Annotations annot,
                  s3\<lparr>cea_task_time := cea_task_time s3 + round2 (end_time - start_time)\<rparr>))))"

section \<open>Column pair annotation (cpa\_task)\<close>

text \<open>\<open>sub in s\<close> for strings.\<close>

fun contains :: "string \<Rightarrow> string \<Rightarrow> bool" where
  "contains sub [] = (sub = [])"
| "contains sub (c # cs) = (take (length sub) (c # cs) = sub \<or> contains sub cs)"

text \<open>\<open>self.table[row_index][col_index]\<close>.\<close>

definition table_cell :: "string list list \<Rightarrow> nat \<Rightarrow> nat \<Rightarrow> error + string" where
  "table_cell t row_index col_index =
     (if row_index < length t \<and> col_index < length (t ! row_index)
      then Inr (t ! row_index ! col_index) else Inl IndexError)"

record relation_in_row =
  rr_semantic_proximity :: real
  rr_score :: real

record relation_total =
  rt_count :: nat
  rt_total_scores :: real
  rt_semantic_proximity :: real

text \<open>The first loop over the rows: the accumulator is \<open>(head_cells, tail_cells)\<close>.\<close>

definition cpa_cells_step ::
  "engine \<Rightarrow> nat \<Rightarrow> nat \<Rightarrow> nat \<Rightarrow> (nat, cea list) dict \<times> (nat, cea list) dict \<Rightarrow>
   error + (nat, cea list) dict \<times> (nat, cea list) dict" where
  "cpa_cells_step s head_col_index tail_col_index row_index acc =
     (let head_cells = (case map_of (cea_annot s) (row_index, head_col_index) of
                          None \<Rightarrow> fst acc
                        | Some ceas \<Rightarrow> AList.update row_index ceas (fst acc))
      in if tail_col_index \<in> set (entity_cols s) then
           Inr (head_cells,
                (case map_of (cea_annot s) (row_index, tail_col_index) of
                   None \<Rightarrow> snd acc
                 | Some ceas \<Rightarrow> AList.update row_index ceas (snd acc)))
         else bind_err (table_cell (table s) row_index tail_col_index) (\<lambda>mention.
           Inr (head_cells, AList.update row_index [\<lparr>cea_id = mention, cea_score = 0\<rparr>] (snd acc))))"

text \<open>The body of \<open>for a_cpa_candidate in col_cpa_candidates\<close>.\<close>

definition cpa_relation_step ::
  "real \<Rightarrow> real \<Rightarrow> relation_candidate \<Rightarrow> (string, relation_in_row) dict \<Rightarrow> (string, relation_in_row) dict" where
  "cpa_relation_step head_conf tail_conf a rel_row =
     (case map_of rel_row (rel_id a) of
        Some e \<Rightarrow> AList.update (rel_id a)
          \<lparr>rr_semantic_proximity = min (rr_semantic_proximity e) (rel_semantic_proximity a),
           rr_score = max (rr_score e) (rel_semantic_proximity a * max head_conf tail_conf)\<rparr> rel_row
      | None \<Rightarrow> AList.update (rel_id a)
          \<lparr>rr_semantic_proximity = rel_semantic_proximity a,
           rr_score = rel_semantic_proximity a * max head_conf tail_conf\<rparr> rel_row)"

definition cpa_pair_step ::
  "engine \<Rightarrow> cea \<Rightarrow> cea \<Rightarrow> (string, relation_in_row) dict \<Rightarrow> (string, relation_in_row) dict" where
  "cpa_pair_step s head_candidate tail_candidate rel_row =
     fold (cpa_relation_step (cea_score head_candidate) (cea_score tail_candidate))
       (case map_of (cached_cpa_candidates s) (cea_id head_candidate, cea_id tail_candidate) of
          None \<Rightarrow> [] | Some rels \<Rightarrow> rels)
       rel_row"

text \<open>The body of \<open>for prop, score_info in relation_in_current_row.items()\<close>.\<close>

definition cpa_count_step ::
  "string \<times> relation_in_row \<Rightarrow> (string, relation_total) dict \<Rightarrow> (string, relation_total) dict" where
  "cpa_count_step item cpa_candidates =
     (case map_of cpa_candidates (fst item) of
        None \<Rightarrow> AList.update (fst item)
          \<lparr>rt_count = 1, rt_total_scores = rr_score (snd item),
           rt_semantic_proximity = rr_semantic_proximity (snd item)\<rparr> cpa_candidates
      | Some e \<Rightarrow> AList.update (fst item)
          \<lparr>rt_count = rt_count e + 1, rt_total_scores = rt_total_scores e + rr_score (snd item),
           rt_semantic_proximity = min (rt_semantic_proximity e) (rr_semantic_proximity (snd item))\<rparr>
          cpa_candidates)"

text \<open>
  The second loop over the rows present on both sides (a set of row numbers; taken in
  ascending order).
\<close>

definition cpa_row_step ::
  "engine \<Rightarrow> (nat, cea list) dict \<Rightarrow> (nat, cea list) dict \<Rightarrow> nat \<Rightarrow>
   (string, relation_total) dict \<Rightarrow> (string, relation_total) dict" where
  "cpa_row_step s head_cells tail_cells row_index cpa_candidates =
     (let heads = (case map_of head_cells row_index of None \<Rightarrow> [] | Some cs \<Rightarrow> cs);
          tails = (case map_of tail_cells row_index of None \<Rightarrow> [] | Some cs \<Rightarrow> cs);
          rel_row = fold (\<lambda>head_candidate. fold (cpa_pair_step s head_candidate) tails) heads []
      in fold cpa_count_step rel_row cpa_candidates)"

definition cpa_sort_key :: "string \<times> relation_total \<Rightarrow> real \<times> nat \<times> real \<times> bool \<times> bool" where
  "cpa_sort_key it =
     (real (rt_count (snd it)) * rt_total_scores (snd it), rt_count (snd it),
      rt_semantic_proximity (snd it), \<not> contains ''::'' (fst it), \<not> contains ''(-)'' (fst it))"

definition cpa_entry :: "nat \<Rightarrow> string \<times> relation_total \<Rightarrow> cpa" where
  "cpa_entry n a =
     \<lparr>cpa_id = fst a, cpa_score = rt_total_scores (snd a) / real n,
      cpa_semantic_proximity = rt_semantic_proximity (snd a),
      cpa_coverage = real (rt_count (snd a)) / real n\<rparr>"

definition cpa_select :: "nat \<Rightarrow> bool \<Rightarrow> (string \<times> relation_total) list \<Rightarrow> cpa list" where
  "cpa_select n only_one sorted_cpa_candidates =
     (case sorted_cpa_candidates of
        [] \<Rightarrow> []
      | best # rest \<Rightarrow>
          let threshold = snd best in
          if only_one then
            map (cpa_entry n) (filter (\<lambda>a. real (rt_count (snd a)) * rt_total_scores (snd a) \<ge>
                                          real (rt_count threshold) * rt_total_scores threshold)
                                 sorted_cpa_candidates)
          else map (cpa_entry n) (filter (\<lambda>a. rt_count (snd a) \<ge> rt_count threshold) sorted_cpa_candidates))"

definition cpa_candidates_of :: "engine \<Rightarrow> nat \<Rightarrow> nat \<Rightarrow> error + (string, relation_total) dict" where
  "cpa_candidates_of s head_col_index tail_col_index =
     bind_err (fold_err (cpa_cells_step s head_col_index tail_col_index)
                 [first_data_row s..<num_rows s] ([], []))
       (\<lambda>cells. Inr (fold (cpa_row_step s (fst cells) (snd cells))
                        (filter (\<lambda>r. r \<in> set (keys (snd cells))) (keys (fst cells))) []))"

definition cpa_task :: "engine \<Rightarrow> nat \<Rightarrow> nat \<Rightarrow> bool \<Rightarrow> error + cpa task_result \<times> engine" where
  "cpa_task s0 head_col_index tail_col_index only_one =
     (let start_time = fst (time_time s0); s = snd (time_time s0) in
      if (head_col_index, tail_col_index) \<in> unrelated_col_pairs s \<or>
         (tail_col_index \<in> set (literal_cols s) \<and> tail_col_index < head_col_index)
      then (let end_time = fst (time_time s); s3 = snd (time_time s)
            in Inr (EmptyString, s3\<lparr>cpa_task_time := cpa_task_time s3 + round2 (end_time - start_time)\<rparr>))
      else bind_err (cpa_candidates_of s head_col_index tail_col_index) (\<lambda>cpa_candidates.
        if cpa_candidates \<noteq> [] then
          (let sorted_cpa_candidates = py_sorted_desc cpa_sort_key cpa_candidates;
               n = num_rows s - first_data_row s
           in if n = 0 then Inl ZeroDivisionError
              else
                (let annot = cpa_select n only_one sorted_cpa_candidates;
                     s2 = s\<lparr>cpa_annot := AList.update (head_col_index, tail_col_index) annot (cpa_annot s)\<rparr>;
                     end_time = fst (time_time s2); s3 = snd (time_time s2)
                 in Inr (Annotations annot,
                      s3\<lparr>cpa_task_time := cpa_task_time s3 + round2 (end_time - start_time)\<rparr>)))
        else (let end_time = fst (time_time s); s3 = snd (time_time s)
              in Inr (EmptyString, s3\<lparr>cpa_task_time := cpa_task_time s3 + round2 (end_time - start_time)\<rparr>))))"

section \<open>Auxiliary notions for the proofs\<close>

text \<open>The count recorded for a type in \<open>candidate_types\<close>, and the loop invariant of \<open>cta_task\<close>.\<close>

definition count_of :: "(string, type_total) dict \<Rightarrow> string \<Rightarrow> nat" where
  "count_of ct t = (case map_of ct t of None \<Rightarrow> 0 | Some tt \<Rightarrow> tt_count tt)"

definition counts_within :: "nat \<Rightarrow> (string, hierarchy) dict \<times> (string, type_total) dict \<times> string option \<Rightarrow> bool" where
  "counts_within n acc \<longleftrightarrow> distinct (map fst (fst (snd acc))) \<and> (\<forall>t. count_of (fst (snd acc)) t \<le> n)"

section \<open>External collaborators and utilities (utils.py)\<close>

text \<open>
  The string similarity ratios (rapidfuzz), the date parser (dateutil), the unit parser and
  the unit registry (quantulum3, pint), \<open>unidecode\<close> and \<open>str.lower\<close> are libraries; the
  preprocessing and the lookup service are outside the engine. They are parameters of
  the model. \<open>x_date_similarity\<close> is \<open>utils.date_similarity\<close> with \<open>operator.eq\<close>, which
  catches what the parser raises; \<open>x_get_year_from_date\<close> returns nothing where the source
  returns \<open>False\<close>; the two \<open>standardize\<close> functions are \<open>utils.standardize_to_base_unit\<close> on
  a cell text and on a value with the symbol of its unit.
\<close>

record preprocessed =
  tableDataRevised :: "string list list"
  hasHeader :: bool
  primitiveTyping :: "(string \<times> real) list list"

record lookup_item =
  item_label :: string
  item_entities :: "(string \<times> real) list option"

record lookup_response =
  executionTimeSec :: real
  response_output :: "lookup_item list"

record externals =
  x_lower :: "string \<Rightarrow> string"
  x_fuzz_ratio :: "string \<Rightarrow> string \<Rightarrow> real"
  x_fuzz_token_sort_ratio :: "string \<Rightarrow> string \<Rightarrow> real"
  x_fuzz_token_set_ratio :: "string \<Rightarrow> string \<Rightarrow> real"
  x_date_similarity :: "string \<Rightarrow> string \<Rightarrow> bool"
  x_get_year_from_date :: "string \<Rightarrow> string option"
  x_unidecode :: "string \<Rightarrow> string"
  x_standardize_cell :: "string \<Rightarrow> (string, real list) dict"
  x_standardize_value :: "string \<Rightarrow> string option \<Rightarrow> (string, real list) dict"
  x_table_preprocessing :: "string list list \<Rightarrow> preprocessed option"
  x_entity_lookup :: "string list \<Rightarrow> string \<Rightarrow> lookup_response"

text \<open>\<open>s.split(sep)\<close> for a separator that is not empty.\<close>

function py_split :: "string \<Rightarrow> string \<Rightarrow> string list" where
  "py_split sep s =
     (if s = [] \<or> sep = [] then [s]
      else if take (length sep) s = sep then [] # py_split sep (drop (length sep) s)
      else (case py_split sep (tl s) of [] \<Rightarrow> [[hd s]] | t # ts \<Rightarrow> (hd s # t) # ts))"
  by pat_completeness auto
termination
  by (relation "measure (\<lambda>(sep, s). length s)") auto

declare py_split.simps [simp del]

text \<open>\<open>utils.textual_similarity\<close>: the mean of the two largest of the three ratios.\<close>

definition textual_similarity :: "externals \<Rightarrow> string \<Rightarrow> string \<Rightarrow> real" where
  "textual_similarity X s1 s2 =
     (let char_based_ratio = x_fuzz_ratio X (x_lower X s1) (x_lower X s2) / 100;
          token_sort_based_ratio = x_fuzz_token_sort_ratio X (x_lower X s1) (x_lower X s2) / 100;
          token_set_based_ratio = x_fuzz_token_set_ratio X (x_lower X s1) (x_lower X s2) / 100
      in sum_list (take 2 (py_sorted_desc (\<lambda>r. r)
           [char_based_ratio, token_sort_based_ratio, token_set_based_ratio])) / 2)"

text \<open>\<open>utils.dimensionless_quantity_similarity\<close> on two numbers.\<close>

definition dimensionless_quantity_similarity :: "real \<Rightarrow> real \<Rightarrow> real" where
  "dimensionless_quantity_similarity s1 s2 = 1 - \<bar>s1 - s2\<bar> / (\<bar>s1\<bar> + \<bar>s2\<bar> + 1 / 10000)"

definition named_entity_related_typing :: "string \<Rightarrow> bool" where
  "named_entity_related_typing t =
     (t \<in> set [''UNKNOWN'', ''PERSON'', ''ORG'', ''FAC'', ''GPE'', ''LANGUAGE'', ''LAW'', ''LOC'',
        ''NORP'', ''ORG'', ''PRODUCT'', ''WORK_OF_ART'', ''EVENT''])"

definition date_related_typing :: "string \<Rightarrow> bool" where
  "date_related_typing t = (t = ''DATE'')"

definition with_unit_list :: "string list" where
  "with_unit_list = [''PERCENT'', ''DISTANCE'', ''MASS'', ''MONEY'', ''DURATION'',
     ''TEMPERATURE'', ''CHARGE'', ''ANGLE'', ''DATA STORAGE'',
     ''AMOUNT OF SUBSTANCE'', ''CATALYTIC ACTIVITY'', ''AREA'',
     ''VOLUME'', ''VOLUME (LUMBER)'', ''FORCE'', ''PRESSURE'',
     ''ENERGY'', ''POWER'', ''SPEED'', ''ACCELERATION'',
     ''FUEL ECONOMY'', ''FUEL CONSUMPTION'', ''ANGULAR SPEED'', ''ANGULAR ACCELERATION'',
     ''DENSITY'', ''SPECIFIC VOLUME'', ''MOMENT OF INERTIA'', ''TORQUE'',
     ''THERMAL RESISTANCE'', ''THERMAL CONDUCTIVITY'', ''SPECIFIC HEAT CAPACITY'', ''VOLUMETRIC FLOW'',
     ''MASS FLOW'', ''CONCENTRATION'', ''DYNAMIC VISCOSITY'', ''KINEMATIC VISCOSITY'',
     ''FLUIDITY'', ''SURFACE TENSION'', ''PERMEABILITY'', ''SOUND LEVEL'',
     ''LUMINOUS INTENSITY'', ''LUMINOUS FLUX'', ''ILLUMINANCE'', ''LUMINANCE'',
     ''TYPOGRAPHICAL ELEMENT'', ''IMAGE RESOLUTION'', ''FREQUENCY'', ''INSTANCE FREQUENCY'',
     ''FLUX DENSITY'', ''LINEAR MASS DENSITY'', ''LINEAR CHARGE DENSITY'', ''SURFACE CHARGE DENSITY'',
     ''CHARGE DENSITY'', ''CURRENT'', ''LINEAR CURRENT DENSITY'', ''SURFACE CURRENT DENSITY'',
     ''ELECTRIC POTENTIAL'', ''ELECTRIC FIELD'', ''ELECTRICAL RESISTANCE'', ''ELECTRICAL RESISTIVITY'',
     ''ELECTRICAL CONDUCTANCE'', ''ELECTRICAL CONDUCTIVITY'', ''CAPACITANCE'', ''INDUCTANCE'',
     ''MAGNETIC FLUX'', ''RELUCTANCE'', ''MAGNETOMOTIVE FORCE'', ''MAGNETIC FIELD'',
     ''IRRADIANCE'', ''RADIATION ABSORBED DOSE'', ''RADIOACTIVITY'', ''RADIATION EXPOSURE'',
     ''RADIATION'', ''DATA TRANSFER RATE'']"

definition numerical_typing_with_unit :: "string \<Rightarrow> bool" where
  "numerical_typing_with_unit t = (t \<in> set with_unit_list)"

definition numerical_typing_without_unit :: "string \<Rightarrow> bool" where
  "numerical_typing_without_unit t = (t \<in> set [''CARDINAL'', ''QUANTITY'', ''ORDINAL''])"

section \<open>Labels and unit symbols (knowledge\_bases.py)\<close>

text \<open>
  \<open>get_label_of_entity(self, entity_id)\<close> takes the identifier only and returns one
  string. A call is modelled with its list of positional and keyword arguments beside
  the identifier, so that a call with more arguments than the method has parameters
  raises \<open>TypeError\<close>, as Python does.
\<close>

definition get_label_of_entity :: "kb \<Rightarrow> string \<Rightarrow> string" where
  "get_label_of_entity K entity_id =
     (case K entity_id of
        None \<Rightarrow> ''''
      | Some e \<Rightarrow> (case labels e of [] \<Rightarrow> ''No English Label'' | l # ls \<Rightarrow> l))"

datatype py_arg = Positional bool | Keyword string bool

definition call_get_label_of_entity :: "kb \<Rightarrow> string \<Rightarrow> py_arg list \<Rightarrow> error + string" where
  "call_get_label_of_entity K entity_id extra_args =
     (if extra_args = [] then Inr (get_label_of_entity K entity_id) else Inl TypeError)"

definition unitSymbolPID :: string where
  "unitSymbolPID = ''P5061''"

text \<open>\<open>"_".join(label.lower().split(" "))\<close>.\<close>

definition join_underscore :: "string list \<Rightarrow> string" where
  "join_underscore parts = (case parts of [] \<Rightarrow> [] | p # ps \<Rightarrow> p @ concat (map (\<lambda>q. ''_'' @ q) ps))"

definition get_symbol_of_unit_entity :: "externals \<Rightarrow> kb \<Rightarrow> string \<Rightarrow> error + string option" where
  "get_symbol_of_unit_entity X K unit_entity_id =
     (case K unit_entity_id of
        None \<Rightarrow> Inr None
      | Some e \<Rightarrow>
          if ''Q8142'' \<in> set (keys (adjacency_of K unit_entity_id instanceOfPID))
          then bind_err (call_get_label_of_entity K unit_entity_id [Keyword ''only_one'' True])
                 (\<lambda>label. Inr (Some (join_underscore (py_split '' '' (x_lower X label)))))
          else (case map_of (predicates e) unitSymbolPID of
                  None \<Rightarrow> Inr None
                | Some d \<Rightarrow> (case keys d of [] \<Rightarrow> Inl IndexError | k # ks \<Rightarrow> Inr (Some k))))"

section \<open>Context weights (update\_context\_weight)\<close>

definition abs_diff :: "nat \<Rightarrow> nat \<Rightarrow> nat" where
  "abs_diff a b = (if a \<le> b then b - a else a - b)"

text \<open>The column pair of a candidate's column and a context column.\<close>

definition context_col_pair :: "engine \<Rightarrow> nat \<Rightarrow> nat \<Rightarrow> column_pair" where
  "context_col_pair s candidate_col col_idx =
     (if col_idx < candidate_col \<and> col_idx \<in> set (entity_cols s)
      then (col_idx, candidate_col) else (candidate_col, col_idx))"

definition updated_weight :: "engine \<Rightarrow> nat \<Rightarrow> nat \<Rightarrow> error + real" where
  "updated_weight s candidate_col col_idx =
     (case map_of (cpa_annot s) (context_col_pair s candidate_col col_idx) of
        Some cpas \<Rightarrow>
          (case cpas of
             [] \<Rightarrow> Inl IndexError
           | a # rest \<Rightarrow>
               (case entity_cols s of
                  [] \<Rightarrow> Inl ValueError
                | c # cs \<Rightarrow>
                    let cnt_col = cpa_coverage a;
                        leftmost = fold min cs c;
                        df_col = 1 / (1 + 4 * real (min (abs_diff col_idx leftmost) (abs_diff candidate_col leftmost)));
                        tau_col = cpa_semantic_proximity a
                    in if col_idx \<in> set (entity_cols s)
                       then Inr (max (5 / 100) (semantic_context_weight s * cnt_col * tau_col * df_col))
                       else Inr (max (1 / 100) (literal_context_weight s * cnt_col * tau_col * df_col))))
      | None \<Rightarrow> Inr (if col_idx \<in> set (entity_cols s) then 5 / 100 else 1 / 100))"

definition update_candidate_contexts ::
  "engine \<Rightarrow> candidate \<times> (nat, col_context) dict \<Rightarrow> error + candidate \<times> (nat, col_context) dict" where
  "update_candidate_contexts s entry =
     bind_err (map_err (\<lambda>ctx. bind_err (updated_weight s (fst (snd (fst entry))) (fst ctx))
                          (\<lambda>w. Inr (fst ctx, (snd ctx)\<lparr>ctx_weight := w\<rparr>))) (snd entry))
       (\<lambda>ctxs. Inr (fst entry, ctxs))"

text \<open>
  The branch for the literal contexts only: the accumulator of the inner loop is
  \<open>(unrelated_col_pairs, match_score, match_column)\<close>.
\<close>

definition match_step ::
  "engine \<Rightarrow> nat \<Rightarrow> nat \<Rightarrow> column_pair set \<times> real \<times> nat option \<Rightarrow>
   error + column_pair set \<times> real \<times> nat option" where
  "match_step s literal_col entity_col acc =
     (let unrelated = insert (entity_col, literal_col) (fst acc) in
      case map_of (cpa_annot s) (entity_col, literal_col) of
        None \<Rightarrow> Inr (unrelated, snd acc)
      | Some cpas \<Rightarrow>
          (case cpas of
             [] \<Rightarrow> Inl IndexError
           | a # rest \<Rightarrow>
               if cpa_coverage a > fst (snd acc)
               then Inr (unrelated, cpa_coverage a, Some entity_col)
               else Inr (unrelated, snd acc)))"

definition literal_col_step :: "engine \<Rightarrow> nat \<Rightarrow> column_pair set \<Rightarrow> error + column_pair set" where
  "literal_col_step s literal_col unrelated =
     bind_err (fold_err (match_step s literal_col) (entity_cols s) (unrelated, 0, None)) (\<lambda>r.
       case snd (snd r) of
         None \<Rightarrow> Inr (fst r)
       | Some match_column \<Rightarrow> Inr (fst r - {(match_column, literal_col)}))"

definition update_context_weight :: "engine \<Rightarrow> bool \<Rightarrow> error + engine" where
  "update_context_weight s onlyLiteralContext =
     (if \<not> onlyLiteralContext then
        bind_err (map_err (update_candidate_contexts s) (entity_context_scores s))
          (\<lambda>ecs. Inr (s\<lparr>entity_context_scores := ecs\<rparr>))
      else
        bind_err (fold_err (literal_col_step s) (literal_cols s) (unrelated_col_pairs s))
          (\<lambda>unrelated. Inr (s\<lparr>unrelated_col_pairs := unrelated\<rparr>)))"

section \<open>Literal similarity (\_literal\_similarity\_scoring)\<close>

text \<open>
  With scores from the lookup, every candidate takes its lookup score and the lookup
  scores are cleared. Otherwise the source indexes the string that
  \<open>get_label_of_entity\<close> returns with \<open>"labels"\<close>, which raises for the first candidate
  (after the read of its cell).
\<close>

definition literal_similarity_scoring :: "engine \<Rightarrow> error + engine" where
  "literal_similarity_scoring s =
     (if lookup_scores s \<noteq> [] then
        bind_err (map_err (\<lambda>entry. bind_err (dict_get (lookup_scores s) (fst entry))
                             (\<lambda>sc. Inr (fst entry, sc))) (entity_sim_scores s))
          (\<lambda>sims. Inr (s\<lparr>entity_sim_scores := sims, lookup_scores := []\<rparr>))
      else
        (case entity_sim_scores s of
           [] \<Rightarrow> Inr s
         | entry # rest \<Rightarrow>
             bind_err (table_cell (table s) (fst (fst entry)) (fst (snd (fst entry))))
               (\<lambda>mention. Inl TypeError)))"

section \<open>Context scores (\_context\_scoring)\<close>

type_synonym context_scores = "(candidate, (nat, col_context) dict) dict"
type_synonym relation_cache = "(string \<times> string, relation_candidate list) dict"

definition initial_context :: "real \<Rightarrow> col_context" where
  "initial_context w = \<lparr>ctx_weight = w, ctx_score = 1 / 10, ctx_context = []\<rparr>"

text \<open>\<open>ecs[candidate][col] = ctx\<close> and \<open>ecs[candidate][col]\<close>.\<close>

definition set_context :: "context_scores \<Rightarrow> candidate \<Rightarrow> nat \<Rightarrow> col_context \<Rightarrow> error + context_scores" where
  "set_context ecs candidate col ctx =
     (case map_of ecs candidate of
        None \<Rightarrow> Inl KeyError
      | Some d \<Rightarrow> Inr (AList.update candidate (AList.update col ctx d) ecs))"

definition get_context :: "context_scores \<Rightarrow> candidate \<Rightarrow> nat \<Rightarrow> error + col_context" where
  "get_context ecs candidate col = bind_err (dict_get ecs candidate) (\<lambda>d. dict_get d col)"

definition raise_score :: "context_scores \<Rightarrow> candidate \<Rightarrow> nat \<Rightarrow> real \<Rightarrow> error + context_scores" where
  "raise_score ecs candidate col sc =
     bind_err (get_context ecs candidate col) (\<lambda>ctx.
       set_context ecs candidate col (ctx\<lparr>ctx_score := max (ctx_score ctx) sc\<rparr>))"

definition append_context :: "context_scores \<Rightarrow> candidate \<Rightarrow> nat \<Rightarrow> string \<Rightarrow> error + context_scores" where
  "append_context ecs candidate col a =
     bind_err (get_context ecs candidate col) (\<lambda>ctx.
       set_context ecs candidate col (ctx\<lparr>ctx_context := ctx_context ctx @ [a]\<rparr>))"

definition entity_subgraph_of :: "(string, subgraph) dict \<Rightarrow> string \<Rightarrow> (string, edge list) dict" where
  "entity_subgraph_of G entity_id = (case map_of G entity_id of None \<Rightarrow> [] | Some g \<Rightarrow> sg_entity g)"

definition literal_subgraph_of :: "(string, subgraph) dict \<Rightarrow> string \<Rightarrow> (string, edge list) dict" where
  "literal_subgraph_of G entity_id = (case map_of G entity_id of None \<Rightarrow> [] | Some g \<Rightarrow> sg_literal g)"

text \<open>\<open>G_head.keys() & G_tail.keys()\<close>, in the order of the head's keys.\<close>

definition G_intersect :: "(string, edge list) dict \<Rightarrow> (string, edge list) dict \<Rightarrow> string list" where
  "G_intersect G_head G_tail = filter (\<lambda>n. n \<in> set (keys G_tail)) (keys G_head)"

definition cached_relations :: "relation_candidate list \<Rightarrow> real \<times> (string, real) dict" where
  "cached_relations cpa_candidates =
     fold (\<lambda>a acc. (max (fst acc) (rel_semantic_proximity a),
                     AList.update (rel_id a) (rel_semantic_proximity a) (snd acc)))
       cpa_candidates (0, [])"

text \<open>
  \<open>best_semantic_proximity\<close> and \<open>semantic_proximities\<close> of a pair of candidates: from the
  cache, from a direct edge, or through the shared neighbours.
\<close>

definition pair_relations ::
  "engine \<Rightarrow> relation_cache \<Rightarrow> string \<Rightarrow> string \<Rightarrow> (string, edge list) dict \<Rightarrow> real \<times> (string, real) dict" where
  "pair_relations s cache head_id tail_id G_head =
     (case map_of cache (head_id, tail_id) of
        Some cpa_candidates \<Rightarrow> cached_relations cpa_candidates
      | None \<Rightarrow>
          (let G_tail = entity_subgraph_of (G_memory s) tail_id in
           case map_of G_head tail_id of
             Some props \<Rightarrow> (1, fold (\<lambda>prop sps. AList.update (edge_pid prop) 1 sps) props [])
           | None \<Rightarrow>
               if multiHop_context s
               then multi_hop_relations (KB s) G_head G_tail (G_intersect G_head G_tail) (0, [])
               else (0, [])))"

definition mention_threshold :: "string \<Rightarrow> real" where
  "mention_threshold mention = (if length mention > 5 then 7 / 10 else 9 / 10)"

definition gated_score :: "real \<Rightarrow> real \<Rightarrow> real \<Rightarrow> real" where
  "gated_score threshold best sim = (if sim \<ge> threshold then max (1 / 10) (best * sim) else 1 / 10)"

text \<open>
  The body of \<open>for tail_id in self.lookup[tail_cell]\<close>: the accumulator is the context
  scores and the relation cache.
\<close>

definition semantic_pair_step ::
  "engine \<Rightarrow> nat \<Rightarrow> nat \<Rightarrow> string \<Rightarrow> string \<Rightarrow> (string, edge list) dict \<Rightarrow> nat \<Rightarrow> string \<Rightarrow> string \<Rightarrow>
   context_scores \<times> relation_cache \<Rightarrow> error + context_scores \<times> relation_cache" where
  "semantic_pair_step s row_idx head_col head_mention head_id G_head tail_col tail_mention tail_id acc =
     (let head_candidate = (row_idx, head_col, head_id);
          tail_candidate = (row_idx, tail_col, tail_id);
          cache = snd acc
      in bind_err (dict_get (fst acc) tail_candidate) (\<lambda>td.
         bind_err (if map_of td head_col = None
                   then set_context (fst acc) tail_candidate head_col (initial_context (semantic_context_weight s))
                   else Inr (fst acc)) (\<lambda>ecs1.
           if head_id \<noteq> tail_id then
             (let rels = pair_relations s cache head_id tail_id G_head;
                  best = fst rels; sps = snd rels
              in if best > 0 then
                   bind_err (dict_get (entity_sim_scores s) tail_candidate) (\<lambda>sim_tail.
                   let head_score = gated_score (mention_threshold tail_mention) best sim_tail in
                   bind_err (raise_score ecs1 head_candidate tail_col head_score) (\<lambda>ecs2.
                   bind_err (dict_get (entity_sim_scores s) head_candidate) (\<lambda>sim_head.
                   let tail_score = gated_score (mention_threshold head_mention) best sim_head in
                   bind_err (raise_score ecs2 tail_candidate head_col tail_score) (\<lambda>ecs3.
                     if head_score > 1 / 10 \<or> tail_score > 1 / 10 then
                       (let cache' = (if map_of cache (head_id, tail_id) = None
                                      then AList.update (head_id, tail_id)
                                             (map (\<lambda>it. \<lparr>rel_id = fst it, rel_semantic_proximity = snd it\<rparr>) sps) cache
                                      else cache)
                        in bind_err (fold_err (\<lambda>a e. bind_err (append_context e head_candidate tail_col a)
                                                 (\<lambda>e1. append_context e1 tail_candidate head_col a))
                                       (keys sps) ecs3)
                             (\<lambda>ecs4. Inr (ecs4, cache')))
                     else Inr (ecs3, cache)))))
                 else Inr (ecs1, cache))
           else Inr (ecs1, cache))))"

text \<open>The body of \<open>for j in range(i+1, len(self.entity_cols))\<close> for one head candidate.\<close>

definition head_tail_col_step ::
  "engine \<Rightarrow> nat \<Rightarrow> nat \<Rightarrow> string \<Rightarrow> string \<Rightarrow> (string, edge list) dict \<Rightarrow> nat \<Rightarrow>
   context_scores \<times> relation_cache \<Rightarrow> error + context_scores \<times> relation_cache" where
  "head_tail_col_step s row_idx head_col head_mention head_id G_head tail_col acc =
     bind_err (table_cell (table s) row_idx tail_col) (\<lambda>tail_mention.
     bind_err (set_context (fst acc) (row_idx, head_col, head_id) tail_col
                 (initial_context (semantic_context_weight s))) (\<lambda>ecs1.
       case map_of (lookup s) (row_idx, tail_col) of
         None \<Rightarrow> Inr (ecs1, snd acc)
       | Some tail_ids \<Rightarrow>
           fold_err (semantic_pair_step s row_idx head_col head_mention head_id G_head tail_col tail_mention)
             tail_ids (ecs1, snd acc)))"

text \<open>The same loop when the head cell has no candidate.\<close>

definition orphan_tail_col_step ::
  "engine \<Rightarrow> nat \<Rightarrow> nat \<Rightarrow> nat \<Rightarrow> context_scores \<Rightarrow> error + context_scores" where
  "orphan_tail_col_step s row_idx head_col tail_col ecs =
     bind_err (table_cell (table s) row_idx tail_col) (\<lambda>tail_mention.
       fold_err (\<lambda>tail_id e. set_context e (row_idx, tail_col, tail_id) head_col
                    (initial_context (semantic_context_weight s)))
         (case map_of (lookup s) (row_idx, tail_col) of None \<Rightarrow> [] | Some ids \<Rightarrow> ids) ecs)"

text \<open>The body of \<open>for i in range(len(self.entity_cols)-1)\<close>.\<close>

definition semantic_col_step ::
  "engine \<Rightarrow> nat \<Rightarrow> nat \<Rightarrow> context_scores \<times> relation_cache \<Rightarrow> error + context_scores \<times> relation_cache" where
  "semantic_col_step s row_idx i acc =
     (let head_col = entity_cols s ! i; tail_cols = drop (i + 1) (entity_cols s) in
      bind_err (table_cell (table s) row_idx head_col) (\<lambda>head_mention.
        case (case map_of (lookup s) (row_idx, head_col) of None \<Rightarrow> [] | Some ids \<Rightarrow> ids) of
          [] \<Rightarrow> bind_err (fold_err (orphan_tail_col_step s row_idx head_col) tail_cols (fst acc))
                  (\<lambda>e. Inr (e, snd acc))
        | head_id # other_ids \<Rightarrow>
            fold_err (\<lambda>hid a. fold_err (head_tail_col_step s row_idx head_col head_mention hid
                                           (entity_subgraph_of (G_memory s) hid)) tail_cols a)
              (head_id # other_ids) acc))"

text \<open>
  The literal contexts. \<open>date_match\<close> is the matching score of a date edge,
  \<open>quantity_match\<close> that of a quantity edge (0 when nothing matches).
\<close>

definition date_match :: "externals \<Rightarrow> string list \<Rightarrow> string \<Rightarrow> string \<Rightarrow> error + real" where
  "date_match X info_parts obj literal_mention =
     (if length info_parts < 2 then Inl IndexError
      else if info_parts ! 1 \<noteq> ''Period'' then
        (if x_date_similarity X obj literal_mention then Inr 1
         else (case (x_get_year_from_date X obj, x_get_year_from_date X literal_mention) of
                 (Some year_obj, Some year_cell) \<Rightarrow>
                   if x_date_similarity X year_obj year_cell then Inr (8 / 10) else Inr 0
               | _ \<Rightarrow> Inr 0))
      else
        (case py_split '':'' obj of
           [obj_start_date, obj_end_date] \<Rightarrow>
             (let new_literal_date = py_split ''-'' (x_unidecode X
                    (py_replace '')'' '''' (py_replace ''('' '''' (py_replace '']'' ''''
                       (py_replace ''['' '''' literal_mention)))))
              in if length new_literal_date = 2 \<and>
                    x_date_similarity X obj_start_date (new_literal_date ! 0) \<and>
                    x_date_similarity X obj_end_date (new_literal_date ! 1)
                 then Inr 1 else Inr 0)
         | _ \<Rightarrow> Inl ValueError))"

definition quantity_match ::
  "externals \<Rightarrow> engine \<Rightarrow> string list \<Rightarrow> nat \<Rightarrow> string \<Rightarrow> string \<Rightarrow> error + real" where
  "quantity_match X s info_parts literal_col obj literal_mention =
     (if length info_parts < 2 then Inl IndexError
      else
        (let prop_unit = py_replace ''http://www.wikidata.org/entity/'' '''' (info_parts ! 1) in
         if literal_col \<in> set (numeral_cols_without_unit s) then Inr 0
         else if literal_col \<in> set (numeral_cols_with_unit s) \<and> prop_unit \<noteq> ''1'' then
           bind_err (get_symbol_of_unit_entity X (KB s) prop_unit) (\<lambda>unit_dim_of_obj.
             let standardized_obj = x_standardize_value X obj unit_dim_of_obj;
                 standardized_literal_cell = x_standardize_cell X literal_mention
             in case standardized_obj of
                  [] \<Rightarrow> Inr 0
                | first_item # others \<Rightarrow>
                    (let base_unit_of_obj = fst first_item in
                     if length standardized_literal_cell = 1 then
                       (case map_of standardized_literal_cell base_unit_of_obj of
                          None \<Rightarrow> Inr 0
                        | Some cell_values \<Rightarrow>
                            if length cell_values = 1 then
                              (case snd first_item of
                                 [] \<Rightarrow> Inl IndexError
                               | v # vs \<Rightarrow>
                                   (let sim = dimensionless_quantity_similarity v (cell_values ! 0);
                                        matching_threshold =
                                          (if base_unit_of_obj = ''dollar'' then 75 / 100 else 95 / 100)
                                    in if sim > matching_threshold then Inr sim else Inr 0))
                            else Inr 0)
                     else Inr 0))
         else Inr 0))"

text \<open>
  The body of \<open>for prop in props\<close>: the matching score of the edge, the update of the
  context of the literal column, and the relation cached for the pair of the entity and
  the cell text.
\<close>

definition literal_edge_step ::
  "externals \<Rightarrow> engine \<Rightarrow> candidate \<Rightarrow> nat \<Rightarrow> string \<Rightarrow> string \<Rightarrow> edge \<Rightarrow>
   context_scores \<times> relation_cache \<Rightarrow> error + context_scores \<times> relation_cache" where
  "literal_edge_step X s entity_candidate literal_col literal_mention obj prop acc =
     (let info_parts = py_split ''-'' (edge_info prop);
          kind = (case info_parts of [] \<Rightarrow> [] | k # ks \<Rightarrow> k)
      in bind_err
           (if kind = ''DateTime'' \<and> literal_col \<in> set (date_cols s) then
              bind_err (date_match X info_parts obj literal_mention) (\<lambda>m.
                if m \<noteq> 0 then
                  bind_err (get_context (fst acc) entity_candidate literal_col) (\<lambda>ctx.
                  bind_err (set_context (fst acc) entity_candidate literal_col (ctx\<lparr>ctx_score := m\<rparr>)) (\<lambda>e1.
                  bind_err (append_context e1 entity_candidate literal_col (edge_pid prop)) (\<lambda>e2. Inr (m, e2))))
                else Inr (m, fst acc))
            else if kind = ''String'' \<and> literal_col \<in> set (textual_cols s) then
              (let sim = textual_similarity X obj literal_mention in
               if sim > 9 / 10 then
                 bind_err (raise_score (fst acc) entity_candidate literal_col sim) (\<lambda>e1.
                 bind_err (append_context e1 entity_candidate literal_col (edge_pid prop)) (\<lambda>e2. Inr (sim, e2)))
               else Inr (0, fst acc))
            else if kind = ''Quantity'' then
              bind_err (quantity_match X s info_parts literal_col obj literal_mention) (\<lambda>m.
                if m \<noteq> 0 then
                  bind_err (raise_score (fst acc) entity_candidate literal_col m) (\<lambda>e1.
                  bind_err (append_context e1 entity_candidate literal_col (edge_pid prop)) (\<lambda>e2. Inr (m, e2)))
                else Inr (m, fst acc))
            else Inr (0, fst acc))
           (\<lambda>r. if fst r \<noteq> 0 then
                  (let k = (snd (snd entity_candidate), literal_mention);
                       cache1 = (if map_of (snd acc) k = None then AList.update k [] (snd acc) else snd acc);
                       rels = (case map_of cache1 k of None \<Rightarrow> [] | Some l \<Rightarrow> l)
                   in if \<lparr>rel_id = edge_pid prop, rel_semantic_proximity = literal_context_weight s\<rparr> \<notin> set rels
                      then Inr (snd r, AList.update k
                                  (rels @ [\<lparr>rel_id = edge_pid prop, rel_semantic_proximity = 1\<rparr>]) cache1)
                      else Inr (snd r, cache1))
                else Inr (snd r, snd acc)))"

text \<open>The body of \<open>for literal_col in self.literal_cols\<close> for one candidate.\<close>

definition literal_col_context_step ::
  "externals \<Rightarrow> engine \<Rightarrow> nat \<Rightarrow> nat \<Rightarrow> string \<Rightarrow> nat \<Rightarrow>
   context_scores \<times> relation_cache \<Rightarrow> error + context_scores \<times> relation_cache" where
  "literal_col_context_step X s row_idx entity_col entity_id literal_col acc =
     (if literal_col < entity_col then Inr acc
      else
        bind_err (set_context (fst acc) (row_idx, entity_col, entity_id) literal_col
                    (initial_context (literal_context_weight s))) (\<lambda>ecs1.
        bind_err (table_cell (table s) row_idx literal_col) (\<lambda>literal_mention.
          fold_err (\<lambda>item a. fold_err (literal_edge_step X s (row_idx, entity_col, entity_id) literal_col
                                           literal_mention (fst item)) (snd item) a)
            (literal_subgraph_of (G_memory s) entity_id) (ecs1, snd acc))))"

definition literal_entity_col_step ::
  "externals \<Rightarrow> engine \<Rightarrow> nat \<Rightarrow> nat \<Rightarrow>
   context_scores \<times> relation_cache \<Rightarrow> error + context_scores \<times> relation_cache" where
  "literal_entity_col_step X s row_idx entity_col acc =
     (case map_of (lookup s) (row_idx, entity_col) of
        None \<Rightarrow> Inr acc
      | Some ids \<Rightarrow>
          fold_err (\<lambda>entity_id a. fold_err (literal_col_context_step X s row_idx entity_col entity_id)
                                     (literal_cols s) a) ids acc)"

text \<open>The body of the loop over the data rows, and \<open>_context_scoring\<close>.\<close>

definition context_row_step ::
  "externals \<Rightarrow> engine \<Rightarrow> nat \<Rightarrow> context_scores \<times> relation_cache \<Rightarrow> error + context_scores \<times> relation_cache" where
  "context_row_step X s row_idx acc =
     bind_err (fold_err (semantic_col_step s row_idx) [0..<length (entity_cols s) - 1] acc) (\<lambda>a.
       fold_err (literal_entity_col_step X s row_idx) (entity_cols s) a)"

definition context_scoring :: "externals \<Rightarrow> engine \<Rightarrow> error + engine" where
  "context_scoring X s =
     bind_err (fold_err (context_row_step X s) [first_data_row s..<num_rows s]
                 (entity_context_scores s, cached_cpa_candidates s))
       (\<lambda>r. Inr (s\<lparr>entity_context_scores := fst r, cached_cpa_candidates := snd r\<rparr>))"

section \<open>Candidate scores (entity\_scoring\_task)\<close>

text \<open>
  The scale factor of a context: 1 at the first step; afterwards the coverage times the
  semantic proximity of the first annotation of the column pair whose relation is among
  the relations of the context, and 0 when there is none.
\<close>

definition scale_factor :: "engine \<Rightarrow> bool \<Rightarrow> column_pair \<Rightarrow> col_context \<Rightarrow> real" where
  "scale_factor s first_step col_pair a_context =
     (if first_step then 1
      else (case find (\<lambda>a_cpa. cpa_id a_cpa \<in> set (ctx_context a_context))
                   (case map_of (cpa_annot s) col_pair of None \<Rightarrow> [] | Some cpas \<Rightarrow> cpas) of
              None \<Rightarrow> 0
            | Some a_cpa \<Rightarrow> cpa_coverage a_cpa * cpa_semantic_proximity a_cpa))"

definition scaled_score :: "engine \<Rightarrow> bool \<Rightarrow> column_pair \<Rightarrow> col_context \<Rightarrow> real" where
  "scaled_score s first_step col_pair a_context =
     max (1 / 10) (scale_factor s first_step col_pair a_context * ctx_score a_context)"

text \<open>\<open>is_candidate_contain_cpa\<close> for one annotation of the column pair.\<close>

definition candidate_contains_cpa :: "engine \<Rightarrow> candidate \<Rightarrow> nat \<Rightarrow> cpa \<Rightarrow> error + bool" where
  "candidate_contains_cpa s candidate col_idx a_cpa =
     (if col_idx < fst (snd candidate) \<and> col_idx \<in> set (entity_cols s) then
        (if contains ''(-)'' (cpa_id a_cpa)
         then bind_err (dict_get (G_memory s) (snd (snd candidate)))
                (\<lambda>g. Inr (py_replace ''(-)'' '''' (cpa_id a_cpa) \<in> sg_pids g))
         else bind_err (dict_get (G_memory s) (snd (snd candidate)))
                (\<lambda>g. Inr (''(-)'' @ cpa_id a_cpa \<in> sg_pids g)))
      else bind_err (dict_get (G_memory s) (snd (snd candidate)))
             (\<lambda>g. Inr (cpa_id a_cpa \<in> sg_pids g)))"

definition potential_step ::
  "engine \<Rightarrow> candidate \<Rightarrow> nat \<Rightarrow> cpa \<Rightarrow> (candidate, potential list) dict \<Rightarrow>
   error + (candidate, potential list) dict" where
  "potential_step s candidate col_idx a_cpa pc =
     bind_err (candidate_contains_cpa s candidate col_idx a_cpa) (\<lambda>is_candidate_contain_cpa.
       if is_candidate_contain_cpa then
         Inr (AList.update candidate
                ((case map_of pc candidate of None \<Rightarrow> [] | Some l \<Rightarrow> l) @
                 [\<lparr>pot_cpa_coeff = cpa_coverage a_cpa, pot_cpa_score = cpa_score a_cpa,
                   pot_cpa_id = cpa_id a_cpa\<rparr>]) pc)
       else Inr pc)"

text \<open>
  The accumulators of the loop over the contexts of one candidate: \<open>context_score\<close>,
  \<open>context_weight\<close>, \<open>max_context_weight\<close>, and the two dictionaries written at the last
  step.
\<close>

record scoring_acc =
  acc_context_score :: real
  acc_context_weight :: real
  acc_max_context_weight :: real
  acc_contextless :: "(cell, real) dict"
  acc_potential :: "(candidate, potential list) dict"

text \<open>Whether a context takes part: its column pair is annotated and not marked unrelated.\<close>

definition context_included :: "engine \<Rightarrow> candidate \<Rightarrow> nat \<Rightarrow> bool" where
  "context_included s candidate col_idx =
     (context_col_pair s (fst (snd candidate)) col_idx \<notin> unrelated_col_pairs s \<and>
      map_of (cpa_annot s) (context_col_pair s (fst (snd candidate)) col_idx) \<noteq> None)"

text \<open>The weight added to \<open>context_weight\<close> for a context column: the base weight of its kind.\<close>

definition base_weight :: "engine \<Rightarrow> nat \<Rightarrow> real" where
  "base_weight s col_idx =
     (if col_idx \<in> set (entity_cols s) then semantic_context_weight s
      else if col_idx \<in> set (literal_cols s) then literal_context_weight s else 0)"

definition context_step ::
  "engine \<Rightarrow> bool \<Rightarrow> bool \<Rightarrow> candidate \<Rightarrow> nat \<times> col_context \<Rightarrow> scoring_acc \<Rightarrow> error + scoring_acc" where
  "context_step s first_step last_step candidate item acc =
     (let col_idx = fst item; a_context = snd item;
          the_cell = (fst candidate, fst (snd candidate));
          col_pair = context_col_pair s (fst (snd candidate)) col_idx
      in if context_included s candidate col_idx then
           (let sc = scaled_score s first_step col_pair a_context;
                acc1 = acc\<lparr>acc_context_score := acc_context_score acc + ctx_weight a_context * sc\<rparr>
            in bind_err
                 (if last_step then
                    bind_err (fold_err (potential_step s candidate col_idx)
                                (case map_of (cpa_annot s) col_pair of None \<Rightarrow> [] | Some cpas \<Rightarrow> cpas)
                                (acc_potential acc1))
                      (\<lambda>pc. Inr (acc1\<lparr>acc_contextless :=
                                     (case map_of (acc_contextless acc1) the_cell of
                                        None \<Rightarrow> AList.update the_cell sc (acc_contextless acc1)
                                      | Some v \<Rightarrow> AList.update the_cell (max v sc) (acc_contextless acc1)),
                                   acc_potential := pc\<rparr>))
                  else Inr acc1)
                 (\<lambda>acc2. Inr (acc2\<lparr>acc_max_context_weight := max (acc_max_context_weight acc2) (ctx_weight a_context),
                                  acc_context_weight := acc_context_weight acc2 + base_weight s col_idx\<rparr>)))
         else Inr acc)"

definition mark_contextless :: "bool \<Rightarrow> cell \<Rightarrow> (cell, real) dict \<Rightarrow> (cell, real) dict" where
  "mark_contextless last_step the_cell cl =
     (if last_step \<and> map_of cl the_cell = None then AList.update the_cell (1 / 10) cl else cl)"

text \<open>
  The aggregated context score of a candidate of a table with context, with
  \<open>max_context_weight\<close> and the two dictionaries.
\<close>

definition candidate_context ::
  "engine \<Rightarrow> bool \<Rightarrow> bool \<Rightarrow> candidate \<Rightarrow> (cell, real) dict \<times> (candidate, potential list) dict \<Rightarrow>
   error + real \<times> real \<times> (cell, real) dict \<times> (candidate, potential list) dict" where
  "candidate_context s first_step last_step candidate carried =
     bind_err (dict_get (entity_context_scores s) candidate) (\<lambda>ctxs.
       if ctxs \<noteq> [] then
         bind_err (fold_err (context_step s first_step last_step candidate) ctxs
                     \<lparr>acc_context_score = 0, acc_context_weight = 0, acc_max_context_weight = 0,
                      acc_contextless = fst carried, acc_potential = snd carried\<rparr>)
           (\<lambda>acc. Inr (if acc_context_weight acc \<noteq> 0
                        then acc_context_score acc / acc_context_weight acc else 1 / 100,
                        acc_max_context_weight acc, acc_contextless acc, acc_potential acc))
       else Inr (1 / 100, 0,
                 mark_contextless last_step (fst candidate, fst (snd candidate)) (fst carried),
                 snd carried))"

text \<open>
  The score of a candidate with a clear context. A negative similarity makes the power
  complex, and \<open>math.exp\<close> raises on it.
\<close>

definition context_backed_score :: "real \<Rightarrow> real \<Rightarrow> error + real" where
  "context_backed_score context_score sim =
     (if sim < 0 then Inl TypeError
      else Inr (context_score * 1 / (1 + exp (- (sim powr (5 / 2) / (1 / 2) - 1) / (2 / 10)))))"

text \<open>The body of \<open>for candidate in self.entity_scores\<close>.\<close>

definition score_candidate_step ::
  "engine \<Rightarrow> bool \<Rightarrow> bool \<Rightarrow> candidate \<Rightarrow>
   (candidate, real) dict \<times> (cell, real) dict \<times> (candidate, potential list) dict \<Rightarrow>
   error + (candidate, real) dict \<times> (cell, real) dict \<times> (candidate, potential list) dict" where
  "score_candidate_step s first_step last_step candidate acc =
     (if num_columns s > 1 \<and> (entity_cols s \<noteq> [] \<or> literal_cols s \<noteq> []) then
        bind_err (candidate_context s first_step last_step candidate (snd acc)) (\<lambda>r.
        bind_err (dict_get (entity_sim_scores s) candidate) (\<lambda>sim.
          if fst (snd r) > 1 / 10 then
            bind_err (context_backed_score (fst r) sim)
              (\<lambda>sc. Inr (AList.update candidate sc (fst acc), snd (snd r)))
          else Inr (AList.update candidate (1 / 10 * sim) (fst acc), snd (snd r))))
      else
        bind_err (dict_get (entity_sim_scores s) candidate) (\<lambda>sim.
          Inr (AList.update candidate sim (fst acc),
               mark_contextless last_step (fst candidate, fst (snd candidate)) (fst (snd acc)),
               snd (snd acc))))"

definition score_candidates :: "engine \<Rightarrow> bool \<Rightarrow> bool \<Rightarrow> error + engine" where
  "score_candidates s first_step last_step =
     bind_err (fold_err (score_candidate_step s first_step last_step) (keys (entity_scores s))
                 (entity_scores s, contextless_cells s, potential_candidates s))
       (\<lambda>r. Inr (s\<lparr>entity_scores := fst r, contextless_cells := fst (snd r),
                    potential_candidates := snd (snd r)\<rparr>))"

definition entity_scoring_task :: "externals \<Rightarrow> engine \<Rightarrow> bool \<Rightarrow> bool \<Rightarrow> error + engine" where
  "entity_scoring_task X s0 first_step last_step =
     bind_err
       (if first_step then
          (let start_time = fst (time_time s0); s1 = snd (time_time s0) in
           bind_err (literal_similarity_scoring s1) (\<lambda>s2.
           bind_err (context_scoring X s2) (\<lambda>s3.
             let end_time = fst (time_time s3); s4 = snd (time_time s3)
             in Inr (s4\<lparr>entity_scoring_time := round2 (end_time - start_time)\<rparr>))))
        else Inr s0)
       (\<lambda>s. score_candidates s first_step last_step)"

section \<open>The context score in the words of the specification\<close>

text \<open>
  The weighted mean of the sub-scores of the contexts of a candidate, by the current
  weights of the contexts, and 0.01 when the candidate has no context.
\<close>

definition spec_weighted_mean :: "(nat, col_context) dict \<Rightarrow> real" where
  "spec_weighted_mean ctxs =
     (if ctxs = [] then 1 / 100
      else sum_list (map (\<lambda>item. ctx_weight (snd item) * ctx_score (snd item)) ctxs) /
           sum_list (map (\<lambda>item. ctx_weight (snd item)) ctxs))"

section \<open>Initialisation of the engine (Baseline\_Model.\_\_init\_\_)\<close>

text \<open>\<open>string.punctuation\<close>: the 32 ASCII punctuation characters, in the order of their codes.\<close>

definition punctuation :: string where
  "punctuation = map char_of ([33..<48] @ [58..<65] @ [91..<97] @ [123..<127] :: nat list)"

text \<open>
  The two counters of \<open>_find_semantic_columns\<close> for one column, over the data rows:
  cells longer than 150 characters, and cells with more than three different
  punctuation characters.
\<close>

definition cell_counters_step ::
  "string list list \<Rightarrow> nat \<Rightarrow> nat \<Rightarrow> nat \<times> nat \<Rightarrow> error + nat \<times> nat" where
  "cell_counters_step t column_idx row_idx acc =
     bind_err (table_cell t row_idx column_idx) (\<lambda>content.
       Inr ((if length content > 150 then fst acc + 1 else fst acc),
            (if length (filter (\<lambda>p. p \<in> set content) punctuation) > 3 then snd acc + 1 else snd acc)))"

definition object_typing_score :: "(string \<times> real) list \<Rightarrow> real" where
  "object_typing_score typing =
     fold (\<lambda>column_type acc. if named_entity_related_typing (fst column_type) then acc + snd column_type else acc)
       typing 0"

text \<open>\<open>table_infos["primitiveTyping"][column_idx]["typing"]\<close>.\<close>

definition typing_of :: "preprocessed \<Rightarrow> nat \<Rightarrow> error + (string \<times> real) list" where
  "typing_of infos column_idx =
     (if column_idx < length (primitiveTyping infos) then Inr (primitiveTyping infos ! column_idx)
      else Inl IndexError)"

definition semantic_column_step ::
  "preprocessed \<Rightarrow> string list list \<Rightarrow> nat \<Rightarrow> nat \<Rightarrow> nat \<Rightarrow> nat list \<Rightarrow> error + nat list" where
  "semantic_column_step infos t first_row n_rows column_idx semantic_columns =
     bind_err (fold_err (cell_counters_step t column_idx) [first_row..<n_rows] (0, 0)) (\<lambda>counters.
     bind_err (typing_of infos column_idx) (\<lambda>typing.
       if object_typing_score typing > 1 / 2 then
         (if int n_rows - int first_row = 0 then Inl ZeroDivisionError
          else if real (fst counters) / (real_of_int (int n_rows - int first_row)) < 1 / 2 \<and>
                  real (snd counters) / (real_of_int (int n_rows - int first_row)) < 1 / 2
               then Inr (semantic_columns @ [column_idx]) else Inr semantic_columns)
       else Inr semantic_columns))"

definition find_semantic_columns ::
  "preprocessed \<Rightarrow> string list list \<Rightarrow> nat \<Rightarrow> nat \<Rightarrow> nat \<Rightarrow> error + nat list" where
  "find_semantic_columns infos t n_columns first_row n_rows =
     fold_err (semantic_column_step infos t first_row n_rows) [0..<n_columns] []"

text \<open>
  \<open>_disambiguate_literal_columns\<close>: the accumulator is the date columns, the numeral
  columns with and without unit, the textual columns and the index column.
\<close>

definition literal_typing_scores :: "(string \<times> real) list \<Rightarrow> real \<times> real" where
  "literal_typing_scores typing =
     fold (\<lambda>column_type acc.
             if numerical_typing_with_unit (fst column_type) then (fst acc + snd column_type, snd acc)
             else if numerical_typing_without_unit (fst column_type) then (fst acc, snd acc + snd column_type)
             else acc) typing (0, 0)"

definition literal_column_step ::
  "preprocessed \<Rightarrow> nat \<Rightarrow> nat list \<times> nat list \<times> nat list \<times> nat list \<times> nat option \<Rightarrow>
   error + nat list \<times> nat list \<times> nat list \<times> nat list \<times> nat option" where
  "literal_column_step infos column_idx acc =
     bind_err (typing_of infos column_idx) (\<lambda>typing.
       case typing of
         [] \<Rightarrow> Inl IndexError
       | best_typing # rest \<Rightarrow>
           (let dates = fst acc; with_unit = fst (snd acc); without_unit = fst (snd (snd acc));
                textual = fst (snd (snd (snd acc))); idx = snd (snd (snd (snd acc)))
            in if date_related_typing (fst best_typing) then
                 (if snd best_typing > 1 / 2
                  then Inr (dates @ [column_idx], with_unit, without_unit, textual, idx)
                  else Inr acc)
               else if column_idx = 0 \<and> fst best_typing = ''ORDINAL'' then
                 Inr (dates, with_unit, without_unit, textual, Some 0)
               else if fst (literal_typing_scores typing) > 1 / 2 then
                 Inr (dates, with_unit @ [column_idx], without_unit, textual, idx)
               else if snd (literal_typing_scores typing) > 1 / 2 then
                 Inr (dates, with_unit, without_unit @ [column_idx], textual, idx)
               else Inr (dates, with_unit, without_unit, textual @ [column_idx], idx)))"

section \<open>Entity lookup (lookup\_task)\<close>

text \<open>
  The mentions sent to the lookup service: the lowered cells of the entity columns that
  have more than one character, without repetition (a set in the source).
\<close>

definition lookup_inputs_step ::
  "externals \<Rightarrow> string list list \<Rightarrow> nat \<Rightarrow> nat \<Rightarrow> string list \<Rightarrow> error + string list" where
  "lookup_inputs_step X t column_idx row_idx inputs =
     bind_err (table_cell t row_idx column_idx) (\<lambda>content.
       if length (x_lower X content) > 1 \<and> x_lower X content \<notin> set inputs
       then Inr (inputs @ [x_lower X content]) else Inr inputs)"

text \<open>The loop over the response: the accumulator is \<open>(lookup_results, abnormal_lookup_mentions)\<close>.\<close>

definition lookup_result_step ::
  "nat \<Rightarrow> lookup_item \<Rightarrow> (string, (string \<times> real) list) dict \<times> string list \<Rightarrow>
   (string, (string \<times> real) list) dict \<times> string list" where
  "lookup_result_step k item acc =
     (case item_entities item of
        Some entities \<Rightarrow> (AList.update (item_label item) (take k entities) (fst acc), snd acc)
      | None \<Rightarrow> (fst acc, snd acc @ [item_label item]))"

text \<open>The state of the distribution loop of \<open>lookup_task\<close>.\<close>

record lookup_state =
  ls_entity_cols :: "nat list"
  ls_textual_cols :: "nat list"
  ls_literal_cols :: "nat list"
  ls_lookup :: "(cell, string list) dict"
  ls_lookup_scores :: "(candidate, real) dict"

definition distribute_candidate ::
  "nat \<Rightarrow> nat \<Rightarrow> string \<times> real \<Rightarrow> lookup_state \<Rightarrow> lookup_state" where
  "distribute_candidate row_idx column_idx a_candidate st =
     st\<lparr>ls_lookup := AList.update (row_idx, column_idx)
            ((case map_of (ls_lookup st) (row_idx, column_idx) of None \<Rightarrow> [] | Some l \<Rightarrow> l) @ [fst a_candidate])
            (ls_lookup st),
        ls_lookup_scores := AList.update (row_idx, column_idx, fst a_candidate) (snd a_candidate)
            (ls_lookup_scores st)\<rparr>"

definition distribute_row_step ::
  "externals \<Rightarrow> string list list \<Rightarrow> (string, (string \<times> real) list) dict \<Rightarrow> nat \<Rightarrow> nat \<Rightarrow> nat \<Rightarrow>
   real \<times> lookup_state \<Rightarrow> error + real \<times> lookup_state" where
  "distribute_row_step X t lookup_results n_data column_idx row_idx acc =
     bind_err (table_cell t row_idx column_idx) (\<lambda>content.
       case map_of lookup_results (x_lower X content) of
         None \<Rightarrow> Inr acc
       | Some candidates \<Rightarrow>
           Inr (fst acc + 1 / real n_data,
                fold (distribute_candidate row_idx column_idx) candidates
                  ((snd acc)\<lparr>ls_lookup := AList.update (row_idx, column_idx) [] (ls_lookup (snd acc))\<rparr>)))"

text \<open>The removal of the lookups of a column that is not an entity column after all.\<close>

definition pop_score :: "candidate \<Rightarrow> (candidate, real) dict \<Rightarrow> error + (candidate, real) dict" where
  "pop_score candidate scores =
     (if map_of scores candidate = None then Inl KeyError else Inr (AList.delete candidate scores))"

definition discard_row_step ::
  "externals \<Rightarrow> string list list \<Rightarrow> (string, (string \<times> real) list) dict \<Rightarrow> nat \<Rightarrow> nat \<Rightarrow>
   lookup_state \<Rightarrow> error + lookup_state" where
  "discard_row_step X t lookup_results column_idx row_idx st =
     (let st1 = st\<lparr>ls_lookup := AList.delete (row_idx, column_idx) (ls_lookup st)\<rparr> in
      bind_err (table_cell t row_idx column_idx) (\<lambda>content.
      bind_err (fold_err (\<lambda>a_candidate. pop_score (row_idx, column_idx, fst a_candidate))
                  (case map_of lookup_results (x_lower X content) of None \<Rightarrow> [] | Some l \<Rightarrow> l)
                  (ls_lookup_scores st1))
        (\<lambda>scores. Inr (st1\<lparr>ls_lookup_scores := scores\<rparr>))))"

definition distribute_column ::
  "externals \<Rightarrow> string list list \<Rightarrow> (string, (string \<times> real) list) dict \<Rightarrow> nat \<Rightarrow> nat \<Rightarrow> nat \<Rightarrow>
   lookup_state \<Rightarrow> error + lookup_state" where
  "distribute_column X t lookup_results first_row n_rows column_idx st =
     bind_err (fold_err (distribute_row_step X t lookup_results (n_rows - first_row) column_idx)
                 [first_row..<n_rows] (0, st)) (\<lambda>r.
       if fst r < 3 / 10 then
         fold_err (discard_row_step X t lookup_results column_idx) [first_row..<n_rows]
           ((snd r)\<lparr>ls_entity_cols := remove1 column_idx (ls_entity_cols (snd r)),
                    ls_textual_cols := ls_textual_cols (snd r) @ [column_idx],
                    ls_literal_cols := ls_literal_cols (snd r) @ [column_idx]\<rparr>)
       else Inr (snd r))"

text \<open>
  \<open>for column_idx in self.entity_cols\<close>, where the body removes elements of the list it
  iterates: the loop goes by position. The list never grows, so as many rounds as it has
  elements at the start are enough.
\<close>

fun distribute_columns ::
  "externals \<Rightarrow> string list list \<Rightarrow> (string, (string \<times> real) list) dict \<Rightarrow> nat \<Rightarrow> nat \<Rightarrow>
   nat \<Rightarrow> nat \<Rightarrow> lookup_state \<Rightarrow> error + lookup_state" where
  "distribute_columns X t lookup_results first_row n_rows 0 i st = Inr st"
| "distribute_columns X t lookup_results first_row n_rows (Suc rounds) i st =
     (if i < length (ls_entity_cols st) then
        (case distribute_column X t lookup_results first_row n_rows (ls_entity_cols st ! i) st of
           Inl e \<Rightarrow> Inl e
         | Inr st' \<Rightarrow> distribute_columns X t lookup_results first_row n_rows rounds (Suc i) st')
      else Inr st)"

definition avg_candidates :: "(cell, string list) dict \<Rightarrow> real" where
  "avg_candidates lkp =
     (if lkp = [] then 0
      else round2 (real (sum_list (map (\<lambda>entry. length (snd entry)) lkp)) / real (length lkp)))"

section \<open>Subgraphs (\_set\_subgraph)\<close>

definition setdefault_append :: "string \<Rightarrow> edge \<Rightarrow> (string, edge list) dict \<Rightarrow> (string, edge list) dict" where
  "setdefault_append obj e g =
     AList.update obj ((case map_of g obj of None \<Rightarrow> [] | Some l \<Rightarrow> l) @ [e]) g"

definition subgraph_pid_step :: "string \<times> (string, string) dict \<Rightarrow> subgraph \<Rightarrow> subgraph" where
  "subgraph_pid_step item g =
     (let p = fst item; g1 = g\<lparr>sg_pids := insert p (sg_pids g)\<rparr> in
      if has_marker p then
        fold (\<lambda>obj acc. acc\<lparr>sg_entity := setdefault_append obj \<lparr>edge_pid = p, edge_info = ''entity''\<rparr> (sg_entity acc)\<rparr>)
          (keys (snd item)) g1
      else
        fold (\<lambda>entry acc.
                if is_rank (snd entry)
                then acc\<lparr>sg_entity := setdefault_append (fst entry) \<lparr>edge_pid = p, edge_info = ''entity''\<rparr> (sg_entity acc)\<rparr>
                else acc\<lparr>sg_literal := setdefault_append (fst entry) \<lparr>edge_pid = p, edge_info = snd entry\<rparr> (sg_literal acc)\<rparr>)
          (snd item) g1)"

definition build_subgraph :: "kb \<Rightarrow> string \<Rightarrow> subgraph" where
  "build_subgraph K candidate_id =
     fold subgraph_pid_step (get_subgraph_of_entity K candidate_id)
       \<lparr>sg_entity = [], sg_literal = [], sg_pids = {}\<rparr>"

definition set_subgraph :: "kb \<Rightarrow> (cell, string list) dict \<Rightarrow> (string, subgraph) dict" where
  "set_subgraph K lkp =
     fold (\<lambda>candidate_id G. if map_of G candidate_id = None
                              then AList.update candidate_id (build_subgraph K candidate_id) G else G)
       (concat (map snd lkp)) []"

text \<open>\<open>_initialize_scores\<close>: the candidates of the lookup, in its order.\<close>

definition lookup_candidates :: "(cell, string list) dict \<Rightarrow> candidate list" where
  "lookup_candidates lkp =
     concat (map (\<lambda>entry. map (\<lambda>entity_id. (fst (fst entry), snd (fst entry), entity_id)) (snd entry)) lkp)"

definition initial_dict :: "'k list \<Rightarrow> 'v \<Rightarrow> ('k, 'v) dict" where
  "initial_dict ks v = fold (\<lambda>k d. AList.update k v d) ks []"

text \<open>
  The engine before preprocessing: the attributes set first, and for the attributes
  created later (which do not exist yet in the source) the values they are created with.
\<close>

definition engine_blank :: "kb \<Rightarrow> (nat \<Rightarrow> real) \<Rightarrow> nat \<Rightarrow> engine" where
  "engine_blank K clk k = \<lparr>param_K = k, KB = K, is_model_init_success = False,
     lookup_time = 0, preprocessing_time = 0, avg_lookup_candidate = 0,
     subgraph_construction_time = 0, entity_scoring_time = 0, cea_task_time = 0,
     cta_task_time = 0, cpa_task_time = 0, abnormal_lookup_mentions = [],
     table = [], num_columns = 0, num_rows = 0, first_data_row = 0,
     entity_cols = [], literal_cols = [], date_cols = [], numeral_cols_with_unit = [],
     numeral_cols_without_unit = [], textual_cols = [], index_col = None,
     lookup = [], lookup_scores = [], multiHop_context = False,
     transitivePropertyOnly_path = False, soft_scoring = False,
     semantic_context_weight = 1, literal_context_weight = 3 / 10,
     entity_context_scores = [], entity_sim_scores = [], entity_scores = [],
     G_memory = [], type_graph = [], cached_cpa_candidates = [], unrelated_col_pairs = {},
     cached_cta_candidates = [], contextless_cells = [], potential_candidates = [],
     cta_annot = [], cea_annot = [], cpa_annot = [], clock = clk, ticks = 0\<rparr>"

text \<open>
  The part of \<open>__init__\<close> after a successful lookup: the parameters
  \<open>multiHop_context = True\<close>, \<open>transitivePropertyOnly_path = False\<close> and
  \<open>soft_scoring = True\<close> of \<open>table_annotation\<close>, the initial scores, the subgraphs and the
  flag.
\<close>

definition init_annotation_state :: "engine \<Rightarrow> engine" where
  "init_annotation_state m =
     (let cands = lookup_candidates (lookup m);
          m1 = m\<lparr>multiHop_context := True, transitivePropertyOnly_path := False, soft_scoring := True,
                 semantic_context_weight := 1, literal_context_weight := 3 / 10,
                 entity_context_scores := initial_dict cands [],
                 entity_sim_scores := initial_dict cands 0,
                 entity_scores := initial_dict cands 0\<rparr>;
          start_time = fst (time_time m1); m2 = snd (time_time m1);
          m3 = m2\<lparr>G_memory := set_subgraph (KB m2) (lookup m2), type_graph := []\<rparr>;
          end_time = fst (time_time m3); m4 = snd (time_time m3)
      in m4\<lparr>subgraph_construction_time := round2 (end_time - start_time),
            cached_cpa_candidates := [], unrelated_col_pairs := {}, cached_cta_candidates := [],
            contextless_cells := [], potential_candidates := [],
            cta_annot := [], cea_annot := [], cpa_annot := [],
            is_model_init_success := True\<rparr>)"

text \<open>\<open>lookup_task\<close>: the engine after it and whether it succeeded.\<close>

definition lookup_task :: "externals \<Rightarrow> string \<Rightarrow> engine \<Rightarrow> error + bool \<times> engine" where
  "lookup_task X lookup_index m =
     bind_err (fold_err (\<lambda>column_idx inputs.
                  fold_err (lookup_inputs_step X (table m) column_idx)
                    [first_data_row m..<num_rows m] inputs) (entity_cols m) []) (\<lambda>lookup_inputs.
       let response = x_entity_lookup X lookup_inputs lookup_index;
           results = fold (lookup_result_step (param_K m)) (response_output response)
                       ([], abnormal_lookup_mentions m);
           m1 = m\<lparr>abnormal_lookup_mentions := snd results\<rparr>
       in if fst results \<noteq> [] then
            bind_err (distribute_columns X (table m) (fst results) (first_data_row m) (num_rows m)
                        (length (entity_cols m)) 0
                        \<lparr>ls_entity_cols = entity_cols m, ls_textual_cols = textual_cols m,
                         ls_literal_cols = literal_cols m, ls_lookup = lookup m,
                         ls_lookup_scores = lookup_scores m\<rparr>) (\<lambda>st.
              Inr (True, m1\<lparr>lookup_time := executionTimeSec response,
                     entity_cols := ls_entity_cols st, textual_cols := ls_textual_cols st,
                     literal_cols := ls_literal_cols st, lookup := ls_lookup st,
                     lookup_scores := ls_lookup_scores st,
                     avg_lookup_candidate := avg_candidates (ls_lookup st)\<rparr>))
          else Inr (False, m1))"

text \<open>
  \<open>Baseline_Model(table, target_kb, params)\<close>. The knowledge base is the store behind
  \<open>kb_path\<close>; the preprocessing is the external \<open>table_preprocessing\<close>, whose empty
  \<open>"preprocessed"\<close> dictionary is \<open>None\<close>.
\<close>

definition Baseline_Model_init ::
  "externals \<Rightarrow> kb \<Rightarrow> (nat \<Rightarrow> real) \<Rightarrow> string list list \<Rightarrow> nat \<Rightarrow> string \<Rightarrow> error + engine" where
  "Baseline_Model_init X K clk raw_table k lookup_index =
     (let m0 = engine_blank K clk k;
          start_time = fst (time_time m0); m1 = snd (time_time m0);
          table_infos = x_table_preprocessing X raw_table;
          end_time = fst (time_time m1);
          m2 = (snd (time_time m1))\<lparr>preprocessing_time := round2 (end_time - start_time)\<rparr>
      in case table_infos of
           None \<Rightarrow> Inr m2
         | Some infos \<Rightarrow>
             (case tableDataRevised infos of
                [] \<Rightarrow> Inl IndexError
              | first_row # rest \<Rightarrow>
                  (let t = tableDataRevised infos; n_columns = length first_row; n_rows = length t;
                       first_data = (if hasHeader infos then 1 else 0)
                   in bind_err (find_semantic_columns infos t n_columns first_data n_rows) (\<lambda>ecols.
                      let lcols = filter (\<lambda>c. c \<notin> set ecols) [0..<n_columns] in
                      bind_err (fold_err (literal_column_step infos) lcols ([], [], [], [], None)) (\<lambda>lit.
                      bind_err (lookup_task X lookup_index
                                  (m2\<lparr>table := t, num_columns := n_columns, num_rows := n_rows,
                                      first_data_row := first_data, entity_cols := ecols,
                                      literal_cols := lcols, date_cols := fst lit,
                                      numeral_cols_with_unit := fst (snd lit),
                                      numeral_cols_without_unit := fst (snd (snd lit)),
                                      textual_cols := fst (snd (snd (snd lit))),
                                      index_col := snd (snd (snd (snd lit))),
                                      lookup := [], lookup_scores := []\<rparr>)) (\<lambda>r.
                        if fst r then Inr (init_annotation_state (snd r)) else Inr (snd r)))))))"

section \<open>The annotation passes (table\_annotation.py)\<close>

definition entity_cells :: "engine \<Rightarrow> cell list" where
  "entity_cells s =
     concat (map (\<lambda>col_idx. map (\<lambda>row_idx. (row_idx, col_idx)) [first_data_row s..<num_rows s])
               (entity_cols s))"

definition cea_all :: "engine \<Rightarrow> bool \<Rightarrow> error + engine" where
  "cea_all s only_one =
     fold_err (\<lambda>c m. bind_err (cea_task m (snd c) (fst c) only_one) (\<lambda>r. Inr (snd r)))
       (entity_cells s) s"

definition cta_all :: "engine \<Rightarrow> bool \<Rightarrow> error + engine" where
  "cta_all s only_one =
     fold_err (\<lambda>col_idx m. bind_err (cta_task m col_idx only_one) (\<lambda>r. Inr (snd r)))
       (entity_cols s) s"

definition column_pairs :: "engine \<Rightarrow> column_pair list" where
  "column_pairs s =
     concat (map (\<lambda>i. map (\<lambda>j. (entity_cols s ! i, entity_cols s ! j)) [i + 1..<length (entity_cols s)])
               [0..<length (entity_cols s) - 1]) @
     concat (map (\<lambda>head_col. map (\<lambda>tail_col. (head_col, tail_col)) (literal_cols s)) (entity_cols s))"

definition cpa_all :: "engine \<Rightarrow> bool \<Rightarrow> error + engine" where
  "cpa_all s only_one =
     fold_err (\<lambda>p m. bind_err (cpa_task m (fst p) (snd p) only_one) (\<lambda>r. Inr (snd r)))
       (column_pairs s) s"

text \<open>The four annotation loops of \<open>table_annotation\<close>.\<close>

definition first_annotation_loop :: "externals \<Rightarrow> engine \<Rightarrow> error + engine" where
  "first_annotation_loop X m =
     bind_err (entity_scoring_task X m True False) (\<lambda>m1.
     bind_err (cea_all m1 False) (\<lambda>m2.
     bind_err (cpa_all m2 False) (\<lambda>m3.
     bind_err (update_context_weight m3 False) (\<lambda>m4.
       entity_scoring_task X m4 False False))))"

definition second_annotation_loop :: "engine \<Rightarrow> error + engine" where
  "second_annotation_loop m =
     bind_err (cea_all (m\<lparr>cea_annot := []\<rparr>) False) (\<lambda>m1. cta_all m1 False)"

definition third_annotation_loop :: "engine \<Rightarrow> error + engine" where
  "third_annotation_loop m =
     bind_err (cea_all (m\<lparr>cea_annot := []\<rparr>) True) (\<lambda>m1.
     bind_err (cta_all (m1\<lparr>cta_annot := []\<rparr>) True) (\<lambda>m2.
       cpa_all (m2\<lparr>cpa_annot := []\<rparr>) False))"

definition fourth_annotation_loop :: "externals \<Rightarrow> engine \<Rightarrow> error + engine" where
  "fourth_annotation_loop X m =
     bind_err (update_context_weight m True) (\<lambda>m1.
     bind_err (entity_scoring_task X m1 False True) (\<lambda>m2.
     bind_err (cea_all (m2\<lparr>cea_annot := []\<rparr>) True) (\<lambda>m3.
     bind_err (cta_all (m3\<lparr>cta_annot := []\<rparr>) True) (\<lambda>m4.
       cpa_all (m4\<lparr>cpa_annot := []\<rparr>) True))))"

section \<open>The output of table\_annotation\<close>

record cea_out =
  out_row :: nat
  out_column :: nat
  out_label :: string
  out_uri :: string
  out_score :: real

record cta_out_item =
  cto_label :: string
  cto_uri :: string
  cto_score :: real
  cto_coverage :: real

record cta_out =
  cto_column :: nat
  cto_annotation :: "cta_out_item list"

record cpa_out =
  cpo_headColumn :: nat
  cpo_tailColumn :: nat
  cpo_label :: string
  cpo_uri :: string
  cpo_score :: real
  cpo_coverage :: real

record annotated_part =
  an_tableDataRevised :: "string list list"
  an_CEA :: "cea_out list"
  an_CTA :: "cta_out list"
  an_CPA :: "cpa_out list"

text \<open>The result record; an empty \<open>"annotated"\<close> or \<open>"preprocessed"\<close> dictionary is \<open>None\<close>.\<close>

record annotation_output =
  ao_tableDataRaw :: "string list list"
  ao_annotated :: "annotated_part option"
  ao_preprocessed :: "preprocessed option"
  ao_preprocessingTime :: real
  ao_lookupTime :: real
  ao_entityScoringTime :: real
  ao_subgraphConstructionTime :: real
  ao_ctaTaskTime :: real
  ao_ceaTaskTime :: real
  ao_cpaTaskTime :: real
  ao_avgLookupCandidate :: real

definition default_output :: "string list list \<Rightarrow> annotation_output" where
  "default_output raw_table = \<lparr>ao_tableDataRaw = raw_table, ao_annotated = None, ao_preprocessed = None,
     ao_preprocessingTime = 0, ao_lookupTime = 0, ao_entityScoringTime = 0,
     ao_subgraphConstructionTime = 0, ao_ctaTaskTime = 0, ao_ceaTaskTime = 0, ao_cpaTaskTime = 0,
     ao_avgLookupCandidate = 0\<rparr>"

definition prefixing_entity :: "string \<Rightarrow> error + string" where
  "prefixing_entity entity =
     (case entity of
        [] \<Rightarrow> Inl IndexError
      | c # cs \<Rightarrow>
          if c = CHR ''Q'' then Inr (''http://www.wikidata.org/entity/'' @ entity)
          else if c = CHR ''P'' then Inr (''http://www.wikidata.org/prop/direct/'' @ entity)
          else Inr entity)"

definition is_digit :: "char \<Rightarrow> bool" where
  "is_digit c = ((48 :: nat) \<le> of_char c \<and> (of_char c :: nat) \<le> 57)"

definition is_valid_ID :: "string \<Rightarrow> bool" where
  "is_valid_ID entity_id =
     (length entity_id > 1 \<and> hd entity_id \<in> set ''PQ'' \<and> list_all is_digit (tl entity_id))"

text \<open>
  One element of the list built for \<open>"CEA"\<close>: the call
  \<open>get_label_of_entity(cea[0]["id"], True)\<close> passes a second positional argument.
\<close>

definition cea_output_entry :: "kb \<Rightarrow> cell \<times> cea list \<Rightarrow> error + cea_out" where
  "cea_output_entry K entry =
     (case snd entry of
        [] \<Rightarrow> Inl IndexError
      | c # cs \<Rightarrow>
          bind_err (call_get_label_of_entity K (cea_id c) [Positional True]) (\<lambda>label.
          bind_err (prefixing_entity (cea_id c)) (\<lambda>uri.
            Inr \<lparr>out_row = fst (fst entry), out_column = snd (fst entry), out_label = label,
                 out_uri = uri, out_score = round2 (cea_score c)\<rparr>)))"

definition annotated_CEA :: "engine \<Rightarrow> error + cea_out list" where
  "annotated_CEA m = map_err (cea_output_entry (KB m)) (cea_annot m)"

definition cta_output_item :: "kb \<Rightarrow> cta \<Rightarrow> error + cta_out_item" where
  "cta_output_item K a =
     bind_err (call_get_label_of_entity K (cta_id a) [Positional True]) (\<lambda>label.
     bind_err (prefixing_entity (cta_id a)) (\<lambda>uri.
       Inr \<lparr>cto_label = label, cto_uri = uri, cto_score = round2 (cta_score a),
            cto_coverage = round2 (cta_coverage a)\<rparr>))"

definition annotated_CTA :: "engine \<Rightarrow> error + cta_out list" where
  "annotated_CTA m =
     map_err (\<lambda>entry. bind_err (map_err (cta_output_item (KB m)) (snd entry))
                (\<lambda>items. Inr \<lparr>cto_column = fst entry, cto_annotation = items\<rparr>)) (cta_annot m)"

text \<open>
  The relation of a column pair: every valid identifier of the relation expression is
  replaced by its prefixed form in the uri and by its label in the label (the
  identifiers are a set in the source; they are taken in their order in the expression).
\<close>

definition rel_component_step :: "kb \<Rightarrow> string \<Rightarrow> string \<times> string \<Rightarrow> error + string \<times> string" where
  "rel_component_step K a_id acc =
     (if is_valid_ID a_id then
        bind_err (prefixing_entity a_id) (\<lambda>uri.
        bind_err (call_get_label_of_entity K a_id []) (\<lambda>label.
          Inr (py_replace a_id uri (fst acc), py_replace a_id label (snd acc))))
      else Inr acc)"

definition cpa_output_entry :: "kb \<Rightarrow> column_pair \<times> cpa list \<Rightarrow> error + cpa_out" where
  "cpa_output_entry K entry =
     (case snd entry of
        [] \<Rightarrow> Inl IndexError
      | a # rest \<Rightarrow>
          (let rel = cpa_id a;
               id_components = remdups (py_split ''::''
                  (py_replace '')'' '''' (py_replace ''('' '''' (py_replace ''(-)'' '''' rel))))
           in bind_err (fold_err (rel_component_step K) id_components (rel, rel)) (\<lambda>r.
                Inr \<lparr>cpo_headColumn = fst (fst entry), cpo_tailColumn = snd (fst entry),
                     cpo_label = snd r, cpo_uri = fst r, cpo_score = round2 (cpa_score a),
                     cpo_coverage = round2 (cpa_coverage a)\<rparr>)))"

text \<open>
  The statements after the fourth loop. After the three lists the source reads the
  attribute \<open>preprocessing_infos\<close>, which the engine does not have (its attribute is
  \<open>table_infos\<close>): the read raises \<open>AttributeError\<close>.
\<close>

definition build_output :: "string list list \<Rightarrow> engine \<Rightarrow> error + annotation_output" where
  "build_output raw_table m =
     bind_err (annotated_CEA m) (\<lambda>cea_list.
     bind_err (annotated_CTA m) (\<lambda>cta_list.
     bind_err (map_err (cpa_output_entry (KB m)) (cpa_annot m)) (\<lambda>cpa_list.
       Inl AttributeError)))"

definition table_annotation ::
  "externals \<Rightarrow> kb \<Rightarrow> (nat \<Rightarrow> real) \<Rightarrow> string list list \<Rightarrow> nat \<Rightarrow> string \<Rightarrow> error + annotation_output" where
  "table_annotation X K clk raw_table k lookup_index =
     bind_err (Baseline_Model_init X K clk raw_table k lookup_index) (\<lambda>baseline_model.
       if is_model_init_success baseline_model then
         bind_err (first_annotation_loop X baseline_model) (\<lambda>m1.
         bind_err (second_annotation_loop m1) (\<lambda>m2.
         bind_err (third_annotation_loop m2) (\<lambda>m3.
         bind_err (fourth_annotation_loop X m3) (\<lambda>m4.
           build_output raw_table m4))))
       else Inr (default_output raw_table))"

section \<open>Example knowledge bases\<close>

text \<open>An entity with an instance-of statement (human) and an occupation (politician).\<close>

definition kb_politician :: kb where
  "kb_politician = [''Q1'' \<mapsto> \<lparr>labels = [''Ada''], aliases = [], descriptions = [],
       predicates = [(''P31'', [(''Q5'', ''NORMAL'')]), (''P106'', [(''Q82955'', ''NORMAL'')])]\<rparr>]"

text \<open>A subgraph with the single neighbour \<open>Q7\<close>, reached by one predicate.\<close>

definition G_one :: "string \<Rightarrow> (string, edge list) dict" where
  "G_one p = [(''Q7'', [\<lparr>edge_pid = p, edge_info = ''entity''\<rparr>])]"

text \<open>An engine with no table, the parameters of \<open>table_annotation\<close> and the starting weights.\<close>

definition engine_empty :: engine where
  "engine_empty = \<lparr>param_K = 20, KB = Map.empty, is_model_init_success = False,
     lookup_time = 0, preprocessing_time = 0, avg_lookup_candidate = 0,
     subgraph_construction_time = 0, entity_scoring_time = 0, cea_task_time = 0,
     cta_task_time = 0, cpa_task_time = 0, abnormal_lookup_mentions = [],
     table = [], num_columns = 0, num_rows = 0, first_data_row = 0,
     entity_cols = [], literal_cols = [], date_cols = [], numeral_cols_with_unit = [],
     numeral_cols_without_unit = [], textual_cols = [], index_col = None,
     lookup = [], lookup_scores = [], multiHop_context = True,
     transitivePropertyOnly_path = False, soft_scoring = True,
     semantic_context_weight = 1, literal_context_weight = 3 / 10,
     entity_context_scores = [], entity_sim_scores = [], entity_scores = [],
     G_memory = [], type_graph = [], cached_cpa_candidates = [], unrelated_col_pairs = {},
     cached_cta_candidates = [], contextless_cells = [], potential_candidates = [],
     cta_annot = [], cea_annot = [], cpa_annot = [], clock = (\<lambda>n. 0), ticks = 0\<rparr>"

text \<open>A city with two instance-of statements, and the engine of a table of one cell that denotes it.\<close>

definition kb_city :: kb where
  "kb_city = [''Q90'' \<mapsto> \<lparr>labels = [''Paris''], aliases = [], descriptions = [],
       predicates = [(''P31'', [(''Q515'', ''NORMAL''), (''Q5119'', ''NORMAL'')])]\<rparr>]"

definition engine_paris :: engine where
  "engine_paris = engine_empty\<lparr>KB := kb_city, table := [[''Paris'']], num_columns := 1, num_rows := 1,
     entity_cols := [0], lookup := [((0, 0), [''Q90''])], entity_scores := [((0, 0, ''Q90''), 1)],
     entity_sim_scores := [((0, 0, ''Q90''), 1)], cea_annot := [((0, 0), [\<lparr>cea_id = ''Q90'', cea_score = 1\<rparr>])]\<rparr>"

text \<open>The same engine once the column has the type \<open>Q515\<close> and the types of \<open>Q90\<close> are cached.\<close>

definition engine_paris_typed :: engine where
  "engine_paris_typed = engine_paris\<lparr>
     cached_cta_candidates := [(''Q90'', [(''level_1'', [(''Q515'', ''NORMAL''), (''Q5119'', ''NORMAL'')]), (''level_2'', []), (''level_3'', [])])],
     cta_annot := [(0, [\<lparr>cta_id = ''Q515'', cta_score = 1, cta_coverage = 1\<rparr>])]\<rparr>"

text \<open>
  Two films and two actors; the first film has the second entity as cast member. The
  engine of the table of two rows and two entity columns, after the first scoring and the
  first round of cell annotations.
\<close>

definition kb_film :: kb where
  "kb_film = [
     ''Q104123'' \<mapsto> \<lparr>labels = [''Pulp Fiction''], aliases = [], descriptions = [],
        predicates = [(''P31'', [(''Q11424'', ''NORMAL'')]), (''P161'', [(''Q80938'', ''NORMAL'')])]\<rparr>,
     ''Q80938'' \<mapsto> \<lparr>labels = [''John Travolta''], aliases = [''Travolta''], descriptions = [],
        predicates = [(''P31'', [(''Q5'', ''NORMAL'')]), (''(-)P161'', [(''Q104123'', '''')])]\<rparr>,
     ''Q151904'' \<mapsto> \<lparr>labels = [''Casino Royale''], aliases = [], descriptions = [],
        predicates = [(''P31'', [(''Q11424'', ''NORMAL'')])]\<rparr>,
     ''Q4547'' \<mapsto> \<lparr>labels = [''Daniel Craig''], aliases = [''Craig''], descriptions = [],
        predicates = [(''P31'', [(''Q5'', ''NORMAL'')])]\<rparr>]"

definition engine_film :: engine where
  "engine_film = engine_empty\<lparr>KB := kb_film,
     table := [[''Pulp Fiction'', ''Travolta''], [''Casino Royale'', ''Craig'']],
     num_columns := 2, num_rows := 2, entity_cols := [0, 1],
     lookup := [((0, 0), [''Q104123'']), ((1, 0), [''Q151904'']), ((0, 1), [''Q80938'']), ((1, 1), [''Q4547''])],
     entity_context_scores :=
       [((0, 0, ''Q104123''), [(1, \<lparr>ctx_weight = 1, ctx_score = 1, ctx_context = [''P161'']\<rparr>)]),
        ((1, 0, ''Q151904''), [(1, \<lparr>ctx_weight = 1, ctx_score = 1 / 10, ctx_context = []\<rparr>)]),
        ((0, 1, ''Q80938''), [(0, \<lparr>ctx_weight = 1, ctx_score = 1, ctx_context = [''P161'']\<rparr>)]),
        ((1, 1, ''Q4547''), [(0, \<lparr>ctx_weight = 1, ctx_score = 1 / 10, ctx_context = []\<rparr>)])],
     entity_sim_scores :=
       [((0, 0, ''Q104123''), 1), ((1, 0, ''Q151904''), 1), ((0, 1, ''Q80938''), 1), ((1, 1, ''Q4547''), 1)],
     entity_scores :=
       [((0, 0, ''Q104123''), 1 / 10), ((1, 0, ''Q151904''), 1 / 10), ((0, 1, ''Q80938''), 1 / 10),
        ((1, 1, ''Q4547''), 1 / 10)],
     cached_cpa_candidates := [((''Q104123'', ''Q80938''), [\<lparr>rel_id = ''P161'', rel_semantic_proximity = 1\<rparr>])],
     cea_annot :=
       [((0, 0), [\<lparr>cea_id = ''Q104123'', cea_score = 1 / 10\<rparr>]),
        ((1, 0), [\<lparr>cea_id = ''Q151904'', cea_score = 1 / 10\<rparr>]),
        ((0, 1), [\<lparr>cea_id = ''Q80938'', cea_score = 1 / 10\<rparr>]),
        ((1, 1), [\<lparr>cea_id = ''Q4547'', cea_score = 1 / 10\<rparr>])]\<rparr>"

text \<open>
  The film engine after the first column pair annotation, and after the weights of the
  contexts have been updated from it.
\<close>

definition engine_film_cpa :: engine where
  "engine_film_cpa = engine_film\<lparr>cpa_annot :=
     [((0, 1), [\<lparr>cpa_id = ''P161'', cpa_score = 1 / 20, cpa_semantic_proximity = 1, cpa_coverage = 1 / 2\<rparr>])]\<rparr>"

definition engine_film_weighted :: engine where
  "engine_film_weighted = engine_film_cpa\<lparr>entity_context_scores :=
       [((0, 0, ''Q104123''), [(1, \<lparr>ctx_weight = 1 / 2, ctx_score = 1, ctx_context = [''P161'']\<rparr>)]),
        ((1, 0, ''Q151904''), [(1, \<lparr>ctx_weight = 1 / 2, ctx_score = 1 / 10, ctx_context = []\<rparr>)]),
        ((0, 1, ''Q80938''), [(0, \<lparr>ctx_weight = 1 / 2, ctx_score = 1, ctx_context = [''P161'']\<rparr>)]),
        ((1, 1, ''Q4547''), [(0, \<lparr>ctx_weight = 1 / 2, ctx_score = 1 / 10, ctx_context = []\<rparr>)])]\<rparr>"

text \<open>
  Collaborators for the examples: strings compare by equality, nothing parses as a unit
  or a year, the preprocessing accepts a table of more than one row and types every
  column as a place, and the lookup knows \<open>paris\<close>.
\<close>

definition externals_plain :: externals where
  "externals_plain = \<lparr>x_lower = (\<lambda>s. s),
     x_fuzz_ratio = (\<lambda>a b. if a = b then 100 else 0),
     x_fuzz_token_sort_ratio = (\<lambda>a b. if a = b then 100 else 0),
     x_fuzz_token_set_ratio = (\<lambda>a b. if a = b then 100 else 0),
     x_date_similarity = (\<lambda>a b. a = b),
     x_get_year_from_date = (\<lambda>d. None),
     x_unidecode = (\<lambda>s. s),
     x_standardize_cell = (\<lambda>s. []),
     x_standardize_value = (\<lambda>v u. []),
     x_table_preprocessing = (\<lambda>t. if length t > 1
        then Some \<lparr>tableDataRevised = t, hasHeader = False,
                   primitiveTyping = map (\<lambda>c. [(''GPE'', 1)]) (hd t)\<rparr>
        else None),
     x_entity_lookup = (\<lambda>labels idx. \<lparr>executionTimeSec = 0,
        response_output = map (\<lambda>l. \<lparr>item_label = l,
          item_entities = Some (if l = ''paris'' then [(''Q90'', 1)] else [])\<rparr>) labels\<rparr>)\<rparr>"

text \<open>
  Three candidates for a contextless cell: a person and two cities, the second city with
  a predicate that annotates a column pair. The column has the types city and human
  settlement.
\<close>

definition kb_paris :: kb where
  "kb_paris = [
     ''Q47899'' \<mapsto> \<lparr>labels = [''Paris Hilton''], aliases = [''Paris''], descriptions = [],
        predicates = [(''P31'', [(''Q5'', ''NORMAL'')])]\<rparr>,
     ''Q90'' \<mapsto> \<lparr>labels = [''Paris''], aliases = [], descriptions = [],
        predicates = [(''P31'', [(''Q515'', ''NORMAL'')])]\<rparr>,
     ''Q830149'' \<mapsto> \<lparr>labels = [''Paris''], aliases = [], descriptions = [],
        predicates = [(''P31'', [(''Q515'', ''NORMAL'')]), (''P17'', [(''Q30'', ''NORMAL'')])]\<rparr>,
     ''Q515'' \<mapsto> \<lparr>labels = [''city''], aliases = [], descriptions = [],
        predicates = [(''P279'', [(''Q486972'', ''NORMAL'')])]\<rparr>,
     ''Q486972'' \<mapsto> \<lparr>labels = [''human settlement''], aliases = [], descriptions = [],
        predicates = []\<rparr>]"

definition engine_tie :: engine where
  "engine_tie = engine_empty\<lparr>KB := kb_paris,
     table := [[''Paris'', ''France'']], num_columns := 2, num_rows := 1, entity_cols := [0, 1],
     lookup := [((0, 0), [''Q47899'', ''Q90'', ''Q830149''])],
     entity_scores := [((0, 0, ''Q47899''), 7 / 8), ((0, 0, ''Q90''), 3 / 4), ((0, 0, ''Q830149''), 1 / 2)],
     cached_cta_candidates :=
       [(''Q47899'', [(''level_1'', [(''Q5'', ''NORMAL'')]), (''level_2'', []), (''level_3'', [])]),
        (''Q90'', [(''level_1'', [(''Q515'', ''NORMAL'')]), (''level_2'', [(''Q486972'', ''NORMAL'')]), (''level_3'', [])]),
        (''Q830149'', [(''level_1'', [(''Q515'', ''NORMAL'')]), (''level_2'', [(''Q486972'', ''NORMAL'')]), (''level_3'', [])])],
     contextless_cells := [((0, 0), 1 / 10)],
     potential_candidates :=
       [((0, 0, ''Q830149''), [\<lparr>pot_cpa_coeff = 1 / 2, pot_cpa_score = 1 / 4, pot_cpa_id = ''P17''\<rparr>])],
     cta_annot := [(0, [\<lparr>cta_id = ''Q515'', cta_score = 1 / 2, cta_coverage = 1\<rparr>,
                        \<lparr>cta_id = ''Q486972'', cta_score = 1 / 2, cta_coverage = 1 / 2\<rparr>])]\<rparr>"

section \<open>Properties of dictionaries\<close>

lemma keys_nil [simp]: "keys [] = []"
  by (simp add: keys_def)

lemma keys_update: "set (keys (AList.update k v d)) = insert k (set (keys d))"
  by (induction d) (auto simp: keys_def)

lemma keys_dict_update: "set (keys (dict_update d other)) = set (keys d) \<union> set (keys other)"
  unfolding dict_update_def
  by (induction other arbitrary: d) (auto simp: keys_update, auto simp: keys_def)

lemma keys_set_empty_iff: "set (keys d) = {} \<longleftrightarrow> d = []"
  by (simp add: keys_def)

section \<open>Hierarchical types of an entity\<close>

lemma level_key_2: "level_key 2 = ''level_2''"
  by code_simp

lemma level_key_3: "level_key 3 = ''level_3''"
  by code_simp

lemma upto_2_3: "[2..3::int] = [2, 3]"
  by (simp add: upto_rec_numeral)

lemma fold_supertype_step:
  "set (keys (fold (supertype_step K) ts acc)) =
     set (keys acc) \<union> (\<Union>t\<in>set ts. set (keys (get_supertypes_of_type K t)))"
  by (induction ts arbitrary: acc)
     (auto simp: supertype_step_def get_supertypes_of_type_def keys_dict_update split: option.splits)

lemma types_step_snd:
  "set (keys (snd (types_step pod p acc))) =
     set (keys (snd acc)) \<union>
     (if p = instanceOfPID then {} else set (keys (case map_of pod p of None \<Rightarrow> [] | Some d \<Rightarrow> d)))"
  by (auto simp: types_step_def keys_dict_update split: option.splits)

lemma types_step_fst:
  "set (keys (fst (types_step pod p acc))) =
     set (keys (fst acc)) \<union>
     (if p = instanceOfPID then set (keys (case map_of pod p of None \<Rightarrow> [] | Some d \<Rightarrow> d)) else {})"
  by (auto simp: types_step_def keys_dict_update split: option.splits)

lemma fold_types_step_snd:
  "set (keys (snd (fold (types_step (prop_obj_dict K e)) type_properties ([], [])))) =
     set (keys (adjacency_of K e ''P106'')) \<union> set (keys (adjacency_of K e ''P39'')) \<union>
     set (keys (adjacency_of K e ''P105''))"
  by (simp add: type_properties_def types_step_snd instanceOfPID_def adjacency_of_def)

lemma fold_types_step_fst:
  "set (keys (fst (fold (types_step (prop_obj_dict K e)) type_properties ([], [])))) =
     set (keys (adjacency_of K e instanceOfPID))"
  by (simp add: type_properties_def types_step_fst instanceOfPID_def adjacency_of_def)

text \<open>
  C5, as amended. \<open>get_types_of_entity\<close> with three levels returns exactly the three
  levels. The types of level 1 are the objects of the occupation, position-held and
  \<open>P105\<close> predicates when the entity has any of them, and the objects of instance-of
  only when it has none; the types of each higher level are the subclass-of targets of
  the types of the level before.
\<close>

theorem get_types_of_entity_levels:
  "\<exists>L1 L2 L3.
     get_types_of_entity K e 3 = [(''level_1'', L1), (''level_2'', L2), (''level_3'', L3)] \<and>
     set (keys L1) =
       (if set (keys (adjacency_of K e ''P106'')) \<union> set (keys (adjacency_of K e ''P39'')) \<union>
             set (keys (adjacency_of K e ''P105'')) = {}
        then set (keys (adjacency_of K e instanceOfPID))
        else set (keys (adjacency_of K e ''P106'')) \<union> set (keys (adjacency_of K e ''P39'')) \<union>
             set (keys (adjacency_of K e ''P105''))) \<and>
     set (keys L2) = (\<Union>t\<in>set (keys L1). set (keys (get_supertypes_of_type K t))) \<and>
     set (keys L3) = (\<Union>t\<in>set (keys L2). set (keys (get_supertypes_of_type K t)))"
proof -
  define acc where "acc = fold (types_step (prop_obj_dict K e)) type_properties ([], [])"
  define L1 where "L1 = (if snd acc \<noteq> [] then snd acc else fst acc)"
  define T2 where "T2 = fold (supertype_step K) (keys L1) []"
  define L2 where "L2 = dict_update [] T2"
  define T3 where "T3 = fold (supertype_step K) (keys T2) []"
  define L3 where "L3 = dict_update [] T3"
  have res: "get_types_of_entity K e 3 = [(''level_1'', L1), (''level_2'', L2), (''level_3'', L3)]"
    unfolding L3_def T3_def L2_def T2_def L1_def acc_def
    by (simp add: get_types_of_entity_def Let_def upto_2_3 level_step_def level_key_2 level_key_3)
  have k1: "set (keys L1) =
       (if set (keys (adjacency_of K e ''P106'')) \<union> set (keys (adjacency_of K e ''P39'')) \<union>
             set (keys (adjacency_of K e ''P105'')) = {}
        then set (keys (adjacency_of K e instanceOfPID))
        else set (keys (adjacency_of K e ''P106'')) \<union> set (keys (adjacency_of K e ''P39'')) \<union>
             set (keys (adjacency_of K e ''P105'')))"
    using fold_types_step_snd [of K e] fold_types_step_fst [of K e] keys_set_empty_iff [of "snd acc"]
    by (simp only: L1_def acc_def [symmetric] split: if_splits) auto
  have k2: "set (keys L2) = (\<Union>t\<in>set (keys L1). set (keys (get_supertypes_of_type K t)))"
    by (simp add: L2_def T2_def keys_dict_update fold_supertype_step)
  have k3: "set (keys L3) = (\<Union>t\<in>set (keys L2). set (keys (get_supertypes_of_type K t)))"
    by (simp add: L3_def T3_def L2_def keys_dict_update fold_supertype_step)
  from res k1 k2 k3 show ?thesis by blast
qed

text \<open>
  C5, as stated, fails: for an entity that is an instance of \<open>Q5\<close> and has the
  occupation \<open>Q82955\<close>, level 1 holds the occupation only, although \<open>Q5\<close> is in the
  union of the adjacencies of the type-bearing predicates.
\<close>

theorem level_1_union_counterexample:
  "map_of (get_types_of_entity kb_politician ''Q1'' 3) ''level_1'' = Some [(''Q82955'', ''NORMAL'')] \<and>
   ''Q5'' \<in> (\<Union>p\<in>set type_properties. set (keys (adjacency_of kb_politician ''Q1'' p))) \<and>
   ''Q5'' \<notin> set (keys [(''Q82955'', ''NORMAL'')])"
  by (simp add: get_types_of_entity_def Let_def upto_2_3 level_step_def level_key_2 level_key_3
        type_properties_def types_step_def prop_obj_dict_def kb_politician_def instanceOfPID_def
        dict_update_def adjacency_of_def keys_def supertype_step_def)

section \<open>Multi-hop relations\<close>

lemma path_relation_spec: "path_relation w ph pt = spec_relation w ph pt"
  by (auto simp: path_relation_def spec_relation_def Let_def)

lemma node_popularity_pos: "node_popularity K n > 0 \<longleftrightarrow> get_num_edges K n \<noteq> 0"
proof -
  have "0 \<le> log 10 (2 + real (get_num_edges K n))"
    by simp
  then have "0 < 2 + log 10 (2 + real (get_num_edges K n))" by linarith
  then show ?thesis by (simp add: node_popularity_def Let_def)
qed

lemma fold_record_nested:
  "fold (\<lambda>ph. fold (\<lambda>pt. record_relation (f ph pt)) ts) hs acc =
     fold record_relation (concat (map (\<lambda>ph. map (\<lambda>pt. f ph pt) ts) hs)) acc"
  by (induction hs arbitrary: acc) (simp_all add: fold_map comp_def)

lemma multi_hop_node_fold:
  "multi_hop_node K G_head G_tail n acc =
     fold record_relation
       (if get_num_edges K n \<noteq> 0
        then concat (map (\<lambda>ph. map (\<lambda>pt.
               spec_relation (1 / (2 + log 10 (2 + real (get_num_edges K n)))) (edge_pid ph) (edge_pid pt))
               (edges_at G_tail n)) (edges_at G_head n))
        else []) acc"
proof (cases "get_num_edges K n = 0")
  case True
  then show ?thesis
    using node_popularity_pos [of K n] by (simp add: multi_hop_node_def Let_def)
next
  case False
  then have np: "node_popularity K n = 1 / (2 + log 10 (2 + real (get_num_edges K n)))"
    by (simp add: node_popularity_def Let_def)
  from False have "node_popularity K n > 0"
    by (simp add: node_popularity_pos)
  then show ?thesis
    using False by (simp add: multi_hop_node_def Let_def fold_record_nested path_relation_spec np [symmetric])
qed

lemma multi_hop_as_fold:
  "multi_hop_relations K G_head G_tail nodes acc =
     fold record_relation (spec_emitted K G_head G_tail nodes) acc"
  unfolding multi_hop_relations_def spec_emitted_def
  by (induction nodes arbitrary: acc) (simp_all only: fold_simps list.map concat.simps fold_append comp_def multi_hop_node_fold)

lemma Max_insert_max:
  assumes "finite S"
  shows "Max (insert (max a p) S) = Max (insert (a::real) (insert p S))"
proof (cases "S = {}")
  case True
  then show ?thesis by (simp add: max.commute)
next
  case False
  with assms show ?thesis by (simp add: max.assoc)
qed

lemma fold_record_fst:
  "fst (fold record_relation E acc) = Max (insert (fst acc) (snd ` set E))"
proof (induction E arbitrary: acc)
  case Nil
  show ?case by simp
next
  case (Cons c E)
  have "fst (fold record_relation (c # E) acc) = Max (insert (max (fst acc) (snd c)) (snd ` set E))"
    by (simp add: Cons record_relation_def)
  also have "\<dots> = Max (insert (fst acc) (insert (snd c) (snd ` set E)))"
    by (rule Max_insert_max) simp
  finally show ?case by simp
qed

lemma map_of_update:
  "map_of (AList.update k v d) r = (if r = k then Some v else map_of d r)"
  by (simp add: update_conv')

lemma finite_observed: "finite {q. (r, q) \<in> set E}"
proof -
  have "{q. (r, q) \<in> set E} \<subseteq> snd ` set E" by force
  then show ?thesis by (rule finite_subset) simp
qed

lemma fold_record_snd:
  "map_of (snd (fold record_relation E acc)) r =
     (if r \<in> fst ` set E
      then Some (Min (seen (snd acc) r \<union> {p. (r, p) \<in> set E}))
      else map_of (snd acc) r)"
proof (induction E arbitrary: acc)
  case Nil
  show ?case by simp
next
  case (Cons c E)
  obtain k p where c: "c = (k, p)" by (cases c)
  define acc' where "acc' = record_relation c acc"
  have step: "fold record_relation (c # E) acc = fold record_relation E acc'"
    by (simp add: acc'_def)
  have IH: "map_of (snd (fold record_relation E acc')) r =
     (if r \<in> fst ` set E
      then Some (Min (seen (snd acc') r \<union> {p. (r, p) \<in> set E}))
      else map_of (snd acc') r)"
    by (rule Cons)
  have fin: "finite {q. (r, q) \<in> set E}" by (rule finite_observed)
  show ?case
  proof (cases "r = k")
    case False
    then have same: "map_of (snd acc') r = map_of (snd acc) r" "seen (snd acc') r = seen (snd acc) r"
      by (simp_all add: acc'_def c record_relation_def map_of_update seen_def)
    from False have obs: "{q. (r, q) \<in> set (c # E)} = {q. (r, q) \<in> set E}" "r \<in> fst ` set (c # E) \<longleftrightarrow> r \<in> fst ` set E"
      by (auto simp: c)
    show ?thesis
      by (simp only: step IH same obs)
  next
    case True
    define m where "m = min (case map_of (snd acc) k of None \<Rightarrow> p | Some v \<Rightarrow> v) p"
    have new: "map_of (snd acc') r = Some m" "seen (snd acc') r = {m}"
      using True by (simp_all add: acc'_def c record_relation_def map_of_update seen_def m_def split: option.splits)
    have obs: "{q. (r, q) \<in> set (c # E)} = insert p {q. (r, q) \<in> set E}" "r \<in> fst ` set (c # E)"
      using True by (auto simp: c)
    have m_Min: "m = Min (seen (snd acc) r \<union> {p})"
      using True by (auto simp: m_def seen_def min.commute split: option.splits)
    have fin2: "finite (seen (snd acc) r)"
      by (simp add: seen_def split: option.splits)
    have "Min ({m} \<union> {q. (r, q) \<in> set E}) = Min (seen (snd acc) r \<union> insert p {q. (r, q) \<in> set E})"
    proof (cases "{q. (r, q) \<in> set E} = {}")
      case True
      then show ?thesis by (simp add: m_Min)
    next
      case False
      have "Min ({m} \<union> {q. (r, q) \<in> set E}) = min m (Min {q. (r, q) \<in> set E})"
        using fin False by simp
      also have "\<dots> = min (Min (seen (snd acc) r \<union> {p})) (Min {q. (r, q) \<in> set E})"
        by (simp add: m_Min)
      also have "\<dots> = Min ((seen (snd acc) r \<union> {p}) \<union> {q. (r, q) \<in> set E})"
        using fin fin2 False by (subst Min_Un) simp_all
      finally show ?thesis by simp
    qed
    moreover have "r \<notin> fst ` set E \<Longrightarrow> {q. (r, q) \<in> set E} = {}"
      by force
    ultimately show ?thesis
      by (auto simp only: step IH new obs if_True m_Min split: if_splits) (auto simp: m_Min)
  qed
qed


text \<open>
  C2, as amended. In the multi-hop branch, every shared neighbour with at least one edge
  in the knowledge base, of popularity \<open>w = 1 / (2 + log10 (2 + num_edges))\<close>, emits for every
  pair of predicates the relation of \<open>spec_relation\<close>: the single predicate with proximity
  1 when the head predicate equals the reversed tail predicate and is transitive, else
  the path with proximity \<open>w\<close>, divided by 1.75 exactly when one of its two predicates
  carries the \<open>(-)\<close> prefix and the other does not. A neighbour without edges emits
  nothing. The best proximity of the pair is the maximum over the emitted relations (0
  when there is none), and the proximity recorded for a relation is the minimum emitted
  for it.
\<close>

theorem multi_hop_relations_spec:
  "fst (multi_hop_relations K G_head G_tail nodes (0, [])) =
     Max (insert 0 (snd ` set (spec_emitted K G_head G_tail nodes))) \<and>
   map_of (snd (multi_hop_relations K G_head G_tail nodes (0, []))) r =
     (if r \<in> fst ` set (spec_emitted K G_head G_tail nodes)
      then Some (Min {p. (r, p) \<in> set (spec_emitted K G_head G_tail nodes)})
      else None)"
  by (simp add: multi_hop_as_fold fold_record_fst fold_record_snd seen_def)

text \<open>
  C2, as stated, fails for a shared neighbour that has no record in the knowledge base:
  the popularity formula gives a positive value, both subgraphs reach the neighbour, and
  the loop emits nothing.
\<close>

theorem multi_hop_unknown_neighbor_counterexample:
  "1 / (2 + log 10 (2 + real (get_num_edges kb_politician ''Q7''))) > 0 \<and>
   edges_at (G_one ''P50'') ''Q7'' \<noteq> [] \<and> edges_at (G_one ''P57'') ''Q7'' \<noteq> [] \<and>
   multi_hop_relations kb_politician (G_one ''P50'') (G_one ''P57'') [''Q7''] (0, []) = (0, [])"
  by (simp add: get_num_edges_def prop_obj_dict_def kb_politician_def edges_at_def G_one_def
        multi_hop_relations_def multi_hop_node_def node_popularity_def add_pos_nonneg)

section \<open>Column types: counts\<close>

lemma fold_err_invariant:
  assumes "fold_err f xs s = Inr s'" and "P s"
    and "\<And>x a b. x \<in> set xs \<Longrightarrow> P a \<Longrightarrow> f x a = Inr b \<Longrightarrow> P b"
  shows "P s'"
  using assms
proof (induction xs arbitrary: s)
  case Nil
  then show ?case by simp
next
  case (Cons x xs)
  from Cons.prems(1) obtain m where m: "f x s = Inr m" and rest: "fold_err f xs m = Inr s'"
    by (auto split: sum.splits)
  have "P m" using Cons.prems(2,3) m by auto
  then show ?case using Cons.IH [OF rest] Cons.prems(3) by auto
qed

lemma bind_err_Inr: "bind_err m f = Inr y \<longleftrightarrow> (\<exists>x. m = Inr x \<and> f x = Inr y)"
  by (cases m) (simp_all add: bind_err_def)

lemma distinct_keys_update: "distinct (map fst d) \<Longrightarrow> distinct (map fst (AList.update k v d))"
  by (simp add: distinct_update)

lemma level_1_step_distinct:
  "level_1_step sc item acc = Inr acc' \<Longrightarrow> distinct (map fst (fst acc)) \<Longrightarrow> distinct (map fst (fst acc'))"
  by (auto simp: level_1_step_def Let_def bind_err_Inr distinct_keys_update split: option.splits)

lemma level_2_step_distinct:
  "level_2_step sc item acc = Inr acc' \<Longrightarrow> distinct (map fst (fst acc)) \<Longrightarrow> distinct (map fst (fst acc'))"
  by (auto simp: level_2_step_def Let_def bind_err_Inr distinct_keys_update split: option.splits)

lemma level_3_step_distinct:
  "level_3_step sc item acc = Inr acc' \<Longrightarrow> distinct (map fst (fst acc)) \<Longrightarrow> distinct (map fst (fst acc'))"
  by (auto simp: level_3_step_def Let_def bind_err_Inr distinct_keys_update split: option.splits)

lemma cta_cea_step_distinct:
  assumes "cta_cea_step K c acc = Inr acc'" and "distinct (map fst (fst (snd acc)))"
  shows "distinct (map fst (fst (snd acc')))"
proof -
  from assms(1) obtain h l1 a1 l2 a2 l3 a3 where
    s1: "fold_err (level_1_step (cea_score c)) l1 (snd acc) = Inr a1" and
    s2: "fold_err (level_2_step (cea_score c)) l2 a1 = Inr a2" and
    s3: "fold_err (level_3_step (cea_score c)) l3 a2 = Inr a3" and
    res: "snd acc' = a3"
    by (auto simp: cta_cea_step_def Let_def bind_err_Inr)
  have d1: "distinct (map fst (fst a1))"
    by (rule fold_err_invariant [OF s1, where P = "\<lambda>a. distinct (map fst (fst a))"])
       (use assms(2) level_1_step_distinct in auto)
  have d2: "distinct (map fst (fst a2))"
    by (rule fold_err_invariant [OF s2, where P = "\<lambda>a. distinct (map fst (fst a))"])
       (use d1 level_2_step_distinct in auto)
  have d3: "distinct (map fst (fst a3))"
    by (rule fold_err_invariant [OF s3, where P = "\<lambda>a. distinct (map fst (fst a))"])
       (use d2 level_3_step_distinct in auto)
  then show ?thesis by (simp add: res)
qed

lemma count_type_step_count:
  "count_of (count_type_step item ct) t = count_of ct t + (if t = fst item then 1 else 0)"
  by (auto simp: count_type_step_def count_of_def update_conv' split: option.splits)

lemma count_type_step_distinct:
  "distinct (map fst ct) \<Longrightarrow> distinct (map fst (count_type_step item ct))"
  by (auto simp: count_type_step_def distinct_keys_update split: option.splits)

lemma fold_count_type_step:
  "distinct (map fst row) \<Longrightarrow>
   count_of (fold count_type_step row ct) t = count_of ct t + (if t \<in> fst ` set row then 1 else 0)"
proof (induction row arbitrary: ct)
  case Nil
  show ?case by simp
next
  case (Cons item row)
  then show ?case by (auto simp: count_type_step_count)
qed

lemma fold_count_type_step_distinct:
  "distinct (map fst ct) \<Longrightarrow> distinct (map fst (fold count_type_step row ct))"
  by (induction row arbitrary: ct) (simp_all add: count_type_step_distinct)

lemma cta_row_step_counts:
  assumes "cta_row_step K annot col_index row_index acc = Inr acc'" and "counts_within n acc"
  shows "counts_within (Suc n) acc'"
proof (cases "map_of annot (row_index, col_index)")
  case None
  with assms show ?thesis
    by (auto simp: cta_row_step_def counts_within_def le_Suc_eq)
next
  case (Some ceas)
  with assms(1) obtain r where
    run: "fold_err (cta_cea_step K) ceas (fst acc, [], snd (snd acc)) = Inr r" and
    res: "fst (snd acc') = fold count_type_step (fst (snd r)) (fst (snd acc))"
    by (auto simp: cta_row_step_def bind_err_Inr)
  have d: "distinct (map fst (fst (snd r)))"
    by (rule fold_err_invariant [OF run, where P = "\<lambda>a. distinct (map fst (fst (snd a)))"])
       (use cta_cea_step_distinct in auto)
  have "count_of (fst (snd acc')) t \<le> Suc n" for t
  proof -
    have "count_of (fst (snd acc)) t \<le> n"
      using assms(2) by (simp add: counts_within_def)
    then show ?thesis
      using fold_count_type_step [OF d, of "fst (snd acc)" t] by (simp add: res split: if_splits)
  qed
  moreover have "distinct (map fst (fst (snd acc')))"
    using assms(2) by (simp add: res counts_within_def fold_count_type_step_distinct)
  ultimately show ?thesis by (simp add: counts_within_def)
qed

lemma cta_rows_counts:
  "fold_err (cta_row_step K annot col_index) rows acc = Inr acc' \<Longrightarrow> counts_within n acc \<Longrightarrow>
   counts_within (n + length rows) acc'"
proof (induction rows arbitrary: acc n)
  case Nil
  then show ?case by simp
next
  case (Cons r rows)
  from Cons.prems(1) obtain m where m: "cta_row_step K annot col_index r acc = Inr m"
    and rest: "fold_err (cta_row_step K annot col_index) rows m = Inr acc'"
    by (auto split: sum.splits)
  have "counts_within (Suc n) m" by (rule cta_row_step_counts [OF m Cons.prems(2)])
  from Cons.IH [OF rest this] show ?case by simp
qed

text \<open>
  C7, as amended. For every column processed by \<open>cta_task\<close>, the count aggregated for
  each candidate type does not exceed the number of data rows of the table: a row adds at
  most one to the count of a type.
\<close>

theorem cta_type_count_bounded:
  assumes "cta_candidate_types s col_index = Inr r" and "(t, tt) \<in> set (fst (snd r))"
  shows "tt_count tt \<le> num_rows s - first_data_row s"
proof -
  have "counts_within 0 (cached_cta_candidates s, [], None)"
    by (simp add: counts_within_def count_of_def)
  from cta_rows_counts [OF assms(1) [unfolded cta_candidate_types_def] this]
  have cw: "counts_within (num_rows s - first_data_row s) r" by simp
  then have "map_of (fst (snd r)) t = Some tt"
    using assms(2) by (simp add: counts_within_def)
  then have "count_of (fst (snd r)) t = tt_count tt" by (simp add: count_of_def)
  with cw show ?thesis by (metis counts_within_def)
qed

lemmas cta_eval = cta_candidate_types_def cta_row_step_def cta_cea_step_def get_types_of_entity_def
  Let_def upto_2_3 level_step_def level_key_2 level_key_3 type_properties_def types_step_def
  prop_obj_dict_def instanceOfPID_def subClassPID_def dict_update_def keys_def supertype_step_def
  bind_err_def dict_get_def level_1_step_def level_2_step_def level_3_step_def rank0_def
  map_rank_def count_type_step_def first_level_def second_level_def third_level_def

lemma cta_candidate_types_paris:
  "cta_candidate_types engine_paris 0 =
     Inr ([(''Q90'', [(''level_1'', [(''Q515'', ''NORMAL''), (''Q5119'', ''NORMAL'')]), (''level_2'', []), (''level_3'', [])])],
          [(''Q515'', \<lparr>tt_count = 1, tt_total_scores = 1, tt_total_ranks = 0\<rparr>),
           (''Q5119'', \<lparr>tt_count = 1, tt_total_scores = 1, tt_total_ranks = 0\<rparr>)],
          Some ''Q5119'')"
  by (simp add: cta_eval engine_paris_def engine_empty_def kb_city_def)

theorem cta_type_count_bounded_witness:
  "cta_candidate_types engine_paris 0 =
     Inr ([(''Q90'', [(''level_1'', [(''Q515'', ''NORMAL''), (''Q5119'', ''NORMAL'')]), (''level_2'', []), (''level_3'', [])])],
          [(''Q515'', \<lparr>tt_count = 1, tt_total_scores = 1, tt_total_ranks = 0\<rparr>),
           (''Q5119'', \<lparr>tt_count = 1, tt_total_scores = 1, tt_total_ranks = 0\<rparr>)],
          Some ''Q5119'') \<and>
   tt_count \<lparr>tt_count = 1, tt_total_scores = 1, tt_total_ranks = 0\<rparr> \<le> num_rows engine_paris - first_data_row engine_paris"
  using cta_type_count_bounded [OF cta_candidate_types_paris, of "''Q515''" "\<lparr>tt_count = 1, tt_total_scores = 1, tt_total_ranks = 0\<rparr>"]
    cta_candidate_types_paris
  by simp

text \<open>
  C7, as stated, fails: one data row whose entity has two types gives both types the
  count 1, and the sum of the counts is 2.
\<close>

theorem cta_count_sum_counterexample:
  "cta_candidate_types engine_paris 0 =
     Inr ([(''Q90'', [(''level_1'', [(''Q515'', ''NORMAL''), (''Q5119'', ''NORMAL'')]), (''level_2'', []), (''level_3'', [])])],
          [(''Q515'', \<lparr>tt_count = 1, tt_total_scores = 1, tt_total_ranks = 0\<rparr>),
           (''Q5119'', \<lparr>tt_count = 1, tt_total_scores = 1, tt_total_ranks = 0\<rparr>)],
          Some ''Q5119'') \<and>
   sum_list (map (\<lambda>ct. tt_count (snd ct))
     [(''Q515'', \<lparr>tt_count = 1, tt_total_scores = 1, tt_total_ranks = 0\<rparr>),
      (''Q5119'', \<lparr>tt_count = 1, tt_total_scores = 1, tt_total_ranks = 0\<rparr>)]) = 2 \<and>
   num_rows engine_paris - first_data_row engine_paris = 1"
  by (simp add: cta_eval engine_paris_def engine_empty_def kb_city_def)

section \<open>Cell entity annotation: scores and order\<close>

lemma map_err_list_all2:
  "map_err f xs = Inr ys \<Longrightarrow> list_all2 (\<lambda>x y. f x = Inr y) xs ys"
proof (induction xs arbitrary: ys)
  case Nil
  then show ?case by simp
next
  case (Cons x xs)
  then show ?case by (auto split: sum.splits)
qed

lemma mset_py_sorted_desc: "mset (py_sorted_desc key xs) = mset xs"
  by (simp add: py_sorted_desc_def)

lemma py_sorted_desc_sorted:
  "sorted_wrt (\<lambda>a b. key a \<ge> key b) (py_sorted_desc key xs)"
proof -
  have "sorted (map key (sort_key key (rev xs)))" by simp
  then have "sorted_wrt (\<lambda>a b. key a \<le> key b) (sort_key key (rev xs))"
    by (simp add: sorted_map)
  then show ?thesis
    by (simp add: py_sorted_desc_def sorted_wrt_rev)
qed

lemma py_sorted_desc_stable:
  "filter (\<lambda>y. key y = k) (py_sorted_desc key xs) = filter (\<lambda>y. key y = k) xs"
  by (simp add: py_sorted_desc_def rev_filter [symmetric] sort_key_stable)

lemma py_sorted_desc_nil: "py_sorted_desc key xs = [] \<longleftrightarrow> xs = []"
  by (metis mset_py_sorted_desc mset_zero_iff)

lemma cea_key_order:
  "cea_sort_key s r c b \<le> cea_sort_key s r c a \<longleftrightarrow>
     cea_score b < cea_score a \<or>
     (cea_score a = cea_score b \<and> cpa_memberships s r c b \<le> cpa_memberships s r c a)"
  by (auto simp: cea_sort_key_def less_eq_prod_def)

lemma sorted_desc_head_max:
  assumes "sorted_wrt (\<lambda>a b. f b \<le> (f a :: real)) (x # xs)"
  shows "f x = Max (f ` set (x # xs))"
proof -
  have "\<forall>y \<in> set (x # xs). f y \<le> f x" using assms by auto
  then show ?thesis
    by (intro Max_eqI [symmetric]) auto
qed


lemma snd_time_time: "snd (time_time s) = s\<lparr>ticks := Suc (ticks s)\<rparr>"
  by (simp add: time_time_def)

lemma cea_initial_candidates_ticks [simp]:
  "cea_initial_candidates (s\<lparr>ticks := n\<rparr>) = cea_initial_candidates s"
  by (intro ext) (simp add: cea_initial_candidates_def)

lemma potential_boost_ticks [simp]: "potential_boost (s\<lparr>ticks := n\<rparr>) = potential_boost s"
  by (intro ext) (simp add: potential_boost_def)

lemma cea_coefficient_ticks [simp]: "cea_coefficient (s\<lparr>ticks := n\<rparr>) = cea_coefficient s"
  by (intro ext) (simp add: cea_coefficient_def)

lemma cea_final_candidates_ticks [simp]:
  "cea_final_candidates (s\<lparr>ticks := n\<rparr>) = cea_final_candidates s"
  by (intro ext) (simp add: cea_final_candidates_def)

lemma cpa_memberships_ticks [simp]: "cpa_memberships (s\<lparr>ticks := n\<rparr>) = cpa_memberships s"
  by (intro ext) (simp add: cpa_memberships_def)

lemma cea_sort_key_ticks [simp]: "cea_sort_key (s\<lparr>ticks := n\<rparr>) = cea_sort_key s"
  by (intro ext) (simp add: cea_sort_key_def)

lemma cea_col_step_flag:
  "fold_err (cea_col_step K cached col_index cands) entries acc = Inr r \<Longrightarrow>
   fst r \<longleftrightarrow> fst acc \<or> col_index \<in> fst ` set entries"
proof (induction entries arbitrary: acc)
  case Nil
  then show ?case by simp
next
  case (Cons e entries)
  from Cons.prems obtain m where m: "cea_col_step K cached col_index cands e acc = Inr m"
    and rest: "fold_err (cea_col_step K cached col_index cands) entries m = Inr r"
    by (auto split: sum.splits)
  have "fst m \<longleftrightarrow> fst acc \<or> fst e = col_index"
    using m by (auto simp: cea_col_step_def bind_err_Inr split: if_splits)
  with Cons.IH [OF rest] show ?case by auto
qed

lemma cea_combine_applied:
  "cea_combine True cta_coeff scores b = Inr f \<Longrightarrow>
   cea_id f = cea_id b \<and>
   (\<exists>bonus. map_of scores (cea_id b) = Some bonus \<and>
      cea_score f = (cea_score b + cta_coeff * bonus) / (1 + cta_coeff))"
  by (auto simp: cea_combine_def bind_err_Inr dict_get_def split: option.splits)

lemma cea_select_filter:
  assumes "sorted_wrt (\<lambda>a b. cea_score b \<le> cea_score a) xs" and "mset xs = mset final"
  shows "cea_select only_one xs =
     (if only_one then filter (\<lambda>c. cea_score c = Max (cea_score ` set final)) xs else xs)"
proof (cases xs)
  case Nil
  then show ?thesis by (simp add: cea_select_def)
next
  case (Cons x rest)
  have "set xs = set final" using assms(2) by (rule mset_eq_setD)
  then have "cea_score x = Max (cea_score ` set final)"
    using sorted_desc_head_max [of cea_score x rest] assms(1) Cons by simp
  then show ?thesis by (simp add: cea_select_def Cons)
qed

lemma cea_cta_step_weights:
  "fold_err (cea_cta_step K cached cands) ctas acc = Inr r \<Longrightarrow>
   fst (snd r) = fst (snd acc) @ map cta_coverage ctas"
proof (induction ctas arbitrary: acc)
  case Nil
  then show ?case by simp
next
  case (Cons a ctas)
  from Cons.prems obtain m where m: "cea_cta_step K cached cands a acc = Inr m"
    and rest: "fold_err (cea_cta_step K cached cands) ctas m = Inr r"
    by (auto split: sum.splits)
  have "fst (snd m) = fst (snd acc) @ [cta_coverage a]"
    using m by (auto simp: cea_cta_step_def Let_def bind_err_Inr)
  with Cons.IH [OF rest] show ?case by simp
qed

lemma cea_col_step_weights:
  "fold_err (cea_col_step K cached col_index cands) entries acc = Inr r \<Longrightarrow>
   fst (snd (snd r)) = fst (snd (snd acc)) @
     concat (map (\<lambda>entry. map cta_coverage (snd entry))
               (filter (\<lambda>entry. fst entry = col_index) entries))"
proof (induction entries arbitrary: acc)
  case Nil
  then show ?case by simp
next
  case (Cons e entries)
  from Cons.prems obtain m where m: "cea_col_step K cached col_index cands e acc = Inr m"
    and rest: "fold_err (cea_col_step K cached col_index cands) entries m = Inr r"
    by (auto split: sum.splits)
  have "fst (snd (snd m)) = fst (snd (snd acc)) @
          (if fst e = col_index then map cta_coverage (snd e) else [])"
    using m cea_cta_step_weights [of K cached cands "snd e" "snd acc"]
    by (auto simp: cea_col_step_def bind_err_Inr split: if_splits)
  with Cons.IH [OF rest] show ?case by simp
qed

lemma py_max_Max: "py_max xs = Inr m \<Longrightarrow> m = Max (set xs)"
  by (cases xs) (simp_all add: py_max_def Max.set_eq_fold [symmetric])

lemma potential_boost_score:
  "potential_boost s row_index col_index b = Inr f \<Longrightarrow>
   cea_id f = cea_id b \<and>
   cea_score f =
     (case map_of (potential_candidates s) (row_index, col_index, cea_id b) of
        None \<Rightarrow> cea_score b
      | Some pots \<Rightarrow> min 1 (cea_score b * (1 + Max (pot_cpa_coeff ` set pots))))"
  by (auto simp: potential_boost_def bind_err_Inr dest!: py_max_Max split: option.splits)

lemma cea_coefficient_applied:
  assumes "cea_coefficient s row_index col_index True weights cands = Inr (cta_coeff, boosted)"
  shows "cta_coeff =
     (if soft_scoring s then
        (if contextless_cells s \<noteq> [] \<and>
            (case map_of (contextless_cells s) (row_index, col_index) of
               None \<Rightarrow> 1 / 10 | Some v \<Rightarrow> v) = 1 / 10
         then sum_list weights / real (length weights)
         else sum_list weights / real (length weights) / 2)
      else 1 / 4) \<and>
     list_all2 (\<lambda>b f. cea_id f = cea_id b \<and>
        cea_score f =
          (if soft_scoring s \<and> contextless_cells s \<noteq> [] \<and>
              (case map_of (contextless_cells s) (row_index, col_index) of
                 None \<Rightarrow> 1 / 10 | Some v \<Rightarrow> v) = 1 / 10
           then (case map_of (potential_candidates s) (row_index, col_index, cea_id b) of
                   None \<Rightarrow> cea_score b
                 | Some pots \<Rightarrow> min 1 (cea_score b * (1 + Max (pot_cpa_coeff ` set pots))))
           else cea_score b)) cands boosted"
proof -
  let ?ctxless = "contextless_cells s \<noteq> [] \<and>
            (case map_of (contextless_cells s) (row_index, col_index) of
               None \<Rightarrow> 1 / 10 | Some v \<Rightarrow> v) = 1 / 10"
  show ?thesis
  proof (cases "soft_scoring s \<and> ?ctxless")
    case True
    with assms have b: "map_err (potential_boost s row_index col_index) cands = Inr boosted"
      and c: "cta_coeff = py_mean weights"
      by (auto simp: cea_coefficient_def bind_err_Inr)
    have "list_all2 (\<lambda>b f. potential_boost s row_index col_index b = Inr f) cands boosted"
      using map_err_list_all2 [OF b] .
    then have "list_all2 (\<lambda>b f. cea_id f = cea_id b \<and>
        cea_score f =
          (case map_of (potential_candidates s) (row_index, col_index, cea_id b) of
                   None \<Rightarrow> cea_score b
                 | Some pots \<Rightarrow> min 1 (cea_score b * (1 + Max (pot_cpa_coeff ` set pots))))) cands boosted"
      by (rule list_all2_mono) (rule potential_boost_score)
    with True c show ?thesis by (simp add: py_mean_def)
  next
    case False
    with assms have "boosted = cands"
      and "cta_coeff = (if soft_scoring s then py_mean weights / 2 else 1 / 4)"
      by (auto simp: cea_coefficient_def split: if_splits)
    with False show ?thesis by (auto simp: py_mean_def list_all2_same)
  qed
qed

text \<open>
  C4. When \<open>cea_task\<close> annotates a cell whose column has column types, the loop over
  the column types ends with the flag set and with the coverages of the column types of
  the column as weights. The coefficient \<open>cta_coeff\<close> is the mean of these weights when the
  cell is contextless, half the mean when it is not, and \<open>1 / 4\<close> without soft scoring.
  The score of every candidate after the combination is
  \<open>(score + cta_coeff * cta_bonus) / (1 + cta_coeff)\<close>, where \<open>cta_bonus\<close> is the entry of
  the candidate in \<open>cta_disambiguation_scores\<close> and \<open>score\<close> is its score before
  disambiguation, raised for a contextless cell to \<open>min 1 (score * (1 + cpa_coeff))\<close> with
  the largest \<open>cpa_coeff\<close> among the candidate's entries in \<open>potential_candidates\<close>. The
  candidates are then a permutation sorted by score descending, ties by the count of CPA
  memberships (the number of these entries) descending; with \<open>only_one\<close> the task returns
  and stores exactly those that tie the top score, otherwise the whole sorted list.
\<close>

theorem cea_task_scores_and_order:
  assumes run: "cea_task s col_index row_index only_one = Inr (res, s')"
    and look: "map_of (lookup s) (row_index, col_index) = Some ids"
    and cands: "cea_initial_candidates s row_index col_index ids \<noteq> []"
    and applied: "col_index \<in> set (keys (cta_annot s))"
  shows "\<exists>tg weights scores contextless cta_coeff final sorted_cea.
     fold_err (cea_col_step (KB s) (cached_cta_candidates s) col_index
                 (cea_initial_candidates s row_index col_index ids))
       (cta_annot s) (False, type_graph s, [], []) = Inr (True, tg, weights, scores) \<and>
     weights = concat (map (\<lambda>entry. map cta_coverage (snd entry))
                         (filter (\<lambda>entry. fst entry = col_index) (cta_annot s))) \<and>
     contextless = (contextless_cells s \<noteq> [] \<and>
        (case map_of (contextless_cells s) (row_index, col_index) of
           None \<Rightarrow> 1 / 10 | Some v \<Rightarrow> v) = 1 / 10) \<and>
     cta_coeff = (if soft_scoring s
                  then (if contextless then sum_list weights / real (length weights)
                        else sum_list weights / real (length weights) / 2)
                  else 1 / 4) \<and>
     list_all2 (\<lambda>b f. cea_id f = cea_id b \<and>
        (\<exists>score bonus.
           score = (if soft_scoring s \<and> contextless
                    then (case map_of (potential_candidates s) (row_index, col_index, cea_id b) of
                            None \<Rightarrow> cea_score b
                          | Some pots \<Rightarrow> min 1 (cea_score b * (1 + Max (pot_cpa_coeff ` set pots))))
                    else cea_score b) \<and>
           map_of scores (cea_id b) = Some bonus \<and>
           cea_score f = (score + cta_coeff * bonus) / (1 + cta_coeff)))
       (cea_initial_candidates s row_index col_index ids) final \<and>
     mset sorted_cea = mset final \<and>
     sorted_wrt (\<lambda>a b. cea_score b < cea_score a \<or>
        (cea_score a = cea_score b \<and>
         length (case map_of (potential_candidates s) (row_index, col_index, cea_id b) of
                   None \<Rightarrow> [] | Some pots \<Rightarrow> pots)
         \<le> length (case map_of (potential_candidates s) (row_index, col_index, cea_id a) of
                     None \<Rightarrow> [] | Some pots \<Rightarrow> pots))) sorted_cea \<and>
     res = Annotations (if only_one
             then filter (\<lambda>c. cea_score c = Max (cea_score ` set final)) sorted_cea
             else sorted_cea) \<and>
     map_of (cea_annot s') (row_index, col_index) =
       Some (if only_one
             then filter (\<lambda>c. cea_score c = Max (cea_score ` set final)) sorted_cea
             else sorted_cea)"
proof -
  define cs where "cs = cea_initial_candidates s row_index col_index ids"
  define key where "key = cea_sort_key s row_index col_index"
  define contextless where "contextless \<longleftrightarrow> contextless_cells s \<noteq> [] \<and>
        (case map_of (contextless_cells s) (row_index, col_index) of
           None \<Rightarrow> 1 / 10 | Some v \<Rightarrow> v) = 1 / 10"
  from run look cands obtain r where
    fin: "cea_final_candidates s col_index row_index cs = Inr r" and
    res: "res = Annotations (cea_select only_one (py_sorted_desc key (snd r)))" and
    ann: "map_of (cea_annot s') (row_index, col_index) = Some (cea_select only_one (py_sorted_desc key (snd r)))"
    by (auto simp: cea_task_def Let_def snd_time_time bind_err_Inr cs_def key_def time_time_def update_conv')
  have ne: "cta_annot s \<noteq> []" using applied by (auto simp: keys_def)
  from fin ne obtain l cb where
    loop: "fold_err (cea_col_step (KB s) (cached_cta_candidates s) col_index cs)
             (cta_annot s) (False, type_graph s, [], []) = Inr l" and
    coef: "cea_coefficient s row_index col_index (fst l) (fst (snd (snd l))) cs = Inr cb" and
    comb: "map_err (cea_combine (fst l) (fst cb) (snd (snd (snd l)))) (snd cb) = Inr (snd r)"
    by (auto simp: cea_final_candidates_def bind_err_Inr)
  have flag: "fst l" using cea_col_step_flag [OF loop] applied by (simp add: keys_def)
  obtain tg weights scores where l: "l = (True, tg, weights, scores)"
    using flag by (cases l) auto
  obtain cta_coeff boosted where cb: "cb = (cta_coeff, boosted)" by (cases cb)
  define final where "final = snd r"
  define sorted_cea where "sorted_cea = py_sorted_desc key final"
  have c1: "weights = concat (map (\<lambda>entry. map cta_coverage (snd entry))
                         (filter (\<lambda>entry. fst entry = col_index) (cta_annot s)))"
    using cea_col_step_weights [OF loop] by (simp add: l)
  from coef have coef': "cea_coefficient s row_index col_index True weights cs = Inr (cta_coeff, boosted)"
    by (simp add: l cb)
  note cc = cea_coefficient_applied [OF coef', folded contextless_def]
  have c2: "cta_coeff = (if soft_scoring s
                  then (if contextless then sum_list weights / real (length weights)
                        else sum_list weights / real (length weights) / 2)
                  else 1 / 4)"
    using cc by simp
  have b1: "list_all2 (\<lambda>b f. cea_id f = cea_id b \<and>
        cea_score f =
          (if soft_scoring s \<and> contextless
           then (case map_of (potential_candidates s) (row_index, col_index, cea_id b) of
                   None \<Rightarrow> cea_score b
                 | Some pots \<Rightarrow> min 1 (cea_score b * (1 + Max (pot_cpa_coeff ` set pots))))
           else cea_score b)) cs boosted"
    using cc by simp
  have b2: "list_all2 (\<lambda>b f. cea_id f = cea_id b \<and>
        (\<exists>bonus. map_of scores (cea_id b) = Some bonus \<and>
           cea_score f = (cea_score b + cta_coeff * bonus) / (1 + cta_coeff))) boosted final"
    using map_err_list_all2 [OF comb] cea_combine_applied
    by (auto simp: l cb final_def elim!: list_all2_mono)
  have c3: "list_all2 (\<lambda>b f. cea_id f = cea_id b \<and>
        (\<exists>score bonus.
           score = (if soft_scoring s \<and> contextless
                    then (case map_of (potential_candidates s) (row_index, col_index, cea_id b) of
                            None \<Rightarrow> cea_score b
                          | Some pots \<Rightarrow> min 1 (cea_score b * (1 + Max (pot_cpa_coeff ` set pots))))
                    else cea_score b) \<and>
           map_of scores (cea_id b) = Some bonus \<and>
           cea_score f = (score + cta_coeff * bonus) / (1 + cta_coeff))) cs final"
    using b1 b2
  proof (induction cs boosted arbitrary: final rule: list_all2_induct)
    case Nil
    then show ?case by simp
  next
    case (Cons b bs m ms)
    from Cons.prems obtain f fs where "final = f # fs" by (cases final) auto
    with Cons show ?case by auto
  qed
  have c4: "mset sorted_cea = mset final"
    by (simp add: sorted_cea_def mset_py_sorted_desc)
  have srt: "sorted_wrt (\<lambda>a b. key a \<ge> key b) sorted_cea"
    unfolding sorted_cea_def by (rule py_sorted_desc_sorted)
  then have c5: "sorted_wrt (\<lambda>a b. cea_score b < cea_score a \<or>
        (cea_score a = cea_score b \<and>
         cpa_memberships s row_index col_index b \<le> cpa_memberships s row_index col_index a)) sorted_cea"
    by (simp add: key_def cea_key_order)
  have "sorted_wrt (\<lambda>a b. cea_score b \<le> cea_score a) sorted_cea"
    using c5 by (rule sorted_wrt_mono_rel [rotated]) auto
  from cea_select_filter [OF this c4]
  have sel: "cea_select only_one sorted_cea =
     (if only_one then filter (\<lambda>c. cea_score c = Max (cea_score ` set final)) sorted_cea else sorted_cea)" .
  have c5': "sorted_wrt (\<lambda>a b. cea_score b < cea_score a \<or>
        (cea_score a = cea_score b \<and>
         length (case map_of (potential_candidates s) (row_index, col_index, cea_id b) of
                   None \<Rightarrow> [] | Some pots \<Rightarrow> pots)
         \<le> length (case map_of (potential_candidates s) (row_index, col_index, cea_id a) of
                     None \<Rightarrow> [] | Some pots \<Rightarrow> pots))) sorted_cea"
    using c5 by (simp add: cpa_memberships_def)
  have c0: "fold_err (cea_col_step (KB s) (cached_cta_candidates s) col_index cs)
       (cta_annot s) (False, type_graph s, [], []) = Inr (True, tg, weights, scores)"
    using loop l by simp
  have c6: "res = Annotations (if only_one
             then filter (\<lambda>c. cea_score c = Max (cea_score ` set final)) sorted_cea
             else sorted_cea)"
    using res sel by (simp add: sorted_cea_def final_def)
  have c7: "map_of (cea_annot s') (row_index, col_index) =
       Some (if only_one
             then filter (\<lambda>c. cea_score c = Max (cea_score ` set final)) sorted_cea
             else sorted_cea)"
    using ann sel by (simp add: sorted_cea_def final_def)
  from c0 c1 contextless_def c2 c3 c4 c5' c6 c7 show ?thesis
    unfolding cs_def by blast
qed


lemmas cea_eval = cea_task_def cea_final_candidates_def cea_initial_candidates_def cea_col_step_def
  cea_cta_step_def cta_bonus_step_def cea_coefficient_def cea_combine_def cea_select_def
  py_sorted_desc_def cea_sort_key_def cpa_memberships_def build_type_graph_def
  get_subgraph_of_entity_def type_graph_pid_step_def is_neighbor_of_entity_def is_rank_def
  potential_boost_def py_mean_def py_max_def time_time_def round2_def py_round_def
  bind_err_def dict_get_def keys_def prop_obj_dict_def first_level_def second_level_def
  third_level_def Let_def has_marker_def

lemma cea_task_paris_typed:
  "cea_task engine_paris_typed 0 0 True =
     Inr (Annotations [\<lparr>cea_id = ''Q90'', cea_score = 1\<rparr>],
          engine_paris_typed\<lparr>type_graph := [(''Q515'', [])],
            cea_annot := [((0, 0), [\<lparr>cea_id = ''Q90'', cea_score = 1\<rparr>])], ticks := 2\<rparr>)"
  by (simp add: cea_eval engine_paris_typed_def engine_paris_def engine_empty_def kb_city_def)

lemma cea_task_tie:
  "cea_task engine_tie 0 0 True =
     Inr (Annotations [\<lparr>cea_id = ''Q830149'', cea_score = 9 / 14\<rparr>, \<lparr>cea_id = ''Q90'', cea_score = 9 / 14\<rparr>],
          engine_tie\<lparr>type_graph := [(''Q515'', [(''Q486972'', [])]), (''Q486972'', [])],
            cea_annot := [((0, 0), [\<lparr>cea_id = ''Q830149'', cea_score = 9 / 14\<rparr>,
                                    \<lparr>cea_id = ''Q90'', cea_score = 9 / 14\<rparr>])], ticks := 2\<rparr>)"
  by (simp add: cea_eval engine_tie_def engine_empty_def kb_paris_def)

lemma cea_col_fold_tie:
  "fold_err (cea_col_step (KB engine_tie) (cached_cta_candidates engine_tie) 0
      [\<lparr>cea_id = ''Q47899'', cea_score = 7 / 8\<rparr>, \<lparr>cea_id = ''Q90'', cea_score = 3 / 4\<rparr>,
       \<lparr>cea_id = ''Q830149'', cea_score = 1 / 2\<rparr>])
     (cta_annot engine_tie) (False, type_graph engine_tie, [], []) =
   Inr (True, [(''Q515'', [(''Q486972'', [])]), (''Q486972'', [])], [1, 1 / 2],
        [(''Q47899'', 0), (''Q90'', 1 / 2), (''Q830149'', 1 / 2)])"
  by (simp add: cea_eval engine_tie_def engine_empty_def kb_paris_def)

theorem cea_task_scores_and_order_witness:
  "cea_task engine_tie 0 0 True =
     Inr (Annotations [\<lparr>cea_id = ''Q830149'', cea_score = 9 / 14\<rparr>, \<lparr>cea_id = ''Q90'', cea_score = 9 / 14\<rparr>],
          engine_tie\<lparr>type_graph := [(''Q515'', [(''Q486972'', [])]), (''Q486972'', [])],
            cea_annot := [((0, 0), [\<lparr>cea_id = ''Q830149'', cea_score = 9 / 14\<rparr>,
                                    \<lparr>cea_id = ''Q90'', cea_score = 9 / 14\<rparr>])], ticks := 2\<rparr>) \<and>
   map_of (lookup engine_tie) (0, 0) = Some [''Q47899'', ''Q90'', ''Q830149''] \<and>
   cea_initial_candidates engine_tie 0 0 [''Q47899'', ''Q90'', ''Q830149''] =
     [\<lparr>cea_id = ''Q47899'', cea_score = 7 / 8\<rparr>, \<lparr>cea_id = ''Q90'', cea_score = 3 / 4\<rparr>,
      \<lparr>cea_id = ''Q830149'', cea_score = 1 / 2\<rparr>] \<and>
   0 \<in> set (keys (cta_annot engine_tie)) \<and>
   (\<exists>weights scores cta_coeff final sorted_cea.
      weights = [1, 1 / 2] \<and>
      scores = [(''Q47899'', 0), (''Q90'', 1 / 2), (''Q830149'', 1 / 2)] \<and>
      cta_coeff = 3 / 4 \<and>
      final = [\<lparr>cea_id = ''Q47899'', cea_score = 1 / 2\<rparr>, \<lparr>cea_id = ''Q90'', cea_score = 9 / 14\<rparr>,
               \<lparr>cea_id = ''Q830149'', cea_score = 9 / 14\<rparr>] \<and>
      mset sorted_cea = mset final \<and>
      sorted_wrt (\<lambda>a b. cea_score b < cea_score a \<or>
        (cea_score a = cea_score b \<and>
         length (case map_of (potential_candidates engine_tie) (0, 0, cea_id b) of
                   None \<Rightarrow> [] | Some pots \<Rightarrow> pots)
         \<le> length (case map_of (potential_candidates engine_tie) (0, 0, cea_id a) of
                     None \<Rightarrow> [] | Some pots \<Rightarrow> pots))) sorted_cea \<and>
      [\<lparr>cea_id = ''Q830149'', cea_score = 9 / 14\<rparr>, \<lparr>cea_id = ''Q90'', cea_score = 9 / 14\<rparr>] =
        filter (\<lambda>c. cea_score c = Max (cea_score ` set final)) sorted_cea)"
proof -
  let ?ids = "[''Q47899'', ''Q90'', ''Q830149'']"
  let ?cs = "[\<lparr>cea_id = ''Q47899'', cea_score = 7 / 8\<rparr>, \<lparr>cea_id = ''Q90'', cea_score = 3 / 4\<rparr>,
      \<lparr>cea_id = ''Q830149'', cea_score = 1 / 2\<rparr>]"
  have h2: "map_of (lookup engine_tie) (0, 0) = Some ?ids"
    by (simp add: engine_tie_def engine_empty_def)
  have h3: "cea_initial_candidates engine_tie 0 0 ?ids = ?cs"
    by (simp add: cea_initial_candidates_def engine_tie_def engine_empty_def)
  then have h3': "cea_initial_candidates engine_tie 0 0 ?ids \<noteq> []" by simp
  have h4: "0 \<in> set (keys (cta_annot engine_tie))"
    by (simp add: keys_def engine_tie_def engine_empty_def)
  have ctx: "contextless_cells engine_tie = [((0, 0), 1 / 10)]" "soft_scoring engine_tie"
    and pot: "potential_candidates engine_tie =
       [((0, 0, ''Q830149''), [\<lparr>pot_cpa_coeff = 1 / 2, pot_cpa_score = 1 / 4, pot_cpa_id = ''P17''\<rparr>])]"
    by (simp_all add: engine_tie_def engine_empty_def)
  from cea_task_scores_and_order [OF cea_task_tie h2 h3' h4]
  obtain tg weights scores contextless cta_coeff final sorted_cea where
    c0: "fold_err (cea_col_step (KB engine_tie) (cached_cta_candidates engine_tie) 0
                 (cea_initial_candidates engine_tie 0 0 ?ids))
       (cta_annot engine_tie) (False, type_graph engine_tie, [], []) = Inr (True, tg, weights, scores)" and
    c2: "contextless = (contextless_cells engine_tie \<noteq> [] \<and>
        (case map_of (contextless_cells engine_tie) (0, 0) of
           None \<Rightarrow> 1 / 10 | Some v \<Rightarrow> v) = 1 / 10)" and
    c3: "cta_coeff = (if soft_scoring engine_tie
                  then (if contextless then sum_list weights / real (length weights)
                        else sum_list weights / real (length weights) / 2)
                  else 1 / 4)" and
    c4: "list_all2 (\<lambda>b f. cea_id f = cea_id b \<and>
        (\<exists>score bonus.
           score = (if soft_scoring engine_tie \<and> contextless
                    then (case map_of (potential_candidates engine_tie) (0, 0, cea_id b) of
                            None \<Rightarrow> cea_score b
                          | Some pots \<Rightarrow> min 1 (cea_score b * (1 + Max (pot_cpa_coeff ` set pots))))
                    else cea_score b) \<and>
           map_of scores (cea_id b) = Some bonus \<and>
           cea_score f = (score + cta_coeff * bonus) / (1 + cta_coeff)))
       (cea_initial_candidates engine_tie 0 0 ?ids) final" and
    c5: "mset sorted_cea = mset final" and
    c6: "sorted_wrt (\<lambda>a b. cea_score b < cea_score a \<or>
        (cea_score a = cea_score b \<and>
         length (case map_of (potential_candidates engine_tie) (0, 0, cea_id b) of
                   None \<Rightarrow> [] | Some pots \<Rightarrow> pots)
         \<le> length (case map_of (potential_candidates engine_tie) (0, 0, cea_id a) of
                     None \<Rightarrow> [] | Some pots \<Rightarrow> pots))) sorted_cea" and
    c7: "Annotations [\<lparr>cea_id = ''Q830149'', cea_score = 9 / 14\<rparr>, \<lparr>cea_id = ''Q90'', cea_score = 9 / 14\<rparr>] =
       Annotations (if True
             then filter (\<lambda>c. cea_score c = Max (cea_score ` set final)) sorted_cea
             else sorted_cea)"
    by blast
  from c0 have w: "weights = [1, 1 / 2]"
    and sc: "scores = [(''Q47899'', 0), (''Q90'', 1 / 2), (''Q830149'', 1 / 2)]"
    by (simp_all add: h3 cea_col_fold_tie)
  have cl: "contextless" by (simp add: c2 ctx)
  have co: "cta_coeff = 3 / 4" by (simp add: c3 cl ctx w)
  have fin: "final = [\<lparr>cea_id = ''Q47899'', cea_score = 1 / 2\<rparr>, \<lparr>cea_id = ''Q90'', cea_score = 9 / 14\<rparr>,
               \<lparr>cea_id = ''Q830149'', cea_score = 9 / 14\<rparr>]"
    using c4 by (auto simp: h3 list_all2_Cons1 cl ctx pot sc co intro!: cea.equality)
  from c7 have sel: "[\<lparr>cea_id = ''Q830149'', cea_score = 9 / 14\<rparr>, \<lparr>cea_id = ''Q90'', cea_score = 9 / 14\<rparr>] =
        filter (\<lambda>c. cea_score c = Max (cea_score ` set final)) sorted_cea"
    by simp
  from w sc co fin c5 c6 sel have
    "\<exists>weights scores cta_coeff final sorted_cea.
      weights = [1, 1 / 2] \<and>
      scores = [(''Q47899'', 0), (''Q90'', 1 / 2), (''Q830149'', 1 / 2)] \<and>
      cta_coeff = 3 / 4 \<and>
      final = [\<lparr>cea_id = ''Q47899'', cea_score = 1 / 2\<rparr>, \<lparr>cea_id = ''Q90'', cea_score = 9 / 14\<rparr>,
               \<lparr>cea_id = ''Q830149'', cea_score = 9 / 14\<rparr>] \<and>
      mset sorted_cea = mset final \<and>
      sorted_wrt (\<lambda>a b. cea_score b < cea_score a \<or>
        (cea_score a = cea_score b \<and>
         length (case map_of (potential_candidates engine_tie) (0, 0, cea_id b) of
                   None \<Rightarrow> [] | Some pots \<Rightarrow> pots)
         \<le> length (case map_of (potential_candidates engine_tie) (0, 0, cea_id a) of
                     None \<Rightarrow> [] | Some pots \<Rightarrow> pots))) sorted_cea \<and>
      [\<lparr>cea_id = ''Q830149'', cea_score = 9 / 14\<rparr>, \<lparr>cea_id = ''Q90'', cea_score = 9 / 14\<rparr>] =
        filter (\<lambda>c. cea_score c = Max (cea_score ` set final)) sorted_cea"
    by blast
  with cea_task_tie h2 h3 h4 show ?thesis by blast
qed

section \<open>The annotation tasks leave the scores alone\<close>

lemmas cpa_eval = cpa_task_def cpa_candidates_of_def cpa_cells_step_def cpa_row_step_def
  cpa_pair_step_def cpa_relation_step_def cpa_count_step_def cpa_select_def cpa_entry_def
  cpa_sort_key_def py_sorted_desc_def table_cell_def time_time_def round2_def py_round_def
  bind_err_def keys_def Let_def upt_conv_Cons

lemmas cta_task_eval = cta_task_def cta_select_def cta_best_step_def cta_super_step_def
  cta_entry_def cta_sort_key_def get_supertypes_of_type_def py_sorted_desc_def time_time_def
  round2_def py_round_def cta_eval

lemma cpa_task_film:
  "\<exists>s'. cpa_task engine_film 0 1 False =
     Inr (Annotations [\<lparr>cpa_id = ''P161'', cpa_score = 1 / 20, cpa_semantic_proximity = 1,
            cpa_coverage = 1 / 2\<rparr>], s')"
  by (simp add: cpa_eval engine_film_def engine_empty_def kb_film_def)

lemma cta_task_paris:
  "\<exists>s'. cta_task engine_paris 0 True =
     Inr (Annotations [\<lparr>cta_id = ''Q515'', cta_score = 1, cta_coverage = 1\<rparr>,
            \<lparr>cta_id = ''Q5119'', cta_score = 1, cta_coverage = 1\<rparr>], s')"
  by (simp add: cta_task_eval engine_paris_def engine_empty_def kb_city_def)

text \<open>
  C10. A call of \<open>cea_task\<close>, \<open>cta_task\<close> or \<open>cpa_task\<close> that returns leaves
  \<open>entity_scores\<close>, \<open>entity_sim_scores\<close> and \<open>entity_context_scores\<close> as they were: the
  adjustment by the column types inside \<open>cea_task\<close> changes the candidate records built
  for the call, not the score maps. (A call that raises ends \<open>table_annotation\<close>, and
  the engine with it.)
\<close>

theorem annotation_tasks_keep_scores:
  "(cea_task s col_index row_index only_one = Inr (r1, s1) \<longrightarrow>
      entity_scores s1 = entity_scores s \<and> entity_sim_scores s1 = entity_sim_scores s \<and>
      entity_context_scores s1 = entity_context_scores s) \<and>
   (cta_task s col_index only_one = Inr (r2, s2) \<longrightarrow>
      entity_scores s2 = entity_scores s \<and> entity_sim_scores s2 = entity_sim_scores s \<and>
      entity_context_scores s2 = entity_context_scores s) \<and>
   (cpa_task s head_col_index tail_col_index only_one = Inr (r3, s3) \<longrightarrow>
      entity_scores s3 = entity_scores s \<and> entity_sim_scores s3 = entity_sim_scores s \<and>
      entity_context_scores s3 = entity_context_scores s)"
proof (intro conjI impI)
  assume "cea_task s col_index row_index only_one = Inr (r1, s1)"
  then show "entity_scores s1 = entity_scores s" "entity_sim_scores s1 = entity_sim_scores s"
    "entity_context_scores s1 = entity_context_scores s"
    by (auto simp: cea_task_def Let_def time_time_def bind_err_Inr split: option.splits if_splits)
next
  assume "cta_task s col_index only_one = Inr (r2, s2)"
  then show "entity_scores s2 = entity_scores s" "entity_sim_scores s2 = entity_sim_scores s"
    "entity_context_scores s2 = entity_context_scores s"
    by (auto simp: cta_task_def Let_def time_time_def bind_err_Inr split: if_splits)
next
  assume "cpa_task s head_col_index tail_col_index only_one = Inr (r3, s3)"
  then show "entity_scores s3 = entity_scores s" "entity_sim_scores s3 = entity_sim_scores s"
    "entity_context_scores s3 = entity_context_scores s"
    by (auto simp: cpa_task_def Let_def time_time_def bind_err_Inr split: if_splits)
qed


theorem annotation_tasks_keep_scores_witness:
  "(\<exists>r1 s1. cea_task engine_paris_typed 0 0 True = Inr (r1, s1) \<and>
      entity_scores s1 = entity_scores engine_paris_typed \<and>
      entity_sim_scores s1 = entity_sim_scores engine_paris_typed \<and>
      entity_context_scores s1 = entity_context_scores engine_paris_typed) \<and>
   (\<exists>r2 s2. cta_task engine_paris 0 True = Inr (r2, s2) \<and>
      entity_scores s2 = entity_scores engine_paris \<and>
      entity_sim_scores s2 = entity_sim_scores engine_paris \<and>
      entity_context_scores s2 = entity_context_scores engine_paris) \<and>
   (\<exists>r3 s3. cpa_task engine_film 0 1 False = Inr (r3, s3) \<and>
      entity_scores s3 = entity_scores engine_film \<and>
      entity_sim_scores s3 = entity_sim_scores engine_film \<and>
      entity_context_scores s3 = entity_context_scores engine_film)"
proof (intro conjI)
  obtain s1 where "cea_task engine_paris_typed 0 0 True =
      Inr (Annotations [\<lparr>cea_id = ''Q90'', cea_score = 1\<rparr>], s1)"
    using cea_task_paris_typed by blast
  then show "\<exists>r1 s1. cea_task engine_paris_typed 0 0 True = Inr (r1, s1) \<and>
      entity_scores s1 = entity_scores engine_paris_typed \<and>
      entity_sim_scores s1 = entity_sim_scores engine_paris_typed \<and>
      entity_context_scores s1 = entity_context_scores engine_paris_typed"
    using annotation_tasks_keep_scores [of engine_paris_typed 0 0 True _ s1] by blast
next
  obtain r2 s2 where "cta_task engine_paris 0 True = Inr (r2, s2)"
    using cta_task_paris by blast
  then show "\<exists>r2 s2. cta_task engine_paris 0 True = Inr (r2, s2) \<and>
      entity_scores s2 = entity_scores engine_paris \<and>
      entity_sim_scores s2 = entity_sim_scores engine_paris \<and>
      entity_context_scores s2 = entity_context_scores engine_paris"
    using annotation_tasks_keep_scores [of engine_paris 0 _ True _ _ r2 s2] by blast
next
  obtain r3 s3 where "cpa_task engine_film 0 1 False = Inr (r3, s3)"
    using cpa_task_film by blast
  then show "\<exists>r3 s3. cpa_task engine_film 0 1 False = Inr (r3, s3) \<and>
      entity_scores s3 = entity_scores engine_film \<and>
      entity_sim_scores s3 = entity_sim_scores engine_film \<and>
      entity_context_scores s3 = entity_context_scores engine_film"
    using annotation_tasks_keep_scores [of engine_film _ _ False _ _ _ _ 0 1 r3 s3] by blast
qed

section \<open>The aggregated context score\<close>

lemma context_step_sums:
  assumes "context_step s first_step last_step candidate item acc = Inr acc'"
  shows "acc_context_score acc' = acc_context_score acc +
           (if context_included s candidate (fst item)
            then ctx_weight (snd item) *
                 scaled_score s first_step (context_col_pair s (fst (snd candidate)) (fst item)) (snd item)
            else 0)"
    and "acc_context_weight acc' = acc_context_weight acc +
           (if context_included s candidate (fst item) then base_weight s (fst item) else 0)"
  using assms
  by (auto simp: context_step_def Let_def bind_err_Inr split: if_splits)

lemma fold_context_step_sums:
  assumes "fold_err (context_step s first_step last_step candidate) ctxs acc = Inr acc'"
  shows "acc_context_score acc' = acc_context_score acc +
           sum_list (map (\<lambda>item. ctx_weight (snd item) *
                 scaled_score s first_step (context_col_pair s (fst (snd candidate)) (fst item)) (snd item))
              (filter (\<lambda>item. context_included s candidate (fst item)) ctxs))"
    and "acc_context_weight acc' = acc_context_weight acc +
           sum_list (map (\<lambda>item. base_weight s (fst item))
              (filter (\<lambda>item. context_included s candidate (fst item)) ctxs))"
  using assms
proof (induction ctxs arbitrary: acc)
  case Nil
  {
    case 1
    then show ?case by simp
  next
    case 2
    then show ?case by simp
  }
next
  case (Cons item ctxs)
  {
    case 1
    then obtain m where m: "context_step s first_step last_step candidate item acc = Inr m"
      and rest: "fold_err (context_step s first_step last_step candidate) ctxs m = Inr acc'"
      by (auto split: sum.splits)
    show ?case
      using Cons.IH(1) [OF rest] context_step_sums(1) [OF m] by simp
  next
    case 2
    then obtain m where m: "context_step s first_step last_step candidate item acc = Inr m"
      and rest: "fold_err (context_step s first_step last_step candidate) ctxs m = Inr acc'"
      by (auto split: sum.splits)
    show ?case
      using Cons.IH(2) [OF rest] context_step_sums(2) [OF m] by simp
  }
qed

text \<open>
  C3, as amended. For a candidate of a table with context, at every scoring pass, the
  aggregated context score is the sum, over the contexts whose column pair is annotated
  and not marked unrelated, of the current weight of the context times its scaled
  sub-score \<open>max 0.1 (scale_factor * score)\<close>, divided by the sum of the base weights of
  the kinds of these context columns (semantic 1.0, literal 0.3); it is 0.01 when that
  sum of base weights is zero, in particular when no context takes part.
\<close>

theorem candidate_context_score:
  assumes "candidate_context s first_step last_step candidate carried = Inr r"
    and "map_of (entity_context_scores s) candidate = Some ctxs"
  shows "fst r =
     (if sum_list (map (\<lambda>item. base_weight s (fst item))
            (filter (\<lambda>item. context_included s candidate (fst item)) ctxs)) = 0
      then 1 / 100
      else sum_list (map (\<lambda>item. ctx_weight (snd item) *
                 scaled_score s first_step (context_col_pair s (fst (snd candidate)) (fst item)) (snd item))
              (filter (\<lambda>item. context_included s candidate (fst item)) ctxs)) /
           sum_list (map (\<lambda>item. base_weight s (fst item))
              (filter (\<lambda>item. context_included s candidate (fst item)) ctxs)))"
proof (cases "ctxs = []")
  case True
  with assms show ?thesis
    by (auto simp: candidate_context_def bind_err_Inr dict_get_def)
next
  case False
  with assms obtain acc where
    run: "fold_err (context_step s first_step last_step candidate) ctxs
            \<lparr>acc_context_score = 0, acc_context_weight = 0, acc_max_context_weight = 0,
             acc_contextless = fst carried, acc_potential = snd carried\<rparr> = Inr acc"
    and res: "fst r = (if acc_context_weight acc \<noteq> 0
                       then acc_context_score acc / acc_context_weight acc else 1 / 100)"
    by (auto simp: candidate_context_def bind_err_Inr dict_get_def)
  show ?thesis
    using fold_context_step_sums [OF run] by (simp add: res)
qed

lemmas scoring_eval = update_context_weight_def update_candidate_contexts_def updated_weight_def
  context_col_pair_def abs_diff_def candidate_context_def context_step_def context_included_def
  scaled_score_def scale_factor_def base_weight_def mark_contextless_def bind_err_def
  dict_get_def Let_def

lemma update_context_weight_film:
  "update_context_weight engine_film_cpa False = Inr engine_film_weighted"
  by (simp add: scoring_eval engine_film_weighted_def engine_film_cpa_def engine_film_def engine_empty_def)

lemma candidate_context_film:
  "candidate_context engine_film_weighted False False (0, 0, ''Q104123'') ([], []) =
     Inr (1 / 4, 1 / 2, [], [])"
  by (simp add: scoring_eval engine_film_weighted_def engine_film_cpa_def engine_film_def engine_empty_def)


lemma film_contexts:
  "map_of (entity_context_scores engine_film_weighted) (0, 0, ''Q104123'') =
     Some [(1, \<lparr>ctx_weight = 1 / 2, ctx_score = 1, ctx_context = [''P161'']\<rparr>)]"
  by (simp add: engine_film_weighted_def engine_film_cpa_def engine_film_def engine_empty_def)

theorem candidate_context_score_witness:
  "candidate_context engine_film_weighted False False (0, 0, ''Q104123'') ([], []) =
     Inr (1 / 4, 1 / 2, [], []) \<and>
   map_of (entity_context_scores engine_film_weighted) (0, 0, ''Q104123'') =
     Some [(1, \<lparr>ctx_weight = 1 / 2, ctx_score = 1, ctx_context = [''P161'']\<rparr>)] \<and>
   (1 / 4 :: real) =
     (if sum_list (map (\<lambda>item. base_weight engine_film_weighted (fst item))
            (filter (\<lambda>item. context_included engine_film_weighted (0, 0, ''Q104123'') (fst item))
               [(1, \<lparr>ctx_weight = 1 / 2, ctx_score = 1, ctx_context = [''P161'']\<rparr>)])) = 0
      then 1 / 100
      else sum_list (map (\<lambda>item. ctx_weight (snd item) *
                 scaled_score engine_film_weighted False
                   (context_col_pair engine_film_weighted 0 (fst item)) (snd item))
              (filter (\<lambda>item. context_included engine_film_weighted (0, 0, ''Q104123'') (fst item))
                 [(1, \<lparr>ctx_weight = 1 / 2, ctx_score = 1, ctx_context = [''P161'']\<rparr>)])) /
           sum_list (map (\<lambda>item. base_weight engine_film_weighted (fst item))
              (filter (\<lambda>item. context_included engine_film_weighted (0, 0, ''Q104123'') (fst item))
                 [(1, \<lparr>ctx_weight = 1 / 2, ctx_score = 1, ctx_context = [''P161'']\<rparr>)])))"
proof (intro conjI)
  show "candidate_context engine_film_weighted False False (0, 0, ''Q104123'') ([], []) =
     Inr (1 / 4, 1 / 2, [], [])"
    by (rule candidate_context_film)
  show "map_of (entity_context_scores engine_film_weighted) (0, 0, ''Q104123'') =
     Some [(1, \<lparr>ctx_weight = 1 / 2, ctx_score = 1, ctx_context = [''P161'']\<rparr>)]"
    by (rule film_contexts)
  show "(1 / 4 :: real) =
     (if sum_list (map (\<lambda>item. base_weight engine_film_weighted (fst item))
            (filter (\<lambda>item. context_included engine_film_weighted (0, 0, ''Q104123'') (fst item))
               [(1, \<lparr>ctx_weight = 1 / 2, ctx_score = 1, ctx_context = [''P161'']\<rparr>)])) = 0
      then 1 / 100
      else sum_list (map (\<lambda>item. ctx_weight (snd item) *
                 scaled_score engine_film_weighted False
                   (context_col_pair engine_film_weighted 0 (fst item)) (snd item))
              (filter (\<lambda>item. context_included engine_film_weighted (0, 0, ''Q104123'') (fst item))
                 [(1, \<lparr>ctx_weight = 1 / 2, ctx_score = 1, ctx_context = [''P161'']\<rparr>)])) /
           sum_list (map (\<lambda>item. base_weight engine_film_weighted (fst item))
              (filter (\<lambda>item. context_included engine_film_weighted (0, 0, ''Q104123'') (fst item))
                 [(1, \<lparr>ctx_weight = 1 / 2, ctx_score = 1, ctx_context = [''P161'']\<rparr>)])))"
    by (rule candidate_context_score [OF candidate_context_film film_contexts, unfolded fst_conv snd_conv])
qed

text \<open>
  C3, as stated, fails. After the weights are updated, the film candidate has one
  context of weight 1/2 and sub-score 1; the engine aggregates to 1/4, the weighted mean
  is 1. At the first pass no column pair is annotated yet, and the engine aggregates to
  0.01 although the candidate has a context of sub-score 1.
\<close>

theorem weighted_mean_counterexample:
  "update_context_weight engine_film_cpa False = Inr engine_film_weighted \<and>
   map_of (entity_context_scores engine_film_weighted) (0, 0, ''Q104123'') =
     Some [(1, \<lparr>ctx_weight = 1 / 2, ctx_score = 1, ctx_context = [''P161'']\<rparr>)] \<and>
   candidate_context engine_film_weighted False False (0, 0, ''Q104123'') ([], []) =
     Inr (1 / 4, 1 / 2, [], []) \<and>
   spec_weighted_mean [(1, \<lparr>ctx_weight = 1 / 2, ctx_score = 1, ctx_context = [''P161'']\<rparr>)] = 1 \<and>
   candidate_context engine_film True False (0, 0, ''Q104123'') ([], []) = Inr (1 / 100, 0, [], []) \<and>
   map_of (entity_context_scores engine_film) (0, 0, ''Q104123'') =
     Some [(1, \<lparr>ctx_weight = 1, ctx_score = 1, ctx_context = [''P161'']\<rparr>)] \<and>
   spec_weighted_mean [(1, \<lparr>ctx_weight = 1, ctx_score = 1, ctx_context = [''P161'']\<rparr>)] = 1"
  by (simp add: update_context_weight_film film_contexts candidate_context_film spec_weighted_mean_def)
     (simp add: scoring_eval engine_film_def engine_empty_def)

section \<open>Initialisation failure and the output\<close>

text \<open>
  C9. When the preprocessing returns an empty result, the engine is built without error
  with its success flag false, and \<open>table_annotation\<close> returns the raw table, an empty
  \<open>annotated\<close> object, an empty \<open>preprocessed\<close> object and the default value 0 in every
  timing field.
\<close>

theorem preprocessing_failure:
  assumes "x_table_preprocessing X raw_table = None"
  shows "(\<exists>m. Baseline_Model_init X K clk raw_table k lookup_index = Inr m \<and>
              \<not> is_model_init_success m) \<and>
         table_annotation X K clk raw_table k lookup_index =
           Inr \<lparr>ao_tableDataRaw = raw_table, ao_annotated = None, ao_preprocessed = None,
                ao_preprocessingTime = 0, ao_lookupTime = 0, ao_entityScoringTime = 0,
                ao_subgraphConstructionTime = 0, ao_ctaTaskTime = 0, ao_ceaTaskTime = 0,
                ao_cpaTaskTime = 0, ao_avgLookupCandidate = 0\<rparr>"
  using assms
  by (simp add: table_annotation_def Baseline_Model_init_def Let_def engine_blank_def time_time_def
        bind_err_def default_output_def)

theorem preprocessing_failure_witness:
  "x_table_preprocessing externals_plain [[''paris'']] = None \<and>
   (\<exists>m. Baseline_Model_init externals_plain kb_city (\<lambda>n. 0) [[''paris'']] 20 ''dagobah_lookup'' = Inr m \<and>
        \<not> is_model_init_success m) \<and>
   table_annotation externals_plain kb_city (\<lambda>n. 0) [[''paris'']] 20 ''dagobah_lookup'' =
     Inr \<lparr>ao_tableDataRaw = [[''paris'']], ao_annotated = None, ao_preprocessed = None,
          ao_preprocessingTime = 0, ao_lookupTime = 0, ao_entityScoringTime = 0,
          ao_subgraphConstructionTime = 0, ao_ctaTaskTime = 0, ao_ceaTaskTime = 0,
          ao_cpaTaskTime = 0, ao_avgLookupCandidate = 0\<rparr>"
proof -
  have h: "x_table_preprocessing externals_plain [[''paris'']] = None"
    by (simp add: externals_plain_def)
  from preprocessing_failure [OF h, of kb_city "\<lambda>n. 0" 20 "''dagobah_lookup''"] h
  show ?thesis by blast
qed

text \<open>
  C1 fails on the code. The list for \<open>"CEA"\<close> is built by calling
  \<open>get_label_of_entity\<close> with a second argument, which the method does not take: with at
  least one annotated cell the construction raises (\<open>TypeError\<close>, or \<open>IndexError\<close> on an
  empty annotation list) and yields no entry. In consequence \<open>table_annotation\<close> either
  raises or returns the default record of a failed initialisation, never an annotated
  result.
\<close>

theorem annotated_CEA_raises:
  "annotated_CEA m =
     (case cea_annot m of
        [] \<Rightarrow> Inr []
      | entry # rest \<Rightarrow> (case snd entry of [] \<Rightarrow> Inl IndexError | c # cs \<Rightarrow> Inl TypeError)) \<and>
   ((\<exists>e. table_annotation X K clk raw_table k lookup_index = Inl e) \<or>
    table_annotation X K clk raw_table k lookup_index = Inr (default_output raw_table))"
proof
  show "annotated_CEA m =
     (case cea_annot m of
        [] \<Rightarrow> Inr []
      | entry # rest \<Rightarrow> (case snd entry of [] \<Rightarrow> Inl IndexError | c # cs \<Rightarrow> Inl TypeError))"
    by (simp add: annotated_CEA_def cea_output_entry_def call_get_label_of_entity_def bind_err_def
          split: list.splits)
  have out: "\<exists>e. build_output raw_table m4 = Inl e" for m4
    by (auto simp: build_output_def bind_err_def split: sum.splits)
  show "(\<exists>e. table_annotation X K clk raw_table k lookup_index = Inl e) \<or>
    table_annotation X K clk raw_table k lookup_index = Inr (default_output raw_table)"
    using out by (auto simp: table_annotation_def bind_err_def split: sum.splits)
qed

end
